theory Spec2Isabelle
  imports Main "HOL-Library.Char_ord" "HOL-Library.List_Lexorder" "HOL-Library.Sublist"
begin

section \<open>Strings\<close>

text \<open>
  Python's \<open>str\<close> is modelled by \<open>string\<close>, a list of 8-bit characters: the model
  covers the code points below 256. \<open>is_space\<close> lists the characters of that range that
  \<open>str.strip()\<close> removes, \<open>lower\<close> is \<open>str.lower()\<close> on that range.
\<close>

definition is_space :: "char \<Rightarrow> bool" where
  "is_space c \<longleftrightarrow>
     (of_char c :: nat) \<in> {9, 10, 11, 12, 13, 28, 29, 30, 31, 32, 133, 160}"

definition strip :: "string \<Rightarrow> string" where
  "strip s = rev (dropWhile is_space (rev (dropWhile is_space s)))"

definition is_upper :: "char \<Rightarrow> bool" where
  "is_upper c \<longleftrightarrow> 65 \<le> (of_char c :: nat) \<and> (of_char c :: nat) \<le> 90"

definition is_digit :: "char \<Rightarrow> bool" where
  "is_digit c \<longleftrightarrow> 48 \<le> (of_char c :: nat) \<and> (of_char c :: nat) \<le> 57"

definition lower_char :: "char \<Rightarrow> char" where
  "lower_char c =
     (let n = (of_char c :: nat) in
      if (65 \<le> n \<and> n \<le> 90) \<or> (192 \<le> n \<and> n \<le> 222 \<and> n \<noteq> 215)
      then char_of (n + 32) else c)"

definition lower :: "string \<Rightarrow> string" where
  "lower s = map lower_char s"

fun join :: "string \<Rightarrow> string list \<Rightarrow> string" where
  "join sep [] = []"
| "join sep [x] = x"
| "join sep (x # y # ys) = x @ sep @ join sep (y # ys)"

text \<open>\<open>int(s)\<close> on a string of decimal digits.\<close>

definition int_of_digits :: "string \<Rightarrow> nat" where
  "int_of_digits s = foldl (\<lambda>a c. 10 * a + ((of_char c :: nat) - 48)) 0 s"

fun string_of_nat :: "nat \<Rightarrow> string" where
  "string_of_nat n =
     (if n < 10 then [char_of (48 + n)]
      else string_of_nat (n div 10) @ [char_of (48 + n mod 10)])"

declare string_of_nat.simps [simp del]

text \<open>\<open>pandas.unique\<close>: the distinct values in order of first appearance.\<close>

definition unique :: "'a list \<Rightarrow> 'a list" where
  "unique xs = rev (remdups (rev xs))"

text \<open>
  A dictionary built from a list of pairs, as a dict comprehension does: for a key that
  occurs twice the last pair wins.
\<close>

definition dict_of :: "('k \<times> 'v) list \<Rightarrow> 'k \<rightharpoonup> 'v" where
  "dict_of kvs = map_of (rev kvs)"

text \<open>The slices \<open>xs[i:i + n]\<close> for \<open>i\<close> in \<open>range(0, len(xs), n)\<close>.\<close>

function chunks :: "nat \<Rightarrow> 'a list \<Rightarrow> 'a list list" where
  "chunks n xs = (if n = 0 \<or> xs = [] then [] else take n xs # chunks n (drop n xs))"
  by pat_completeness auto
termination
  by (relation "measure (\<lambda>(n, xs). length xs)") auto

declare chunks.simps [simp del]

section \<open>Errors\<close>

text \<open>
  Every exception of the source is a value. \<open>str_of_error\<close> is \<open>str(e)\<close>: the message of
  a plain \<open>Exception\<close>, \<open>status: detail\<close> for an \<open>HTTPException\<close> (its \<open>__str__\<close> in
  Starlette), and the printed key for a \<open>KeyError\<close>.
\<close>

datatype error = HTTPException nat string | PyException string | KeyError string

fun str_of_error :: "error \<Rightarrow> string" where
  "str_of_error (HTTPException code detail) = string_of_nat code @ '': '' @ detail"
| "str_of_error (PyException msg) = msg"
| "str_of_error (KeyError k) = k"

section \<open>Filenames\<close>

record filename_info =
  brand :: string
  sales_channel :: string
  date :: string
  batch :: string
  extension :: string

text \<open>\<open>os.path.basename\<close> (POSIX): what follows the last slash.\<close>

definition basename :: "string \<Rightarrow> string" where
  "basename p = rev (takeWhile (\<lambda>c. c \<noteq> CHR ''/'') (rev p))"

definition ends_with :: "string \<Rightarrow> string \<Rightarrow> bool" where
  "ends_with s ending \<longleftrightarrow>
     length ending \<le> length s \<and> drop (length s - length ending) s = ending"

definition rstrip_dashes :: "string \<Rightarrow> string" where
  "rstrip_dashes s = rev (dropWhile (\<lambda>c. c = CHR ''-'') (rev s))"

text \<open>
  \<open>re.sub(r'-+\.(xlsx|csv)$', r'.\1', filename)\<close>: a run of dashes right before a final
  \<open>.xlsx\<close> or \<open>.csv\<close> is removed. \<open>$\<close> also matches before one trailing newline.
\<close>

definition clean_dashes_before :: "string \<Rightarrow> string \<Rightarrow> string option" where
  "clean_dashes_before ext s =
     (if ends_with s ext \<and> ends_with (take (length s - length ext) s) ''-''
      then Some (rstrip_dashes (take (length s - length ext) s) @ ext) else None)"

definition clean_dashes :: "string \<Rightarrow> string" where
  "clean_dashes s =
     (case clean_dashes_before ''.xlsx'' s of Some t \<Rightarrow> t
      | None \<Rightarrow> (case clean_dashes_before ''.csv'' s of Some t \<Rightarrow> t | None \<Rightarrow> s))"

definition remove_trailing_dashes :: "string \<Rightarrow> string" where
  "remove_trailing_dashes filename =
     (if filename \<noteq> [] \<and> last filename = CHR 0x0A
         \<and> clean_dashes (butlast filename) \<noteq> butlast filename
      then clean_dashes (butlast filename) @ [CHR 0x0A]
      else clean_dashes filename)"

definition match_extension :: "string \<Rightarrow> string option" where
  "match_extension s =
     (if take 4 s = ''xlsx'' then Some ''xlsx''
      else if take 3 s = ''csv'' then Some ''csv'' else None)"

text \<open>
  One group of a pattern followed by a separator: the longest run of characters of the
  class, which must not be empty, then the separator. The classes and the separators of
  both patterns are disjoint, so the greedy match is the only one.
\<close>

definition match_group :: "(char \<Rightarrow> bool) \<Rightarrow> char \<Rightarrow> string \<Rightarrow> (string \<times> string) option" where
  "match_group cls sep s =
     (let g = takeWhile cls s; r = dropWhile cls s in
      if g = [] then None
      else (case r of [] \<Rightarrow> None | c # r' \<Rightarrow> if c = sep then Some (g, r') else None))"

text \<open>\<open>re.match(r"([A-Z]+)-([A-Z]+)-(\d+)-(\d+)\.(xlsx|csv)", filename)\<close>\<close>

definition match_pattern1 :: "string \<Rightarrow> (string \<times> string \<times> string \<times> string \<times> string) option" where
  "match_pattern1 s =
     (case match_group is_upper CHR ''-'' s of None \<Rightarrow> None
      | Some (g1, r1) \<Rightarrow>
     (case match_group is_upper CHR ''-'' r1 of None \<Rightarrow> None
      | Some (g2, r2) \<Rightarrow>
     (case match_group is_digit CHR ''-'' r2 of None \<Rightarrow> None
      | Some (g3, r3) \<Rightarrow>
     (case match_group is_digit CHR ''.'' r3 of None \<Rightarrow> None
      | Some (g4, r4) \<Rightarrow>
     (case match_extension r4 of None \<Rightarrow> None
      | Some e \<Rightarrow> Some (g1, g2, g3, g4, e))))))"

text \<open>\<open>re.match(r"([A-Z]+)-([A-Z]+)-(\d+)\.(xlsx|csv)", filename)\<close>\<close>

definition match_pattern2 :: "string \<Rightarrow> (string \<times> string \<times> string \<times> string) option" where
  "match_pattern2 s =
     (case match_group is_upper CHR ''-'' s of None \<Rightarrow> None
      | Some (g1, r1) \<Rightarrow>
     (case match_group is_upper CHR ''-'' r1 of None \<Rightarrow> None
      | Some (g2, r2) \<Rightarrow>
     (case match_group is_digit CHR ''.'' r2 of None \<Rightarrow> None
      | Some (g3, r3) \<Rightarrow>
     (case match_extension r3 of None \<Rightarrow> None
      | Some e \<Rightarrow> Some (g1, g2, g3, e)))))"

text \<open>
  \<open>parse_filename\<close> returns the parsed parts, \<open>None\<close> when neither pattern matches, and
  raises an \<open>HTTPException\<close> when a matched part is out of range.
\<close>

definition parse_filename :: "string \<Rightarrow> error + filename_info option" where
  "parse_filename filename0 =
     (let filename = remove_trailing_dashes (basename filename0) in
      case match_pattern1 filename of
        Some (b, sc, d, ba, e) \<Rightarrow>
          if length b > 20 \<or> length sc > 20
          then Inl (HTTPException 400 ''Brand or sales channel name too long'')
          else if \<not> list_all is_digit d \<or> int_of_digits d < 1 \<or> int_of_digits d > 31
          then Inl (HTTPException 400 ''Invalid date format in filename'')
          else if \<not> list_all is_digit ba \<or> length ba > 3
          then Inl (HTTPException 400 ''Invalid batch format in filename'')
          else Inr (Some \<lparr>brand = b, sales_channel = sc, date = d, batch = ba, extension = e\<rparr>)
      | None \<Rightarrow>
          (case match_pattern2 filename of
             Some (b, sc, ba, e) \<Rightarrow>
               if length b > 20 \<or> length sc > 20
               then Inl (HTTPException 400 ''Brand or sales channel name too long'')
               else if \<not> list_all is_digit ba \<or> length ba > 3
               then Inl (HTTPException 400 ''Invalid batch format in filename'')
               else Inr (Some \<lparr>brand = b, sales_channel = sc, date = ''1'', batch = ba,
                                extension = e\<rparr>)
           | None \<Rightarrow> Inr None))"

section \<open>Marketplace schema registry\<close>

record marketplace_mapping =
  mapping_brand :: string
  order_number :: string
  order_status :: string
  order_date :: "string option"
  wh_loc :: "string option"
  awb :: string
  transporter :: "string option"
  sla :: "string option"
  sku_field :: "string option"

definition MARKETPLACE_MAPPINGS :: "string \<Rightarrow> marketplace_mapping option" where
  "MARKETPLACE_MAPPINGS channel =
     (if channel = ''tiktok'' then Some
        \<lparr>mapping_brand = ''TIKTOK'', order_number = ''Order ID'',
         order_status = ''Order Substatus'', order_date = Some ''Created Time'',
         wh_loc = Some ''Warehouse Name'', awb = ''Tracking ID'',
         transporter = Some ''Shipping Provider Name'', sla = None,
         sku_field = Some ''Seller SKU''\<rparr>
      else if channel = ''zalora'' then Some
        \<lparr>mapping_brand = ''ZALORA'', order_number = ''Order Number'',
         order_status = ''Status'', order_date = Some ''Created at'',
         wh_loc = None, awb = ''Tracking Code'',
         transporter = Some ''Shipping Provider'', sla = None, sku_field = None\<rparr>
      else if channel = ''shopee'' then Some
        \<lparr>mapping_brand = ''SHOPEE'', order_number = ''No. Pesanan'',
         order_status = ''Status Pesanan'', order_date = Some ''Waktu Pesanan Dibuat'',
         wh_loc = Some ''Nama Gudang'', awb = ''No. Resi'',
         transporter = Some ''Opsi Pengiriman'',
         sla = Some ''Pesanan Harus Dikirimkan Sebelum (Menghindari keterlambatan)'',
         sku_field = Some ''Nomor Referensi SKU''\<rparr>
      else if channel = ''lazada'' then Some
        \<lparr>mapping_brand = ''LAZADA'', order_number = ''orderNumber'',
         order_status = ''status'', order_date = Some ''createTime'',
         wh_loc = Some ''wareHouse'', awb = ''trackingCode'',
         transporter = Some ''shippingProvider'', sla = Some ''ttsSla'',
         sku_field = Some ''sellerSku''\<rparr>
      else if channel = ''tokopedia'' then Some
        \<lparr>mapping_brand = ''TOKOPEDIA'', order_number = ''Nomor Invoice'',
         order_status = ''Status Terakhir'', order_date = None,
         wh_loc = None, awb = ''No Resi / Kode Booking'',
         transporter = None, sla = None, sku_field = None\<rparr>
      else if channel = ''blibli'' then Some
        \<lparr>mapping_brand = ''BLIBLI'', order_number = ''No. Order'',
         order_status = ''Order Status'', order_date = Some ''Tanggal Order'',
         wh_loc = None, awb = ''No. Awb'',
         transporter = Some ''Servis Logistik'', sla = None,
         sku_field = Some ''Merchant SKU''\<rparr>
      else if channel = ''ginee'' then Some
        \<lparr>mapping_brand = ''GINEE'', order_number = ''Order ID'',
         order_status = ''Status'', order_date = Some ''Create Time'',
         wh_loc = None, awb = ''AWB/Tracking code'',
         transporter = Some ''Courier'', sla = Some ''Ship Before'',
         sku_field = Some ''SKU''\<rparr>
      else if channel = ''desty'' then Some
        \<lparr>mapping_brand = ''DESTY'',
         order_number = ''Nomor Pesanan'' @ [CHR 0x0A] @ ''(di Desty)'',
         order_status = ''Status Pesanan'', order_date = Some ''Tanggal Pesanan Dibuat'',
         wh_loc = Some (''Nama Gudang'' @ [CHR 0x0A] @ ''Master''), awb = ''Nomor AWB/Resi'',
         transporter = Some ''Kurir'', sla = Some ''Dikirim Sebelum'',
         sku_field = Some ''SKU Marketplace''\<rparr>
      else if channel = ''jubelio'' then Some
        \<lparr>mapping_brand = ''JUBELIO'', order_number = ''salesorder_no'',
         order_status = ''internal_status'', order_date = Some ''created_date'',
         wh_loc = Some ''location_name'', awb = ''tracking_no'',
         transporter = Some ''shipper'', sla = Some ''shipment_type'',
         sku_field = Some ''SKU''\<rparr>
      else None)"

definition get_marketplace_mapping :: "string \<Rightarrow> marketplace_mapping option" where
  "get_marketplace_mapping channel =
     (if channel = [] then None else MARKETPLACE_MAPPINGS (strip (lower channel)))"

section \<open>Spreadsheets\<close>

text \<open>
  A parsed spreadsheet is its column labels and its rows; a row gives each column's cell,
  \<open>None\<close> for an empty cell (NaN) and \<open>Some s\<close> for a cell whose \<open>str\<close> is \<open>s\<close>.
  \<open>cell_str\<close> is \<open>fillna('').astype(str)\<close> on one cell.
\<close>

type_synonym row = "string \<Rightarrow> string option"

record dataframe =
  columns :: "string list"
  rows :: "row list"

definition cell_str :: "string option \<Rightarrow> string" where
  "cell_str c = (case c of None \<Rightarrow> [] | Some s \<Rightarrow> s)"

text \<open>
  \<open>df[col].fillna('').astype(str) if col and col in df.columns else ''\<close>, read at one row.
\<close>

definition column_text :: "dataframe \<Rightarrow> string option \<Rightarrow> row \<Rightarrow> string" where
  "column_text df col r =
     (case col of None \<Rightarrow> []
      | Some c \<Rightarrow> if c \<noteq> [] \<and> c \<in> set (columns df) then cell_str (r c) else [])"

text \<open>\<open>df[col]\<close> for a column label that may be \<open>None\<close>: pandas raises \<open>KeyError\<close>.\<close>

definition get_column :: "dataframe \<Rightarrow> string option \<Rightarrow> error + string" where
  "get_column df col =
     (case col of None \<Rightarrow> Inl (KeyError ''None'')
      | Some c \<Rightarrow> if c \<in> set (columns df) then Inr c
                  else Inl (KeyError ([CHR 0x27] @ c @ [CHR 0x27])))"

section \<open>The environment of one upload\<close>

text \<open>
  What the pipeline reads from outside itself is a parameter: the clock, the date parsers
  of the libraries, the spreadsheet readers, whether opening the session or loading the
  task raises, and the external order-fulfilment system (whether a connection is made,
  the rows a query returns or the exception it raises, and whether the 30 second
  watchdog of a chunk fires before the chunk's query thread is joined).
\<close>

record external_row =
  ext_merchant_name :: "string option"
  ext_system_id :: "string option"
  ext_system_ref_id :: "string option"
  ext_order_status :: "string option"
  ext_order_date :: "int option"
  ext_awb :: "string option"
  ext_transporter_code :: "string option"
  ext_order_number :: string
  ext_item_id_flexo :: "string option"
  ext_interface_status :: string

record environment =
  current_time :: int
  completion_time :: int
  strptime_Ymd :: "string \<Rightarrow> int option"
  to_datetime :: "string \<Rightarrow> int option"
  read_excel :: "string \<Rightarrow> string + dataframe"
  read_csv :: "string \<Rightarrow> string + dataframe"
  session_error :: "string option"
  task_query_error :: "string option"
  connect :: bool
  execute :: "string \<Rightarrow> string list \<Rightarrow> string + external_row list"
  watchdog_fires :: "string list \<Rightarrow> bool"

section \<open>Order Normalizer\<close>

record 'sku processed_order =
  processed_order_number :: string
  processed_order_status :: string
  processed_awb :: string
  processed_transporter :: string
  processed_date :: int
  processed_sla :: string
  processed_sku :: 'sku

definition is_valid_order_number :: "string \<Rightarrow> bool" where
  "is_valid_order_number s \<longleftrightarrow> s \<noteq> [] \<and> s \<noteq> ''nan''"

text \<open>\<open>valid_df = df[(order_numbers != '') & (order_numbers != 'nan') & order_numbers.notna()]\<close>\<close>

definition valid_rows :: "dataframe \<Rightarrow> marketplace_mapping \<Rightarrow> row list" where
  "valid_rows df m =
     filter (\<lambda>r. is_valid_order_number (column_text df (Some (order_number m)) r)) (rows df)"

text \<open>The rows counted by \<open>non_empty_count\<close>.\<close>

definition non_empty_count :: "dataframe \<Rightarrow> marketplace_mapping \<Rightarrow> nat" where
  "non_empty_count df m =
     length (filter (\<lambda>r. let s = column_text df (Some (order_number m)) r
                          in s \<noteq> [] \<and> s \<noteq> ''nan'' \<and> strip s \<noteq> []) (rows df))"

definition tokopedia_date :: "environment \<Rightarrow> filename_info \<Rightarrow> int" where
  "tokopedia_date env info =
     (case strptime_Ymd env (date info) of Some d \<Rightarrow> d | None \<Rightarrow> current_time env)"

text \<open>
  \<open>pd.to_datetime(cell, dayfirst=True, errors='coerce')\<close>, then \<open>convert_to_wib\<close>, or the
  current time when the cell does not parse.
\<close>

definition process_date :: "environment \<Rightarrow> string option \<Rightarrow> int" where
  "process_date env c =
     (case c of None \<Rightarrow> current_time env
      | Some s \<Rightarrow> (case to_datetime env s of None \<Rightarrow> current_time env | Some d \<Rightarrow> d))"

text \<open>
  The column \<open>processed_date\<close>. Both branches read \<open>valid_df[order_date_col]\<close>; for
  Tokopedia the rows with an empty date take \<open>tokopedia_date\<close>.
\<close>

definition processed_dates ::
  "environment \<Rightarrow> filename_info \<Rightarrow> marketplace_mapping \<Rightarrow> dataframe \<Rightarrow> row list \<Rightarrow> error + int list"
where
  "processed_dates env info m df valid =
     (case get_column df (order_date m) of
        Inl e \<Rightarrow> Inl e
      | Inr c \<Rightarrow>
          Inr (map (\<lambda>r. if lower (sales_channel info) = ''tokopedia''
                            \<and> (r c = None \<or> r c = Some [])
                         then tokopedia_date env info
                         else process_date env (r c)) valid))"

definition process_rows ::
  "environment \<Rightarrow> filename_info \<Rightarrow> marketplace_mapping \<Rightarrow> dataframe
     \<Rightarrow> error + string processed_order list"
where
  "process_rows env info m df =
     (let valid = valid_rows df m in
      if valid = [] then Inl (PyException ''No valid order numbers found'')
      else
        (case processed_dates env info m df valid of
           Inl e \<Rightarrow> Inl e
         | Inr dates \<Rightarrow>
             (case get_column df (Some (order_status m)) of
                Inl e \<Rightarrow> Inl e
              | Inr status_col \<Rightarrow>
                  Inr (map (\<lambda>(r, d).
                        \<lparr>processed_order_number = strip (cell_str (r (order_number m))),
                         processed_order_status = cell_str (r status_col),
                         processed_awb = column_text df (Some (awb m)) r,
                         processed_transporter = column_text df (transporter m) r,
                         processed_date = d,
                         processed_sla = column_text df (sla m) r,
                         processed_sku = column_text df (sku_field m) r\<rparr>)
                       (zip valid dates)))))"

text \<open>\<open>aggregate_skus\<close>: the distinct non-empty SKUs, comma-joined, or \<open>None\<close>.\<close>

definition aggregate_skus :: "string list \<Rightarrow> string option" where
  "aggregate_skus series =
     (let valid_skus = unique (filter (\<lambda>s. s \<noteq> []) series)
      in if valid_skus = [] then None else Some (join '','' valid_skus))"

text \<open>
  \<open>valid_df.groupby('processed_order_number').agg(...).reset_index()\<close>: one row per key,
  keys in sorted order, \<open>first\<close> for every column but the SKUs.
\<close>

definition group_of :: "string \<Rightarrow> 'a processed_order list \<Rightarrow> 'a processed_order list" where
  "group_of k ps = filter (\<lambda>p. processed_order_number p = k) ps"

definition group_orders :: "string processed_order list \<Rightarrow> string option processed_order list" where
  "group_orders ps =
     map (\<lambda>k. let g = group_of k ps; f = hd g in
            \<lparr>processed_order_number = k,
             processed_order_status = processed_order_status f,
             processed_awb = processed_awb f,
             processed_transporter = processed_transporter f,
             processed_date = processed_date f,
             processed_sla = processed_sla f,
             processed_sku = aggregate_skus (map processed_sku g)\<rparr>)
         (sort (unique (map processed_order_number ps)))"

section \<open>Interface Reconciler\<close>

text \<open>The join-key column of the external order table, per marketplace.\<close>

definition MARKETPLACE_FIELD_MAPPING :: "string \<Rightarrow> string option" where
  "MARKETPLACE_FIELD_MAPPING marketplace =
     (if marketplace = ''ginee'' then Some ''OrigSystemRefId''
      else if marketplace = ''blibli'' then Some ''EntityId''
      else if marketplace = ''zalora'' then Some ''EntityId''
      else if marketplace = ''shopee'' then Some ''EntityId''
      else if marketplace = ''tiktok'' then Some ''EntityId''
      else if marketplace = ''desty'' then Some ''EntityId''
      else if marketplace = ''lazada'' then Some ''OrigSystemRefId''
      else if marketplace = ''jubelio'' then Some ''SystemRefId''
      else None)"

text \<open>
  One entry of \<open>all_results\<close> in \<open>check_external_database_status\<close>. The item ids are
  collected as a list and turned into a comma-joined string (or \<open>None\<close>) at the end.
\<close>

record 'items external_data =
  ed_system_id :: "string option"
  ed_merchant_name :: "string option"
  ed_system_ref_id :: "string option"
  ed_order_status :: "string option"
  ed_order_date :: "int option"
  ed_awb :: "string option"
  ed_transporter_code :: "string option"
  ed_item_id_flexo :: 'items
  ed_interface_status :: string

definition new_entry :: "external_row \<Rightarrow> string list external_data" where
  "new_entry r =
     \<lparr>ed_system_id = ext_system_id r, ed_merchant_name = ext_merchant_name r,
      ed_system_ref_id = ext_system_ref_id r, ed_order_status = ext_order_status r,
      ed_order_date = ext_order_date r, ed_awb = ext_awb r,
      ed_transporter_code = ext_transporter_code r, ed_item_id_flexo = [],
      ed_interface_status = ext_interface_status r\<rparr>"

definition add_result ::
  "(string \<rightharpoonup> string list external_data) \<Rightarrow> external_row
     \<Rightarrow> (string \<rightharpoonup> string list external_data)"
where
  "add_result all_results r =
     (let k = ext_order_number r;
          entry = (case all_results k of Some e \<Rightarrow> e | None \<Rightarrow> new_entry r)
      in all_results(k \<mapsto>
           (case ext_item_id_flexo r of
              None \<Rightarrow> entry
            | Some i \<Rightarrow>
                if i \<noteq> [] \<and> i \<notin> set (ed_item_id_flexo entry)
                then entry\<lparr>ed_item_id_flexo := ed_item_id_flexo entry @ [i]\<rparr>
                else entry)))"

text \<open>
  The loop over the chunks of one connection: an exception of a query ends the loop and
  keeps the results collected so far.
\<close>

fun query_chunks ::
  "(string list \<Rightarrow> string + external_row list) \<Rightarrow> string list list
     \<Rightarrow> (string \<rightharpoonup> string list external_data) \<Rightarrow> (string \<rightharpoonup> string list external_data)"
where
  "query_chunks exec [] acc = acc"
| "query_chunks exec (c # cs) acc =
     (case exec c of
        Inl _ \<Rightarrow> acc
      | Inr results \<Rightarrow> query_chunks exec cs (foldl add_result acc results))"

definition join_items :: "string list external_data \<Rightarrow> string option external_data" where
  "join_items e =
     \<lparr>ed_system_id = ed_system_id e, ed_merchant_name = ed_merchant_name e,
      ed_system_ref_id = ed_system_ref_id e, ed_order_status = ed_order_status e,
      ed_order_date = ed_order_date e, ed_awb = ed_awb e,
      ed_transporter_code = ed_transporter_code e,
      ed_item_id_flexo =
        (if ed_item_id_flexo e = [] then None else Some (join '','' (ed_item_id_flexo e))),
      ed_interface_status = ed_interface_status e\<rparr>"

definition check_external_database_status ::
  "environment \<Rightarrow> string list \<Rightarrow> string \<Rightarrow> (string \<rightharpoonup> string option external_data)"
where
  "check_external_database_status env order_numbers marketplace =
     (case MARKETPLACE_FIELD_MAPPING (lower marketplace) of
        None \<Rightarrow> Map.empty
      | Some field_mapping \<Rightarrow>
          if \<not> connect env then Map.empty
          else
            (let MAX_PARAMS_PER_QUERY = min 100 (length order_numbers);
                 all_results = query_chunks (execute env field_mapping)
                                 (chunks MAX_PARAMS_PER_QUERY order_numbers) Map.empty
             in (\<lambda>k. map_option join_items (all_results k))))"

text \<open>
  The two shapes of an entry of \<open>check_interface_status\<close>: an order found in the external
  system carries its external data, an order not found carries \<open>status\<close>
  \<open>Not Yet Interface\<close>, \<open>system_ref_id\<close> and \<open>item_id_flexo\<close> \<open>None\<close> and no \<open>order_status\<close>
  key.
\<close>

datatype interface_result = Found "string option external_data" | NotFound

definition check_interface_status ::
  "environment \<Rightarrow> string list \<Rightarrow> string \<Rightarrow> (string \<rightharpoonup> interface_result)"
where
  "check_interface_status env order_numbers marketplace =
     (let external_results = check_external_database_status env order_numbers marketplace
      in (\<lambda>order_id.
            if order_id \<in> set order_numbers
            then Some (case external_results order_id of
                         Some external_data \<Rightarrow> Found external_data
                       | None \<Rightarrow> NotFound)
            else None))"

definition EXTERNAL_CHUNK_SIZE :: nat where
  "EXTERNAL_CHUNK_SIZE = 100"

text \<open>
  The chunk loop of the pipeline, along the schedule in which a query thread either
  finishes before it is joined or has its chunk declared timed out and writes nothing
  afterwards: a chunk whose watchdog fires contributes \<open>{}\<close>. The schedules in which the
  thread writes late are the subject of the section on the watchdog race.
\<close>

fun reconcile_chunks ::
  "environment \<Rightarrow> string \<Rightarrow> string list list \<Rightarrow> (string \<rightharpoonup> interface_result)
     \<Rightarrow> (string \<rightharpoonup> interface_result)"
where
  "reconcile_chunks env marketplace [] interface_results = interface_results"
| "reconcile_chunks env marketplace (chunk # cs) interface_results =
     reconcile_chunks env marketplace cs
       (interface_results ++
          (if watchdog_fires env chunk then Map.empty
           else check_interface_status env chunk marketplace))"

definition order_numbers_list :: "string list \<Rightarrow> string list" where
  "order_numbers_list all_order_numbers = filter (\<lambda>n. n \<noteq> []) all_order_numbers"

definition reconcile :: "environment \<Rightarrow> string \<Rightarrow> string list \<Rightarrow> (string \<rightharpoonup> interface_result)" where
  "reconcile env marketplace all_order_numbers =
     reconcile_chunks env marketplace
       (chunks EXTERNAL_CHUNK_SIZE (order_numbers_list all_order_numbers)) Map.empty"

section \<open>Persistent state\<close>

record order_data =
  Marketplace :: string
  Brand :: string
  OrderNumber :: string
  OrderStatus :: string
  AWB :: string
  Transporter :: string
  OrderDate :: int
  SLA :: string
  Batch :: string
  PIC :: string
  UploadDate :: int
  TaskId :: string
  ItemId :: "string option"
  ItemIdFlexo :: "string option"
  InterfaceStatus :: string
  OrderNumberFlexo :: "string option"
  OrderStatusFlexo :: "string option"

record uploaded_order = order_data +
  Id :: nat
  Remarks :: string

record upload_task =
  task_id :: string
  task_name :: string
  status :: string
  task_marketplace :: string
  task_brand :: string
  task_batch :: string
  task_pic :: string
  total_orders :: nat
  processed_orders :: nat
  error_message :: "string option"
  completed_at :: "int option"

record upload_history =
  history_marketplace :: string
  history_brand :: string
  history_pic :: string
  history_batch :: string

record brand_shop =
  shop_brand :: string
  marketplace_id :: nat
  shop_key_1 :: "string option"

record database =
  uploaded_orders :: "uploaded_order list"
  next_order_id :: nat
  upload_tasks :: "upload_task list"
  file_upload_history :: "upload_history list"
  brand_shops :: "brand_shop list"

definition find_task :: "database \<Rightarrow> string \<Rightarrow> upload_task option" where
  "find_task db tid = find (\<lambda>t. task_id t = tid) (upload_tasks db)"

text \<open>A change of the loaded task row, committed.\<close>

definition update_task :: "string \<Rightarrow> (upload_task \<Rightarrow> upload_task) \<Rightarrow> database \<Rightarrow> database" where
  "update_task tid f db =
     db\<lparr>upload_tasks := map (\<lambda>t. if task_id t = tid then f t else t) (upload_tasks db)\<rparr>"

section \<open>Upsert Engine\<close>

text \<open>
  The canonical record of one order with the reconciler's answer merged in: the
  dictionary \<open>order_data\<close> after its \<open>update\<close>.
\<close>

definition interface_fields ::
  "interface_result option \<Rightarrow> string \<times> string option \<times> string option \<times> string option"
where
  "interface_fields r =
     (case r of
        Some (Found d) \<Rightarrow>
          (if ed_interface_status d = ''Interface'' then ''Interface'' else ''Not Yet Interface'',
           ed_system_ref_id d, ed_order_status d, ed_item_id_flexo d)
      | Some NotFound \<Rightarrow> (''Not Yet Interface'', None, Some [], None)
      | None \<Rightarrow> (''Not Yet Interface'', Some [], Some [], None))"

definition make_order_data ::
  "environment \<Rightarrow> filename_info \<Rightarrow> string \<Rightarrow> string \<Rightarrow> (string \<rightharpoonup> interface_result)
     \<Rightarrow> string option processed_order \<Rightarrow> order_data"
where
  "make_order_data env info tid current_user interface_results g =
     (case interface_fields (interface_results (processed_order_number g)) of
        (interface_status, number_flexo, status_flexo, item_flexo) \<Rightarrow>
          \<lparr>Marketplace = sales_channel info, Brand = brand info,
           OrderNumber = processed_order_number g,
           OrderStatus = processed_order_status g,
           AWB = processed_awb g, Transporter = processed_transporter g,
           OrderDate = processed_date g, SLA = processed_sla g,
           Batch = batch info, PIC = current_user, UploadDate = current_time env,
           TaskId = tid, ItemId = processed_sku g, ItemIdFlexo = item_flexo,
           InterfaceStatus = interface_status, OrderNumberFlexo = number_flexo,
           OrderStatusFlexo = status_flexo\<rparr>)"

text \<open>\<open>UploadedOrder(**order_data)\<close> with the next primary key; \<open>Remarks\<close> takes its default.\<close>

definition new_order :: "nat \<Rightarrow> order_data \<Rightarrow> uploaded_order" where
  "new_order i d =
     \<lparr>Marketplace = Marketplace d, Brand = Brand d, OrderNumber = OrderNumber d,
      OrderStatus = OrderStatus d, AWB = AWB d, Transporter = Transporter d,
      OrderDate = OrderDate d, SLA = SLA d, Batch = Batch d, PIC = PIC d,
      UploadDate = UploadDate d, TaskId = TaskId d, ItemId = ItemId d,
      ItemIdFlexo = ItemIdFlexo d, InterfaceStatus = InterfaceStatus d,
      OrderNumberFlexo = OrderNumberFlexo d, OrderStatusFlexo = OrderStatusFlexo d,
      Id = i, Remarks = []\<rparr>"

text \<open>The assignments of the update path; \<open>x or ''\<close> turns \<open>None\<close> into the empty string.\<close>

definition or_empty :: "string option \<Rightarrow> string option" where
  "or_empty v = (case v of None \<Rightarrow> Some [] | Some s \<Rightarrow> Some s)"

definition overwrite :: "uploaded_order \<Rightarrow> order_data \<Rightarrow> uploaded_order" where
  "overwrite existing_order new_data =
     existing_order
       \<lparr>Marketplace := Marketplace new_data, Brand := Brand new_data,
        OrderStatus := OrderStatus new_data, AWB := AWB new_data,
        Transporter := Transporter new_data, OrderDate := OrderDate new_data,
        SLA := SLA new_data, Batch := Batch new_data, PIC := PIC new_data,
        UploadDate := UploadDate new_data, InterfaceStatus := InterfaceStatus new_data,
        TaskId := TaskId new_data, Remarks := [],
        OrderNumberFlexo := or_empty (OrderNumberFlexo new_data),
        OrderStatusFlexo := or_empty (OrderStatusFlexo new_data),
        ItemId := ItemId new_data, ItemIdFlexo := ItemIdFlexo new_data\<rparr>"

text \<open>
  \<open>existing_orders_dict\<close>: the stored orders whose number is in the upload, by number.
\<close>

definition existing_orders_dict :: "uploaded_order list \<Rightarrow> string list \<Rightarrow> (string \<rightharpoonup> uploaded_order)" where
  "existing_orders_dict stored all_order_numbers =
     dict_of (map (\<lambda>order. (OrderNumber order, order))
                (filter (\<lambda>order. OrderNumber order \<in> set all_order_numbers) stored))"

text \<open>
  The unique constraint on \<open>OrderNumber\<close>: a bulk insert that would store a number twice
  raises and is rolled back (\<open>None\<close>); the fallback inserts row by row and skips each row
  that violates the constraint.
\<close>

definition bulk_insert_mappings ::
  "uploaded_order list \<Rightarrow> nat \<Rightarrow> order_data list \<Rightarrow> (uploaded_order list \<times> nat) option"
where
  "bulk_insert_mappings stored next_id orders_to_insert =
     (if distinct (map OrderNumber orders_to_insert)
         \<and> list_all (\<lambda>d. OrderNumber d \<notin> OrderNumber ` set stored) orders_to_insert
      then Some (stored @ map (\<lambda>(i, d). new_order (next_id + i) d)
                               (enumerate 0 orders_to_insert),
                 next_id + length orders_to_insert)
      else None)"

fun insert_individually ::
  "uploaded_order list \<Rightarrow> nat \<Rightarrow> order_data list \<Rightarrow> uploaded_order list \<times> nat"
where
  "insert_individually stored next_id [] = (stored, next_id)"
| "insert_individually stored next_id (d # ds) =
     (if OrderNumber d \<in> OrderNumber ` set stored
      then insert_individually stored next_id ds
      else insert_individually (stored @ [new_order next_id d]) (Suc next_id) ds)"

definition insert_orders ::
  "uploaded_order list \<Rightarrow> nat \<Rightarrow> order_data list \<Rightarrow> uploaded_order list \<times> nat"
where
  "insert_orders stored next_id orders_to_insert =
     (if orders_to_insert = [] then (stored, next_id)
      else (case bulk_insert_mappings stored next_id orders_to_insert of
              Some r \<Rightarrow> r
            | None \<Rightarrow> insert_individually stored next_id orders_to_insert))"

text \<open>The update path: each loaded row is overwritten in place.\<close>

fun update_orders ::
  "uploaded_order list \<Rightarrow> (uploaded_order \<times> order_data) list \<Rightarrow> uploaded_order list"
where
  "update_orders stored [] = stored"
| "update_orders stored ((existing_order, new_data) # us) =
     update_orders
       (map (\<lambda>order. if Id order = Id existing_order then overwrite order new_data else order)
          stored) us"

record upsert_result =
  new_count :: nat
  replaced_count :: nat

definition upsert :: "database \<Rightarrow> order_data list \<Rightarrow> database \<times> upsert_result" where
  "upsert db all_order_data =
     (let existing = existing_orders_dict (uploaded_orders db) (map OrderNumber all_order_data);
          orders_to_insert = filter (\<lambda>d. existing (OrderNumber d) = None) all_order_data;
          orders_to_update =
            concat (map (\<lambda>d. case existing (OrderNumber d) of
                                None \<Rightarrow> [] | Some order \<Rightarrow> [(order, d)]) all_order_data);
          (inserted, next_id) = insert_orders (uploaded_orders db) (next_order_id db) orders_to_insert;
          updated = update_orders inserted orders_to_update
      in (db\<lparr>uploaded_orders := updated, next_order_id := next_id\<rparr>,
          \<lparr>new_count = length orders_to_insert, replaced_count = length orders_to_update\<rparr>))"

section \<open>The background pipeline\<close>

definition read_file :: "environment \<Rightarrow> string \<Rightarrow> string \<Rightarrow> error + dataframe" where
  "read_file env filename file_content =
     (if ends_with filename ''.xlsx''
      then (case read_excel env file_content of Inl m \<Rightarrow> Inl (PyException m) | Inr df \<Rightarrow> Inr df)
      else if ends_with filename ''.csv''
      then (case read_csv env file_content of Inl m \<Rightarrow> Inl (PyException m) | Inr df \<Rightarrow> Inr df)
      else Inl (PyException ''Unsupported file format''))"

text \<open>
  The first steps of the \<open>try\<close> block, which write nothing: the filename is parsed, the
  file is read, the marketplace's schema is looked up.
\<close>

definition read_upload ::
  "environment \<Rightarrow> string \<Rightarrow> string \<Rightarrow> error + (filename_info \<times> dataframe \<times> marketplace_mapping)"
where
  "read_upload env filename file_content =
     (case parse_filename filename of
        Inl e \<Rightarrow> Inl e
      | Inr None \<Rightarrow> Inl (PyException ''Invalid filename format'')
      | Inr (Some info) \<Rightarrow>
     (case read_file env filename file_content of
        Inl e \<Rightarrow> Inl e
      | Inr df \<Rightarrow>
     (case get_marketplace_mapping (sales_channel info) of
        None \<Rightarrow> Inl (PyException (''Unsupported sales channel: '' @ sales_channel info))
      | Some m \<Rightarrow> Inr (info, df, m))))"

definition record_history :: "filename_info \<Rightarrow> string \<Rightarrow> database \<Rightarrow> database" where
  "record_history info current_user db =
     db\<lparr>file_upload_history := file_upload_history db @
          [\<lparr>history_marketplace = sales_channel info, history_brand = brand info,
            history_pic = current_user, history_batch = batch info\<rparr>]\<rparr>"

text \<open>The required columns of the marketplace that the file lacks, in the order checked.\<close>

definition missing_columns :: "dataframe \<Rightarrow> marketplace_mapping \<Rightarrow> string list" where
  "missing_columns df m =
     filter (\<lambda>expected_name. expected_name \<noteq> [] \<and> expected_name \<notin> set (columns df))
       ([order_number m, order_status m]
        @ (case order_date m of None \<Rightarrow> [] | Some c \<Rightarrow> [c])
        @ [awb m])"

text \<open>
  The two checks that mark the task failed themselves before they raise: the message
  stored on the task and the exception raised.
\<close>

definition check_columns ::
  "filename_info \<Rightarrow> dataframe \<Rightarrow> marketplace_mapping \<Rightarrow> (string \<times> error) option"
where
  "check_columns info df m =
     (if missing_columns df m \<noteq> [] then
        Some (''Missing required columns: '' @ join '', '' (missing_columns df m),
              PyException (''Missing required columns for '' @ sales_channel info @ '': ''
                           @ join '', '' (missing_columns df m)))
      else if non_empty_count df m = 0 then
        Some (''No valid order numbers found in '' @ order_number m @ '' column'',
              PyException (''No valid order numbers found in '' @ order_number m @ '' column''))
      else None)"

definition mark_failed :: "environment \<Rightarrow> string \<Rightarrow> string \<Rightarrow> database \<Rightarrow> database" where
  "mark_failed env tid msg db =
     update_task tid
       (\<lambda>t. t\<lparr>status := ''failed'', error_message := Some msg,
               completed_at := Some (completion_time env)\<rparr>) db"

record upload_result =
  new_orders :: nat
  replaced_orders :: nat
  interface_count :: nat
  not_interface_count :: nat
  result_total_orders :: nat

text \<open>
  \<open>all_order_data\<close>: the canonical records of the upload, each with the reconciler's
  answer for its order number.
\<close>

definition all_order_data ::
  "environment \<Rightarrow> filename_info \<Rightarrow> string \<Rightarrow> string \<Rightarrow> string processed_order list
     \<Rightarrow> order_data list"
where
  "all_order_data env info tid current_user processed =
     (let grouped_df = group_orders processed;
          all_order_numbers = map processed_order_number grouped_df;
          interface_results = reconcile env (sales_channel info) all_order_numbers
      in map (make_order_data env info tid current_user interface_results) grouped_df)"

text \<open>
  From the canonical records to the completed task: the upsert, the counts of this task's
  orders, and the task row set to \<open>completed\<close>.
\<close>

definition complete_upload ::
  "environment \<Rightarrow> filename_info \<Rightarrow> database \<Rightarrow> string \<Rightarrow> string \<Rightarrow> string processed_order list
     \<Rightarrow> database \<times> string list list \<times> (error + upload_result)"
where
  "complete_upload env info db tid current_user processed =
     (let all_order_numbers = map processed_order_number (group_orders processed);
          (db2, counts) = upsert db (all_order_data env info tid current_user processed);
          uploaded = filter (\<lambda>order. TaskId order = tid) (uploaded_orders db2);
          n_interface =
            length (filter (\<lambda>order. InterfaceStatus order = ''Interface'') uploaded);
          db3 = update_task tid
                  (\<lambda>t. t\<lparr>status := ''completed'', total_orders := length uploaded,
                          processed_orders := length uploaded,
                          completed_at := Some (completion_time env)\<rparr>) db2
      in (db3,
          chunks EXTERNAL_CHUNK_SIZE (order_numbers_list all_order_numbers),
          Inr \<lparr>new_orders = new_count counts,
               replaced_orders = replaced_count counts,
               interface_count = n_interface,
               not_interface_count = length uploaded - n_interface,
               result_total_orders = length uploaded\<rparr>))"

text \<open>
  The body of the \<open>try\<close> block after the task row is loaded. It returns the database as
  committed so far, the chunks sent to the external system, and the result or the
  exception raised. The in-memory upload log and the history of not-uploaded items
  (whose failure is swallowed) are left out, as is the unused \<open>order_skus\<close> grouping.
\<close>

definition pipeline_body ::
  "environment \<Rightarrow> database \<Rightarrow> string \<Rightarrow> string \<Rightarrow> string \<Rightarrow> string
     \<Rightarrow> database \<times> string list list \<times> (error + upload_result)"
where
  "pipeline_body env db tid file_content filename current_user =
     (case read_upload env filename file_content of
        Inl e \<Rightarrow> (db, [], Inl e)
      | Inr (info, df, m) \<Rightarrow>
          (case check_columns info df m of
             Some (msg, e) \<Rightarrow>
               (mark_failed env tid msg (record_history info current_user db), [], Inl e)
           | None \<Rightarrow>
               (case process_rows env info m df of
                  Inl e \<Rightarrow> (record_history info current_user db, [], Inl e)
                | Inr processed \<Rightarrow>
                    complete_upload env info (record_history info current_user db)
                      tid current_user processed)))"

text \<open>
  The session \<open>db\<close> of the pipeline: \<open>None\<close> until \<open>SessionLocal()\<close> returns, open
  afterwards, closed by the \<open>finally\<close> block when it is not \<open>None\<close>.
\<close>

datatype session_state = NotOpened | Opened | Closed

definition finally_close :: "session_state \<Rightarrow> session_state" where
  "finally_close db = (case db of NotOpened \<Rightarrow> NotOpened | _ \<Rightarrow> Closed)"

record outcome =
  final_db :: database
  session :: session_state
  external_queries :: "string list list"
  raised :: "error option"
  result :: "upload_result option"

text \<open>
  \<open>process_upload_background\<close>: the \<open>try\<close> block, the handler and the \<open>finally\<close> block.
  The handler marks the task failed only when \<open>task\<close> is a local variable and not \<open>None\<close>:
  an exception of \<open>SessionLocal()\<close> or of the task query leaves \<open>task\<close> unbound.
\<close>

definition process_upload_background ::
  "environment \<Rightarrow> database \<Rightarrow> string \<Rightarrow> string \<Rightarrow> string \<Rightarrow> string \<Rightarrow> outcome"
where
  "process_upload_background env db tid file_content filename current_user =
     (case session_error env of
        Some msg \<Rightarrow>
          \<lparr>final_db = db, session = finally_close NotOpened, external_queries = [],
           raised = Some (PyException msg), result = None\<rparr>
      | None \<Rightarrow>
     (case task_query_error env of
        Some msg \<Rightarrow>
          \<lparr>final_db = db, session = finally_close Opened, external_queries = [],
           raised = Some (PyException msg), result = None\<rparr>
      | None \<Rightarrow>
          (case pipeline_body env (update_task tid (\<lambda>t. t\<lparr>status := ''processing''\<rparr>) db)
                  tid file_content filename current_user of
             (db', queries, Inl e) \<Rightarrow>
               \<lparr>final_db = mark_failed env tid (str_of_error e) db',
                session = finally_close Opened, external_queries = queries,
                raised = Some e, result = None\<rparr>
           | (db', queries, Inr r) \<Rightarrow>
               \<lparr>final_db = db', session = finally_close Opened, external_queries = queries,
                raised = None, result = Some r\<rparr>)))"

text \<open>A sequence of uploads, each processed to its end before the next starts.\<close>

record upload =
  upload_env :: environment
  upload_task_id :: string
  upload_content :: string
  upload_filename :: string
  upload_user :: string

definition process_upload :: "database \<Rightarrow> upload \<Rightarrow> outcome" where
  "process_upload db u =
     process_upload_background (upload_env u) db (upload_task_id u) (upload_content u)
       (upload_filename u) (upload_user u)"

fun run_uploads :: "database \<Rightarrow> upload list \<Rightarrow> database" where
  "run_uploads db [] = db"
| "run_uploads db (u # us) = run_uploads (final_db (process_upload db u)) us"

section \<open>Orderlist Handoff Writer\<close>

definition marketplace_id_mapping :: "string \<Rightarrow> nat option" where
  "marketplace_id_mapping marketplace =
     (if marketplace = ''tokopedia'' then Some 1
      else if marketplace = ''shopee'' then Some 2
      else if marketplace = ''lazada'' then Some 3
      else if marketplace = ''zalora'' then Some 6
      else if marketplace = ''ginee'' then Some 27
      else if marketplace = ''blibli'' then Some 7
      else if marketplace = ''jdid'' then Some 8
      else if marketplace = ''jubelio'' then Some 9
      else if marketplace = ''shopify'' then Some 10
      else if marketplace = ''tiktok'' then Some 11
      else if marketplace = ''b2b'' then Some 12
      else if marketplace = ''desty'' then Some 23
      else None)"

text \<open>
  The shop key of a brand on a marketplace: \<open>shop_key_1\<close> of the first matching row of
  \<open>brand_shops\<close>, \<open>None\<close> when there is no row or the key is empty.
\<close>

definition get_shop_id_from_brand_shops :: "string \<Rightarrow> string \<Rightarrow> database \<Rightarrow> string option" where
  "get_shop_id_from_brand_shops brand_name marketplace_name db =
     (case marketplace_id_mapping (lower marketplace_name) of
        None \<Rightarrow> None
      | Some mid \<Rightarrow>
          (case find (\<lambda>s. lower (shop_brand s) = lower brand_name \<and> marketplace_id s = mid)
                  (brand_shops db) of
             None \<Rightarrow> None
           | Some brand_shop \<Rightarrow>
               (case shop_key_1 brand_shop of
                  None \<Rightarrow> None
                | Some k \<Rightarrow> if k = [] then None else Some k)))"

definition marketplace_folder_mapping :: "string \<Rightarrow> string option" where
  "marketplace_folder_mapping channel =
     (if channel = ''shopee'' then Some ''Shopee''
      else if channel = ''lazada'' then Some ''Lazada''
      else if channel = ''blibli'' then Some ''Blibli''
      else if channel = ''desty'' then Some ''Desty''
      else if channel = ''ginee'' then Some ''Ginee''
      else if channel = ''tiktok'' then Some ''Tiktok''
      else if channel = ''zalora'' then Some ''Zalora''
      else if channel = ''jubelio'' then Some ''Jubelio''
      else None)"

text \<open>
  The filesystem is a map from paths to file contents. A text file read back is split
  into lines at \<open>\n\<close> and \<open>\r\<close> (universal newlines); \<open>count_orders\<close> is the number of
  lines that are not blank, as the verifier counts them.
\<close>

type_synonym filesystem = "string \<rightharpoonup> string"

definition is_line_break :: "char \<Rightarrow> bool" where
  "is_line_break c \<longleftrightarrow> c = CHR 0x0A \<or> c = CHR 0x0D"

fun split_lines :: "string \<Rightarrow> string list" where
  "split_lines [] = [[]]"
| "split_lines (c # cs) =
     (if is_line_break c then [] # split_lines cs
      else (case split_lines cs of [] \<Rightarrow> [[c]] | l # ls \<Rightarrow> (c # l) # ls))"

definition count_orders :: "string \<Rightarrow> nat" where
  "count_orders content = length (filter (\<lambda>line. strip line \<noteq> []) (split_lines content))"

text \<open>
  \<open>verify_and_restore_orderlist\<close>. With \<open>backup_path = None\<close> the call
  \<open>os.path.exists(backup_path)\<close> raises; the handler returns \<open>False\<close>.
\<close>

definition verify_and_restore_orderlist ::
  "filesystem \<Rightarrow> string \<Rightarrow> string option \<Rightarrow> nat \<Rightarrow> filesystem \<times> bool"
where
  "verify_and_restore_orderlist fs orderlist_path backup_path expected_count =
     (case fs orderlist_path of
        None \<Rightarrow>
          (case backup_path of
             None \<Rightarrow> (fs, False)
           | Some b \<Rightarrow>
               (case fs b of
                  Some backup \<Rightarrow> (fs(orderlist_path \<mapsto> backup), True)
                | None \<Rightarrow> (fs, False)))
      | Some content \<Rightarrow>
          if count_orders content \<noteq> expected_count then
            (case backup_path of
               None \<Rightarrow> (fs, False)
             | Some b \<Rightarrow>
                 (case fs b of
                    Some backup \<Rightarrow>
                      (fs(orderlist_path \<mapsto> backup), count_orders backup = expected_count)
                  | None \<Rightarrow> (fs, False)))
          else (fs, True))"

definition orderlist_line :: "string \<Rightarrow> string option \<Rightarrow> string \<Rightarrow> string" where
  "orderlist_line channel shop number =
     (if lower channel = ''zalora'' \<or> lower channel = ''blibli''
      then (case shop of
              Some k \<Rightarrow> number @ '','' @ k @ [CHR 0x0A]
            | None \<Rightarrow> number @ [CHR 0x0A])
      else number @ [CHR 0x0A])"

record orderlist_report =
  success :: bool
  reason :: "string option"
  order_count :: nat
  shop_id :: "string option"
  shop_id_warning :: bool
  verification_result :: bool

definition no_orderlist :: "string \<Rightarrow> orderlist_report" where
  "no_orderlist why =
     \<lparr>success = False, reason = Some why, order_count = 0, shop_id = None,
      shop_id_warning = False, verification_result = False\<rparr>"

text \<open>
  \<open>generate_orderlist_for_not_interfaced\<close>, with the path of the file (the workspace
  folder and the task-scoped name) given. The configuration files for the downstream
  application and the permission bits of the file are left out; \<open>verification_result\<close>,
  which the source only prints a warning about, is kept in the report.
\<close>

definition generate_orderlist_for_not_interfaced ::
  "filesystem \<Rightarrow> string \<Rightarrow> uploaded_order list \<Rightarrow> string \<Rightarrow> string \<Rightarrow> database
     \<Rightarrow> filesystem \<times> orderlist_report"
where
  "generate_orderlist_for_not_interfaced fs orderlist_path orders channel brand_name db =
     (let not_interfaced_orders =
            filter (\<lambda>order. InterfaceStatus order = ''Not Yet Interface'') orders
      in
      if not_interfaced_orders = [] then (fs, no_orderlist ''no_not_interfaced_orders'')
      else
        (case marketplace_folder_mapping (lower channel) of
           None \<Rightarrow> (fs, no_orderlist ''unknown_marketplace'')
         | Some marketplace_folder \<Rightarrow>
             (let shop = get_shop_id_from_brand_shops brand_name channel db;
                  order_numbers = filter (\<lambda>n. n \<noteq> []) (map OrderNumber not_interfaced_orders);
                  written = fs(orderlist_path \<mapsto>
                               concat (map (orderlist_line channel shop) order_numbers));
                  (fs', verified) =
                    verify_and_restore_orderlist written orderlist_path None
                      (length order_numbers)
              in (fs', \<lparr>success = True, reason = None, order_count = length order_numbers,
                        shop_id = shop, shop_id_warning = (shop = None),
                        verification_result = verified\<rparr>))))"

section \<open>Upload submission\<close>

record upload_file =
  file_filename :: string
  file_size :: "nat option"
  file_content_type :: string
  file_bytes :: string

definition MAX_FILE_SIZE :: nat where
  "MAX_FILE_SIZE = 50 * 1024 * 1024"

definition ALLOWED_EXTENSIONS :: "string list" where
  "ALLOWED_EXTENSIONS = [''.xlsx'', ''.csv'']"

definition ALLOWED_MIME_TYPES :: "string list" where
  "ALLOWED_MIME_TYPES =
     [''application/vnd.openxmlformats-officedocument.spreadsheetml.sheet'',
      ''text/csv'', ''application/csv'']"

text \<open>
  \<open>os.path.splitext(p)[1]\<close> (POSIX): from the last dot of the last path component, unless
  only dots precede it there.
\<close>

definition splitext_ext :: "string \<Rightarrow> string" where
  "splitext_ext p =
     (let name = basename p;
          stem = rev (drop 1 (dropWhile (\<lambda>c. c \<noteq> CHR ''.'') (rev name)))
      in if CHR ''.'' \<in> set name \<and> \<not> list_all (\<lambda>c. c = CHR ''.'') stem
         then CHR ''.'' # rev (takeWhile (\<lambda>c. c \<noteq> CHR ''.'') (rev name))
         else [])"

fun contains :: "string \<Rightarrow> string \<Rightarrow> bool" where
  "contains [] sub = (sub = [])"
| "contains (c # cs) sub = (take (length sub) (c # cs) = sub \<or> contains cs sub)"

definition upper_char :: "char \<Rightarrow> char" where
  "upper_char c =
     (let n = (of_char c :: nat) in
      if (97 \<le> n \<and> n \<le> 122) \<or> (224 \<le> n \<and> n \<le> 254 \<and> n \<noteq> 247)
      then char_of (n - 32) else c)"

definition upper :: "string \<Rightarrow> string" where
  "upper s = map upper_char s"

text \<open>
  \<open>validate_upload_request\<close>: every rejection is an \<open>HTTPException\<close>; any other exception
  (here: comparing a size that is \<open>None\<close>) becomes \<open>Upload validation failed\<close>.
\<close>

definition validate_upload_request ::
  "upload_file \<Rightarrow> database \<Rightarrow> error + (filename_info \<times> string)"
where
  "validate_upload_request file db =
     (case file_size file of
        None \<Rightarrow> Inl (HTTPException 400 ''Upload validation failed'')
      | Some n \<Rightarrow>
     (if n > MAX_FILE_SIZE
      then Inl (HTTPException 413 ''File too large. Maximum size is 50MB'')
      else if file_filename file = []
      then Inl (HTTPException 400 ''No filename provided'')
      else if lower (splitext_ext (file_filename file)) \<notin> set ALLOWED_EXTENSIONS
      then Inl (HTTPException 400
                 (''Invalid file type. Allowed types: '' @ join '', '' ALLOWED_EXTENSIONS))
      else if file_content_type file \<notin> set ALLOWED_MIME_TYPES
      then Inl (HTTPException 400 ''Invalid file MIME type'')
      else if list_ex (contains (file_filename file))
                [''..'', ''/'', [CHR 0x5C], ''<'', ''>'', '':'', [CHR 0x22], ''|'', ''?'', ''*'']
      then Inl (HTTPException 400 ''Invalid characters in filename'')
      else
        (case parse_filename (file_filename file) of
           Inl e \<Rightarrow> Inl e
         | Inr None \<Rightarrow> Inl (HTTPException 400 ''Invalid filename format'')
         | Inr (Some info) \<Rightarrow>
             (case get_shop_id_from_brand_shops (brand info) (sales_channel info) db of
                None \<Rightarrow>
                  Inl (HTTPException 400
                        (''No shop_id found for '' @ brand info @ '' in '' @ sales_channel info
                         @ ''. Please add shop_id configuration before uploading.''))
              | Some shop \<Rightarrow> Inr (info, shop)))))"

record background_job =
  job_task_id :: string
  job_file_content :: string
  job_filename :: string
  job_current_user :: string

record upload_response =
  response_task_id :: string
  response_status :: string
  response_brand :: string
  response_batch :: string
  response_pic :: string

text \<open>
  The endpoint \<open>upload_file_background\<close>, given the task id it generates. It returns the
  response or the \<open>HTTPException\<close> raised, the database, and the background jobs added.
  Its handler catches every exception, those of the validation too, and raises status 500
  with the caught exception's text.
\<close>

definition upload_file_background ::
  "string \<Rightarrow> upload_file \<Rightarrow> string \<Rightarrow> database
     \<Rightarrow> (error + upload_response) \<times> database \<times> background_job list"
where
  "upload_file_background new_task_id file current_user db =
     (case validate_upload_request file db of
        Inl e \<Rightarrow>
          (Inl (HTTPException 500 (''Background upload failed: '' @ str_of_error e)), db, [])
      | Inr (info, shop) \<Rightarrow>
          (let marketplace_name =
                 (case get_marketplace_mapping (sales_channel info) of
                    Some m \<Rightarrow> mapping_brand m
                  | None \<Rightarrow> upper (sales_channel info));
               task = \<lparr>task_id = new_task_id, task_name = file_filename file,
                       status = ''pending'', task_marketplace = marketplace_name,
                       task_brand = brand info, task_batch = batch info,
                       task_pic = current_user, total_orders = 0, processed_orders = 0,
                       error_message = None, completed_at = None\<rparr>
           in (Inr \<lparr>response_task_id = new_task_id, response_status = ''pending'',
                    response_brand = brand info, response_batch = batch info,
                    response_pic = current_user\<rparr>,
               db\<lparr>upload_tasks := upload_tasks db @ [task]\<rparr>,
               [\<lparr>job_task_id = new_task_id, job_file_content = file_bytes file,
                 job_filename = file_filename file, job_current_user = current_user\<rparr>])))"

section \<open>The chunk watchdog and the query thread\<close>

text \<open>
  The timeout protection of one chunk runs three threads: the pipeline's own (main)
  thread, the timer thread of \<open>threading.Timer(30.0, timeout_handler)\<close> and the daemon
  thread that runs \<open>check_with_timeout\<close>. They share the variable
  \<open>chunk_interface_results\<close> (the thread assigns it through \<open>nonlocal\<close>) and the event
  \<open>timeout_occurred\<close>. A state holds the main thread's position, the shared variables
  and the states of the two other threads; one step is one statement of one thread.
  \<open>completed_late\<close> records that the query thread finished after the watchdog had fired.
\<close>

datatype main_pc =
  Prepare | StartTimer | StartThread | Join | CancelTimer | TestTimeout | TestAlive | Merge
  | NextChunk

datatype timer_state = TimerNew | TimerArmed | TimerFired | TimerCancelled

datatype thread_state = ThreadNew | ThreadRunning | ThreadFinished

record chunk_run =
  pc :: main_pc
  chunk_interface_results :: "string \<rightharpoonup> interface_result"
  timeout_occurred :: bool
  timer :: timer_state
  check_thread :: thread_state
  merged_results :: "string \<rightharpoonup> interface_result"
  completed_late :: bool

datatype thread_event = MainThread | TimerThread | QueryThread

definition chunk_start :: "(string \<rightharpoonup> interface_result) \<Rightarrow> chunk_run" where
  "chunk_start interface_results =
     \<lparr>pc = Prepare, chunk_interface_results = Map.empty, timeout_occurred = False,
      timer = TimerNew, check_thread = ThreadNew, merged_results = interface_results,
      completed_late = False\<rparr>"

text \<open>
  The statements of the main thread, in the order of the source. \<open>join(timeout=30)\<close>
  returns when the query thread has finished or when its 30 seconds have passed; the
  timer was started before the join, so a timer that has fired tells that they have.
\<close>

definition main_step :: "chunk_run \<Rightarrow> chunk_run option" where
  "main_step s =
     (case pc s of
        Prepare \<Rightarrow>
          Some (s\<lparr>chunk_interface_results := Map.empty, timeout_occurred := False,
                  pc := StartTimer\<rparr>)
      | StartTimer \<Rightarrow> Some (s\<lparr>timer := TimerArmed, pc := StartThread\<rparr>)
      | StartThread \<Rightarrow> Some (s\<lparr>check_thread := ThreadRunning, pc := Join\<rparr>)
      | Join \<Rightarrow>
          if check_thread s = ThreadFinished \<or> timer s = TimerFired
          then Some (s\<lparr>pc := CancelTimer\<rparr>) else None
      | CancelTimer \<Rightarrow>
          Some (s\<lparr>timer := (if timer s = TimerArmed then TimerCancelled else timer s),
                  pc := TestTimeout\<rparr>)
      | TestTimeout \<Rightarrow>
          Some (if timeout_occurred s
                then s\<lparr>chunk_interface_results := Map.empty, pc := TestAlive\<rparr>
                else s\<lparr>pc := TestAlive\<rparr>)
      | TestAlive \<Rightarrow> Some (s\<lparr>pc := Merge\<rparr>)
      | Merge \<Rightarrow>
          Some (s\<lparr>merged_results := merged_results s ++ chunk_interface_results s,
                  pc := NextChunk\<rparr>)
      | NextChunk \<Rightarrow> None)"

text \<open>
  One step of the thread the scheduler picks, \<open>None\<close> when that thread cannot move. The
  timer thread runs \<open>timeout_handler\<close> once, unless cancelled first; the query thread
  ends by assigning the answer of \<open>check_interface_status\<close> to the shared variable.
\<close>

definition chunk_step ::
  "(string \<rightharpoonup> interface_result) \<Rightarrow> chunk_run \<Rightarrow> thread_event \<Rightarrow> chunk_run option"
where
  "chunk_step answer s ev =
     (case ev of
        MainThread \<Rightarrow> main_step s
      | TimerThread \<Rightarrow>
          if timer s = TimerArmed
          then Some (s\<lparr>timeout_occurred := True, timer := TimerFired\<rparr>) else None
      | QueryThread \<Rightarrow>
          if check_thread s = ThreadRunning
          then Some (s\<lparr>chunk_interface_results := answer, check_thread := ThreadFinished,
                       completed_late := (timer s = TimerFired)\<rparr>)
          else None)"

fun run_schedule ::
  "(string \<rightharpoonup> interface_result) \<Rightarrow> chunk_run \<Rightarrow> thread_event list \<Rightarrow> chunk_run option"
where
  "run_schedule answer s [] = Some s"
| "run_schedule answer s (ev # evs) =
     (case chunk_step answer s ev of
        None \<Rightarrow> None
      | Some s' \<Rightarrow> run_schedule answer s' evs)"

section \<open>Notions used to state the properties\<close>

text \<open>
  A store is well formed when no two records share an order number or a primary key and
  every primary key is below the next one to be given out.
\<close>

definition wf_store :: "database \<Rightarrow> bool" where
  "wf_store db \<longleftrightarrow>
     distinct (map OrderNumber (uploaded_orders db))
     \<and> distinct (map Id (uploaded_orders db))
     \<and> list_all (\<lambda>order. Id order < next_order_id db) (uploaded_orders db)"

text \<open>Two stored records that agree in every field but the foreign order number and status.\<close>

definition agree_but_foreign :: "uploaded_order \<Rightarrow> uploaded_order \<Rightarrow> bool" where
  "agree_but_foreign a b \<longleftrightarrow>
     a\<lparr>OrderNumberFlexo := None, OrderStatusFlexo := None\<rparr>
       = b\<lparr>OrderNumberFlexo := None, OrderStatusFlexo := None\<rparr>"

text \<open>
  A stored record with a NULL foreign order number or foreign order status turned into the
  empty string, as \<open>x or ''\<close> does.
\<close>

definition null_to_empty :: "uploaded_order \<Rightarrow> uploaded_order" where
  "null_to_empty order =
     order\<lparr>OrderNumberFlexo := or_empty (OrderNumberFlexo order),
           OrderStatusFlexo := or_empty (OrderStatusFlexo order)\<rparr>"

text \<open>
  The order numbers of a spreadsheet: the trimmed order numbers of its valid rows, none
  when the spreadsheet cannot be read.
\<close>

definition upload_numbers :: "environment \<Rightarrow> string \<Rightarrow> string \<Rightarrow> string set" where
  "upload_numbers env filename file_content =
     (case read_upload env filename file_content of
        Inl e \<Rightarrow> {}
      | Inr (info, df, m) \<Rightarrow>
          (\<lambda>r. strip (cell_str (r (order_number m)))) ` set (valid_rows df m))"

text \<open>
  An order number is absent from the external result set when the connection to the
  external system is not made, or when no query returns a row with that order number.
\<close>

definition absent_from_external :: "environment \<Rightarrow> string \<Rightarrow> bool" where
  "absent_from_external env k \<longleftrightarrow>
     \<not> connect env
     \<or> (\<forall>field_mapping chunk results.
           execute env field_mapping chunk = Inr results
             \<longrightarrow> k \<notin> ext_order_number ` set results)"

text \<open>
  The order numbers the handoff file is to carry: the non-empty numbers of the orders that
  are not yet interfaced. A number is clean when it has a character that is not white
  space and no line break; a shop key is clean when it has no line break.
\<close>

definition not_interfaced_numbers :: "uploaded_order list \<Rightarrow> string list" where
  "not_interfaced_numbers orders =
     filter (\<lambda>n. n \<noteq> [])
       (map OrderNumber (filter (\<lambda>order. InterfaceStatus order = ''Not Yet Interface'') orders))"

definition clean_number :: "string \<Rightarrow> bool" where
  "clean_number n \<longleftrightarrow> strip n \<noteq> [] \<and> list_all (\<lambda>c. \<not> is_line_break c) n"

definition clean_key :: "string option \<Rightarrow> bool" where
  "clean_key shop \<longleftrightarrow> (case shop of None \<Rightarrow> True | Some k \<Rightarrow> list_all (\<lambda>c. \<not> is_line_break c) k)"

text \<open>The rows a successful bulk insert appends.\<close>

definition new_rows :: "nat \<Rightarrow> order_data list \<Rightarrow> uploaded_order list" where
  "new_rows n ds = map (\<lambda>(i, d). new_order (n + i) d) (enumerate 0 ds)"

section \<open>Example inputs\<close>

text \<open>
  A Shopee export with two rows for order \<open>S-100\<close> (two SKUs, the second row's order
  number padded with blanks) and one row for \<open>S-101\<close>.
\<close>

definition example_df :: dataframe where
  "example_df =
     \<lparr>columns = [''No. Pesanan'', ''Status Pesanan'', ''Waktu Pesanan Dibuat'', ''No. Resi'',
                 ''Nomor Referensi SKU''],
      rows =
        [[''No. Pesanan'' \<mapsto> ''S-100'', ''Status Pesanan'' \<mapsto> ''Paid'',
          ''No. Resi'' \<mapsto> ''R1'', ''Nomor Referensi SKU'' \<mapsto> ''SKU-A''],
         [''No. Pesanan'' \<mapsto> ''S-101'', ''Status Pesanan'' \<mapsto> ''Sent'',
          ''No. Resi'' \<mapsto> ''R2'', ''Nomor Referensi SKU'' \<mapsto> ''SKU-C''],
         [''No. Pesanan'' \<mapsto> '' S-100 '', ''Status Pesanan'' \<mapsto> ''Other'',
          ''No. Resi'' \<mapsto> ''R3'', ''Nomor Referensi SKU'' \<mapsto> ''SKU-B'']]\<rparr>"

definition example_info :: filename_info where
  "example_info =
     \<lparr>brand = ''AURA'', sales_channel = ''SHOPEE'', date = ''5'', batch = ''1'',
      extension = ''xlsx''\<rparr>"

definition example_mapping :: marketplace_mapping where
  "example_mapping = the (MARKETPLACE_MAPPINGS ''shopee'')"

text \<open>The valid rows of the example with their processed columns.\<close>

definition example_processed :: "string processed_order list" where
  "example_processed =
     [\<lparr>processed_order_number = ''S-100'', processed_order_status = ''Paid'',
       processed_awb = ''R1'', processed_transporter = [], processed_date = 7,
       processed_sla = [], processed_sku = ''SKU-A''\<rparr>,
      \<lparr>processed_order_number = ''S-101'', processed_order_status = ''Sent'',
       processed_awb = ''R2'', processed_transporter = [], processed_date = 7,
       processed_sla = [], processed_sku = ''SKU-C''\<rparr>,
      \<lparr>processed_order_number = ''S-100'', processed_order_status = ''Other'',
       processed_awb = ''R3'', processed_transporter = [], processed_date = 7,
       processed_sla = [], processed_sku = ''SKU-B''\<rparr>]"

text \<open>The same export without its tracking column.\<close>

definition example_df_no_awb :: dataframe where
  "example_df_no_awb =
     example_df\<lparr>columns := [''No. Pesanan'', ''Status Pesanan'', ''Waktu Pesanan Dibuat'',
                             ''Nomor Referensi SKU'']\<rparr>"

text \<open>A Tokopedia export with every column of its schema.\<close>

definition example_df_tokopedia :: dataframe where
  "example_df_tokopedia =
     \<lparr>columns = [''Nomor Invoice'', ''Status Terakhir'', ''No Resi / Kode Booking''],
      rows =
        [[''Nomor Invoice'' \<mapsto> ''INV/1'', ''Status Terakhir'' \<mapsto> ''Paid'',
          ''No Resi / Kode Booking'' \<mapsto> ''R1'']]\<rparr>"

text \<open>
  An environment in which the connection to the external system fails, and one in which
  the external system knows \<open>S-100\<close> as interfaced.
\<close>

definition example_env :: environment where
  "example_env =
     \<lparr>current_time = 7, completion_time = 9, strptime_Ymd = (\<lambda>_. None),
      to_datetime = (\<lambda>_. None), read_excel = (\<lambda>_. Inr example_df),
      read_csv = (\<lambda>_. Inl ''not a csv file''), session_error = None,
      task_query_error = None, connect = False, execute = (\<lambda>_ _. Inr []),
      watchdog_fires = (\<lambda>_. False)\<rparr>"

definition example_row :: external_row where
  "example_row =
     \<lparr>ext_merchant_name = Some ''AURA'', ext_system_id = Some ''MPSH'',
      ext_system_ref_id = Some ''F-1'', ext_order_status = Some ''Shipped'',
      ext_order_date = None, ext_awb = Some ''R1'', ext_transporter_code = None,
      ext_order_number = ''S-100'', ext_item_id_flexo = Some ''SKU-A'',
      ext_interface_status = ''Interface''\<rparr>"

definition example_env_connected :: environment where
  "example_env_connected =
     example_env\<lparr>connect := True, execute := (\<lambda>_ _. Inr [example_row])\<rparr>"

definition example_task :: upload_task where
  "example_task =
     \<lparr>task_id = ''t1'', task_name = ''AURA-SHOPEE-5-1.xlsx'', status = ''pending'',
      task_marketplace = ''SHOPEE'', task_brand = ''AURA'', task_batch = ''1'',
      task_pic = ''ani'', total_orders = 0, processed_orders = 0, error_message = None,
      completed_at = None\<rparr>"

definition example_db :: database where
  "example_db =
     \<lparr>uploaded_orders = [], next_order_id = 1, upload_tasks = [example_task],
      file_upload_history = [], brand_shops = []\<rparr>"

definition example_upload :: upload where
  "example_upload =
     \<lparr>upload_env = example_env, upload_task_id = ''t1'', upload_content = ''bytes'',
      upload_filename = ''AURA-SHOPEE-5-1.xlsx'', upload_user = ''ani''\<rparr>"

definition example_file :: upload_file where
  "example_file =
     \<lparr>file_filename = ''AURA-SHOPEE-5-1.xlsx'', file_size = Some 1000,
      file_content_type = ''text/csv'', file_bytes = ''bytes''\<rparr>"

text \<open>
  Environments in which the export read lacks its tracking column, in which loading the
  task row raises, and in which the Tokopedia export is read.
\<close>

definition example_env_no_awb :: environment where
  "example_env_no_awb = example_env\<lparr>read_excel := (\<lambda>_. Inr example_df_no_awb)\<rparr>"

definition example_env_query_fails :: environment where
  "example_env_query_fails = example_env\<lparr>task_query_error := Some ''connection lost''\<rparr>"

definition example_env_tokopedia :: environment where
  "example_env_tokopedia = example_env\<lparr>read_excel := (\<lambda>_. Inr example_df_tokopedia)\<rparr>"

text \<open>A stored order whose number holds a line break, as a spreadsheet cell can.\<close>

definition example_order :: uploaded_order where
  "example_order =
     \<lparr>Marketplace = ''SHOPEE'', Brand = ''AURA'',
      OrderNumber = ''A'' @ [CHR 0x0A] @ ''B'', OrderStatus = ''Paid'', AWB = [],
      Transporter = [], OrderDate = 7, SLA = [], Batch = ''1'', PIC = ''ani'',
      UploadDate = 7, TaskId = ''t1'', ItemId = None, ItemIdFlexo = None,
      InterfaceStatus = ''Not Yet Interface'', OrderNumberFlexo = None,
      OrderStatusFlexo = Some [], Id = 1, Remarks = []\<rparr>"

text \<open>
  A schedule of one chunk: the watchdog fires while the query is running, the main thread
  resets the chunk's results, and the query thread finishes before the merge.
\<close>

definition late_schedule :: "thread_event list" where
  "late_schedule =
     [MainThread, MainThread, MainThread, TimerThread, MainThread, MainThread, MainThread,
      QueryThread, MainThread, MainThread]"

section \<open>Properties of the helpers\<close>

lemma unique_distinct: "distinct (unique xs)"
  by (simp add: unique_def)

lemma set_unique: "set (unique xs) = set xs"
  by (simp add: unique_def)

lemma length_sort_unique: "length (sort (unique xs)) = card (set xs)"
proof -
  have "length (sort (unique xs)) = length (unique xs)" by simp
  also have "\<dots> = card (set (unique xs))"
    using unique_distinct [of xs] by (simp add: distinct_card)
  finally show ?thesis by (simp add: set_unique)
qed

text \<open>The head of a filtered list is the first element of the list that passes.\<close>

lemma hd_filter_first:
  "filter P xs \<noteq> [] \<Longrightarrow>
     \<exists>pre post. xs = pre @ hd (filter P xs) # post \<and> (\<forall>p \<in> set pre. \<not> P p)
        \<and> P (hd (filter P xs))"
proof (induction xs)
  case Nil
  then show ?case by simp
next
  case (Cons x xs)
  show ?case
  proof (cases "P x")
    case True
    then have "x # xs = [] @ hd (filter P (x # xs)) # xs" by simp
    with True show ?thesis by fastforce
  next
    case False
    with Cons.prems have "filter P xs \<noteq> []" by simp
    from Cons.IH [OF this] obtain pre post where
      "xs = pre @ hd (filter P xs) # post" "\<forall>p \<in> set pre. \<not> P p" "P (hd (filter P xs))"
      by blast
    with False have "x # xs = (x # pre) @ hd (filter P (x # xs)) # post
        \<and> (\<forall>p \<in> set (x # pre). \<not> P p) \<and> P (hd (filter P (x # xs)))"
      by simp
    then show ?thesis by blast
  qed
qed

section \<open>Normalization\<close>

lemma group_orders_keys:
  "map processed_order_number (group_orders ps) = sort (unique (map processed_order_number ps))"
  by (simp add: group_orders_def Let_def comp_def)

lemma group_orders_length:
  "length (group_orders ps) = card (processed_order_number ` set ps)"
proof -
  have "length (group_orders ps) = length (map processed_order_number (group_orders ps))"
    by simp
  also have "\<dots> = card (set (map processed_order_number ps))"
    unfolding group_orders_keys by (rule length_sort_unique)
  finally show ?thesis by simp
qed

lemma group_orders_distinct: "distinct (map processed_order_number (group_orders ps))"
  unfolding group_orders_keys using unique_distinct by simp

lemma group_orders_first:
  assumes "g \<in> set (group_orders ps)"
  shows "\<exists>pre f post. ps = pre @ f # post
           \<and> processed_order_number f = processed_order_number g
           \<and> (\<forall>p \<in> set pre. processed_order_number p \<noteq> processed_order_number g)
           \<and> processed_order_status g = processed_order_status f
           \<and> processed_awb g = processed_awb f
           \<and> processed_transporter g = processed_transporter f
           \<and> processed_date g = processed_date f
           \<and> processed_sla g = processed_sla f
           \<and> processed_sku g
               = aggregate_skus (map processed_sku (group_of (processed_order_number g) ps))"
proof -
  from assms obtain k where k: "k \<in> processed_order_number ` set ps"
    and g: "g = (let grp = group_of k ps; f = hd grp in
            \<lparr>processed_order_number = k,
             processed_order_status = processed_order_status f,
             processed_awb = processed_awb f,
             processed_transporter = processed_transporter f,
             processed_date = processed_date f,
             processed_sla = processed_sla f,
             processed_sku = aggregate_skus (map processed_sku grp)\<rparr>)"
    by (auto simp: group_orders_def set_unique)
  from k have "filter (\<lambda>p. processed_order_number p = k) ps \<noteq> []"
    by (auto simp: filter_empty_conv)
  from hd_filter_first [OF this] obtain pre post where
    split: "ps = pre @ hd (group_of k ps) # post"
    and pre: "\<forall>p \<in> set pre. processed_order_number p \<noteq> k"
    and key: "processed_order_number (hd (group_of k ps)) = k"
    by (auto simp: group_of_def)
  show ?thesis
    apply (rule exI [of _ pre], rule exI [of _ "hd (group_of k ps)"], rule exI [of _ post])
    using split pre key by (simp add: g Let_def)
qed

lemma aggregate_skus_spec:
  "(case aggregate_skus series of
      None \<Rightarrow> set series \<subseteq> {[]}
    | Some s \<Rightarrow> \<exists>items. items \<noteq> [] \<and> distinct items \<and> set items = set series - {[]}
                  \<and> s = join '','' items)"
proof (cases "unique (filter (\<lambda>s. s \<noteq> []) series) = []")
  case True
  then have "set (unique (filter (\<lambda>s. s \<noteq> []) series)) = {}" by simp
  then have "set series \<subseteq> {[]}" by (auto simp: set_unique)
  with True show ?thesis by (simp add: aggregate_skus_def)
next
  case False
  have "set (unique (filter (\<lambda>s. s \<noteq> []) series)) = set series - {[]}"
    by (auto simp: set_unique)
  with False unique_distinct [of "filter (\<lambda>s. s \<noteq> []) series"] show ?thesis
    by (auto simp: aggregate_skus_def Let_def)
qed

lemma process_rows_numbers:
  assumes "process_rows env info m df = Inr ps"
  shows "map processed_order_number ps
           = map (\<lambda>r. strip (cell_str (r (order_number m)))) (valid_rows df m)"
  using assms
  by (auto simp: process_rows_def Let_def processed_dates_def split: if_splits sum.splits
      intro!: nth_equalityI)

lemma normalization_lengths:
  assumes "process_rows env info m df = Inr ps"
  shows "length (group_orders ps)
           = card ((\<lambda>r. strip (cell_str (r (order_number m)))) ` set (valid_rows df m))"
proof -
  have "processed_order_number ` set ps = set (map processed_order_number ps)"
    by simp
  also have "\<dots> = (\<lambda>r. strip (cell_str (r (order_number m)))) ` set (valid_rows df m)"
    unfolding process_rows_numbers [OF assms] by simp
  finally show ?thesis
    using group_orders_length [of ps] by simp
qed

text \<open>
  C5. The rows that pass the order-number mask are grouped by their trimmed order number.
  When the rows are processed without an exception, grouping yields exactly as many
  records as there are distinct trimmed order numbers among the valid rows, no two with
  the same number. Each record takes status, tracking number, carrier, date and SLA from
  the first row of the spreadsheet that has its order number, and its SKU field is
  \<open>aggregate_skus\<close> of the group's SKUs: \<open>None\<close> when the group has no non-empty SKU,
  otherwise the distinct non-empty SKUs joined with commas.
\<close>

theorem normalization_one_record_per_order_number:
  assumes "process_rows env info m df = Inr ps"
  shows "length (group_orders ps)
           = card ((\<lambda>r. strip (cell_str (r (order_number m)))) ` set (valid_rows df m))
       \<and> distinct (map processed_order_number (group_orders ps))
       \<and> (\<forall>g \<in> set (group_orders ps).
            \<exists>pre f post. ps = pre @ f # post
              \<and> processed_order_number f = processed_order_number g
              \<and> (\<forall>p \<in> set pre. processed_order_number p \<noteq> processed_order_number g)
              \<and> processed_order_status g = processed_order_status f
              \<and> processed_awb g = processed_awb f
              \<and> processed_transporter g = processed_transporter f
              \<and> processed_date g = processed_date f
              \<and> processed_sla g = processed_sla f
              \<and> processed_sku g
                  = aggregate_skus (map processed_sku (group_of (processed_order_number g) ps)))
       \<and> (\<forall>series. case aggregate_skus series of
                      None \<Rightarrow> set series \<subseteq> {[]}
                    | Some s \<Rightarrow> \<exists>items. items \<noteq> [] \<and> distinct items
                                  \<and> set items = set series - {[]} \<and> s = join '','' items)"
proof -
  have "length (group_orders ps)
      = card ((\<lambda>r. strip (cell_str (r (order_number m)))) ` set (valid_rows df m))"
    using assms by (rule normalization_lengths)
  moreover have "distinct (map processed_order_number (group_orders ps))"
    by (rule group_orders_distinct)
  ultimately show ?thesis
    using group_orders_first [of _ ps] aggregate_skus_spec by blast
qed

text \<open>
  The example export has three valid rows and two distinct trimmed order numbers; its
  two records are \<open>S-100\<close> with both SKUs and the first row's status, and \<open>S-101\<close>.
\<close>

theorem normalization_example:
  "process_rows example_env example_info example_mapping example_df = Inr example_processed
   \<and> length (group_orders example_processed) = 2
   \<and> map processed_order_number (group_orders example_processed) = [''S-100'', ''S-101'']
   \<and> map processed_sku (group_orders example_processed)
       = [Some ''SKU-A,SKU-B'', Some ''SKU-C'']
   \<and> map processed_order_status (group_orders example_processed) = [''Paid'', ''Sent'']"
proof -
  have ps: "process_rows example_env example_info example_mapping example_df
              = Inr example_processed"
    by code_simp
  have n: "card ((\<lambda>r. strip (cell_str (r (order_number example_mapping))))
                   ` set (valid_rows example_df example_mapping)) = 2"
    by code_simp
  have keys: "map processed_order_number (group_orders example_processed)
                = [''S-100'', ''S-101'']"
    by code_simp
  have skus: "map processed_sku (group_orders example_processed)
                = [Some ''SKU-A,SKU-B'', Some ''SKU-C'']"
    by code_simp
  have stats: "map processed_order_status (group_orders example_processed)
                 = [''Paid'', ''Sent'']"
    by code_simp
  from normalization_one_record_per_order_number [OF ps] n
  have "length (group_orders example_processed) = 2" by simp
  with ps keys skus stats show ?thesis by blast
qed

section \<open>The order store\<close>

lemma overwrite_OrderNumber [simp]: "OrderNumber (overwrite order d) = OrderNumber order"
  by (simp add: overwrite_def)

lemma overwrite_Id [simp]: "Id (overwrite order d) = Id order"
  by (simp add: overwrite_def)

lemma new_order_OrderNumber [simp]: "OrderNumber (new_order i d) = OrderNumber d"
  by (simp add: new_order_def)

lemma new_order_Id [simp]: "Id (new_order i d) = i"
  by (simp add: new_order_def)

lemma update_orders_numbers:
  "map OrderNumber (update_orders stored us) = map OrderNumber stored"
proof (induction us arbitrary: stored)
  case Nil
  then show ?case by simp
next
  case (Cons u us)
  obtain e d where u: "u = (e, d)" by (cases u)
  have "map OrderNumber (map (\<lambda>order. if Id order = Id e then overwrite order d else order) stored)
          = map OrderNumber stored"
    by (induction stored) auto
  with Cons.IH show ?case by (simp add: u)
qed

lemma update_orders_length: "length (update_orders stored us) = length stored"
  using update_orders_numbers [of stored us] by (metis length_map)

lemma new_rows_numbers:
  "map OrderNumber (map (\<lambda>(i, d). new_order (n + i) d) (enumerate k ds)) = map OrderNumber ds"
  by (induction ds arbitrary: k) auto

lemma insert_individually_grows:
  "\<exists>added. fst (insert_individually stored n ds) = stored @ added
     \<and> (distinct (map OrderNumber stored) \<longrightarrow> distinct (map OrderNumber (stored @ added)))"
proof (induction ds arbitrary: stored n)
  case Nil
  then show ?case by simp
next
  case (Cons d ds)
  show ?case
  proof (cases "OrderNumber d \<in> OrderNumber ` set stored")
    case True
    with Cons.IH [of stored n] show ?thesis by simp
  next
    case False
    from Cons.IH [of "stored @ [new_order n d]" "Suc n"] obtain added where
      a: "fst (insert_individually (stored @ [new_order n d]) (Suc n) ds)
            = (stored @ [new_order n d]) @ added"
      and b: "distinct (map OrderNumber (stored @ [new_order n d]))
            \<longrightarrow> distinct (map OrderNumber ((stored @ [new_order n d]) @ added))"
      by blast
    have "fst (insert_individually stored n (d # ds)) = stored @ (new_order n d # added)"
      using False a by simp
    moreover have "distinct (map OrderNumber stored)
        \<longrightarrow> distinct (map OrderNumber (stored @ (new_order n d # added)))"
      using False b by auto
    ultimately show ?thesis by blast
  qed
qed

lemma bulk_insert_grows:
  assumes "bulk_insert_mappings stored n ds = Some r"
  shows "\<exists>added. fst r = stored @ added \<and> map OrderNumber added = map OrderNumber ds
     \<and> (distinct (map OrderNumber stored) \<longrightarrow> distinct (map OrderNumber (stored @ added)))"
proof -
  let ?added = "map (\<lambda>(i, d). new_order (n + i) d) (enumerate 0 ds)"
  from assms have r: "fst r = stored @ ?added"
    and d: "distinct (map OrderNumber ds)"
    and f: "\<forall>d \<in> set ds. OrderNumber d \<notin> OrderNumber ` set stored"
    by (auto simp: bulk_insert_mappings_def list_all_iff split: if_splits)
  have n: "map OrderNumber ?added = map OrderNumber ds" by (rule new_rows_numbers)
  from f have "set (map OrderNumber stored) \<inter> set (map OrderNumber ds) = {}"
    by force
  with d have "distinct (map OrderNumber stored) \<longrightarrow> distinct (map OrderNumber (stored @ ?added))"
    unfolding map_append n by simp
  with r n show ?thesis by blast
qed

lemma insert_orders_grows:
  "\<exists>added. fst (insert_orders stored n ds) = stored @ added
     \<and> (distinct (map OrderNumber stored) \<longrightarrow> distinct (map OrderNumber (stored @ added)))"
proof (cases "ds = []")
  case True
  then show ?thesis by (simp add: insert_orders_def)
next
  case False
  show ?thesis
  proof (cases "bulk_insert_mappings stored n ds")
    case None
    with False insert_individually_grows [of stored n ds] show ?thesis
      by (simp add: insert_orders_def)
  next
    case (Some r)
    with False bulk_insert_grows [OF Some] show ?thesis
      by (auto simp: insert_orders_def)
  qed
qed

lemma upsert_grows:
  "prefix (map OrderNumber (uploaded_orders db)) (map OrderNumber (uploaded_orders (fst (upsert db ds))))
   \<and> (distinct (map OrderNumber (uploaded_orders db))
        \<longrightarrow> distinct (map OrderNumber (uploaded_orders (fst (upsert db ds)))))"
proof -
  let ?ex = "existing_orders_dict (uploaded_orders db) (map OrderNumber ds)"
  let ?ins = "filter (\<lambda>d. ?ex (OrderNumber d) = None) ds"
  let ?upd = "concat (map (\<lambda>d. case ?ex (OrderNumber d) of None \<Rightarrow> [] | Some order \<Rightarrow> [(order, d)]) ds)"
  obtain added where a: "fst (insert_orders (uploaded_orders db) (next_order_id db) ?ins)
        = uploaded_orders db @ added"
    and b: "distinct (map OrderNumber (uploaded_orders db))
        \<longrightarrow> distinct (map OrderNumber (uploaded_orders db @ added))"
    using insert_orders_grows by blast
  have "uploaded_orders (fst (upsert db ds))
        = update_orders (fst (insert_orders (uploaded_orders db) (next_order_id db) ?ins)) ?upd"
    by (simp add: upsert_def Let_def split: prod.splits)
  then have "map OrderNumber (uploaded_orders (fst (upsert db ds)))
        = map OrderNumber (uploaded_orders db) @ map OrderNumber added"
    by (simp add: update_orders_numbers a)
  with b show ?thesis by (simp add: prefix_def)
qed

lemma update_task_orders [simp]: "uploaded_orders (update_task tid f db) = uploaded_orders db"
  by (simp add: update_task_def)

lemma mark_failed_orders [simp]: "uploaded_orders (mark_failed env tid msg db) = uploaded_orders db"
  by (simp add: mark_failed_def)

lemma record_history_orders [simp]: "uploaded_orders (record_history info u db) = uploaded_orders db"
  by (simp add: record_history_def)

lemma complete_upload_grows:
  "prefix (map OrderNumber (uploaded_orders db))
     (map OrderNumber (uploaded_orders (fst (complete_upload env info db tid u ps))))
   \<and> (distinct (map OrderNumber (uploaded_orders db))
        \<longrightarrow> distinct (map OrderNumber (uploaded_orders (fst (complete_upload env info db tid u ps)))))"
proof -
  let ?ds = "all_order_data env info tid u ps"
  have "uploaded_orders (fst (complete_upload env info db tid u ps))
      = uploaded_orders (fst (upsert db ?ds))"
    by (simp add: complete_upload_def Let_def case_prod_beta)
  with upsert_grows [of db ?ds] show ?thesis by simp
qed

lemma pipeline_body_grows:
  "prefix (map OrderNumber (uploaded_orders db))
     (map OrderNumber (uploaded_orders (fst (pipeline_body env db tid c f u))))
   \<and> (distinct (map OrderNumber (uploaded_orders db))
        \<longrightarrow> distinct (map OrderNumber (uploaded_orders (fst (pipeline_body env db tid c f u)))))"
  using complete_upload_grows [of "record_history _ u db"]
  by (auto simp: pipeline_body_def split: sum.splits option.splits prod.splits)

lemma process_upload_background_grows:
  "prefix (map OrderNumber (uploaded_orders db))
     (map OrderNumber (uploaded_orders (final_db (process_upload_background env db tid c f u))))
   \<and> (distinct (map OrderNumber (uploaded_orders db))
        \<longrightarrow> distinct (map OrderNumber
              (uploaded_orders (final_db (process_upload_background env db tid c f u)))))"
proof -
  let ?db = "update_task tid (\<lambda>t. t\<lparr>status := ''processing''\<rparr>) db"
  have "uploaded_orders (final_db (process_upload_background env db tid c f u)) = uploaded_orders db
      \<or> uploaded_orders (final_db (process_upload_background env db tid c f u))
          = uploaded_orders (fst (pipeline_body env ?db tid c f u))"
    by (auto simp: process_upload_background_def split: option.splits prod.splits sum.splits)
  with pipeline_body_grows [of ?db env tid c f u] show ?thesis by auto
qed

lemma run_uploads_grows:
  "prefix (map OrderNumber (uploaded_orders db)) (map OrderNumber (uploaded_orders (run_uploads db us)))
   \<and> (distinct (map OrderNumber (uploaded_orders db))
        \<longrightarrow> distinct (map OrderNumber (uploaded_orders (run_uploads db us))))"
proof (induction us arbitrary: db)
  case Nil
  then show ?case by simp
next
  case (Cons u us)
  let ?db = "final_db (process_upload db u)"
  from process_upload_background_grows
  have 1: "prefix (map OrderNumber (uploaded_orders db)) (map OrderNumber (uploaded_orders ?db))"
    and 2: "distinct (map OrderNumber (uploaded_orders db))
        \<longrightarrow> distinct (map OrderNumber (uploaded_orders ?db))"
    by (simp_all add: process_upload_def)
  from Cons.IH [of ?db] 1 2 show ?case
    by (auto intro: prefix_order.trans)
qed


lemma existing_None:
  "existing_orders_dict stored ks k = None \<longleftrightarrow> \<not> (k \<in> set ks \<and> k \<in> OrderNumber ` set stored)"
  by (auto simp: existing_orders_dict_def dict_of_def map_of_eq_None_iff image_iff)

lemma existing_Some:
  assumes "distinct (map OrderNumber stored)" "order \<in> set stored" "OrderNumber order \<in> set ks"
  shows "existing_orders_dict stored ks (OrderNumber order) = Some order"
proof -
  let ?kvs = "map (\<lambda>order. (OrderNumber order, order))
                (filter (\<lambda>order. OrderNumber order \<in> set ks) stored)"
  have "map fst (rev ?kvs)
          = rev (map OrderNumber (filter (\<lambda>order. OrderNumber order \<in> set ks) stored))"
    by (simp add: rev_map comp_def)
  moreover have "distinct (map OrderNumber (filter (\<lambda>order. OrderNumber order \<in> set ks) stored))"
    using assms(1) by (rule distinct_map_filter)
  ultimately have "distinct (map fst (rev ?kvs))"
    by (simp only: distinct_rev)
  moreover from assms(2,3) have "(OrderNumber order, order) \<in> set (rev ?kvs)" by auto
  ultimately have "map_of (rev ?kvs) (OrderNumber order) = Some order"
    by (rule map_of_is_SomeI)
  then show ?thesis by (simp add: existing_orders_dict_def dict_of_def)
qed

lemma insert_orders_fresh:
  assumes "distinct (map OrderNumber ds)"
    and "\<forall>d \<in> set ds. OrderNumber d \<notin> OrderNumber ` set stored"
  shows "insert_orders stored n ds = (stored @ new_rows n ds, n + length ds)"
  using assms
  by (cases "ds = []")
     (simp_all add: insert_orders_def bulk_insert_mappings_def list_all_iff new_rows_def)

lemma upsert_exact:
  assumes "distinct (map OrderNumber ds)"
  shows "upsert db ds =
     (let existing = existing_orders_dict (uploaded_orders db) (map OrderNumber ds);
          ins = filter (\<lambda>d. existing (OrderNumber d) = None) ds;
          upd = concat (map (\<lambda>d. case existing (OrderNumber d) of
                                None \<Rightarrow> [] | Some order \<Rightarrow> [(order, d)]) ds)
      in (db\<lparr>uploaded_orders := update_orders (uploaded_orders db @ new_rows (next_order_id db) ins) upd,
             next_order_id := next_order_id db + length ins\<rparr>,
          \<lparr>new_count = length ins, replaced_count = length upd\<rparr>))"
proof -
  let ?ex = "existing_orders_dict (uploaded_orders db) (map OrderNumber ds)"
  let ?ins = "filter (\<lambda>d. ?ex (OrderNumber d) = None) ds"
  have d: "distinct (map OrderNumber ?ins)"
    using assms by (rule distinct_map_filter)
  have "\<forall>d \<in> set ?ins. OrderNumber d \<notin> OrderNumber ` set (uploaded_orders db)"
    by (auto simp: existing_None)
  from insert_orders_fresh [OF d this]
  show ?thesis by (simp add: upsert_def Let_def)
qed

lemma upsert_new_rows:
  assumes "distinct (map OrderNumber ds)"
  shows "length (uploaded_orders (fst (upsert db ds)))
           = length (uploaded_orders db) + new_count (snd (upsert db ds))"
  unfolding upsert_exact [OF assms]
  by (simp add: Let_def update_orders_length new_rows_def)

lemma make_order_data_number [simp]:
  "OrderNumber (make_order_data env info tid u ifr g) = processed_order_number g"
  by (simp add: make_order_data_def split: prod.splits)

lemma all_order_data_numbers:
  "map OrderNumber (all_order_data env info tid u ps)
     = map processed_order_number (group_orders ps)"
  by (simp add: all_order_data_def Let_def comp_def)

lemma all_order_data_distinct: "distinct (map OrderNumber (all_order_data env info tid u ps))"
  unfolding all_order_data_numbers by (rule group_orders_distinct)

lemma complete_upload_orders:
  "uploaded_orders (fst (complete_upload env info db tid u ps))
     = uploaded_orders (fst (upsert db (all_order_data env info tid u ps)))"
  by (simp add: complete_upload_def Let_def case_prod_beta)

lemma complete_upload_counts:
  "\<exists>r. snd (snd (complete_upload env info db tid u ps)) = Inr r
     \<and> new_orders r = new_count (snd (upsert db (all_order_data env info tid u ps)))
     \<and> replaced_orders r
         = replaced_count (snd (upsert db (all_order_data env info tid u ps)))"
  by (simp add: complete_upload_def Let_def case_prod_beta)

lemma complete_upload_result:
  "\<exists>r. snd (snd (complete_upload env info db tid u ps)) = Inr r
     \<and> length (uploaded_orders (fst (complete_upload env info db tid u ps)))
         = length (uploaded_orders db) + new_orders r"
  using upsert_new_rows [OF all_order_data_distinct, of db env info tid u ps]
    complete_upload_counts [of env info db tid u ps]
  by (auto simp: complete_upload_orders)

lemma pipeline_body_success:
  assumes "snd (snd (pipeline_body env db tid c f u)) = Inr r"
  shows "\<exists>info df m ps. read_upload env f c = Inr (info, df, m)
           \<and> check_columns info df m = None
           \<and> process_rows env info m df = Inr ps
           \<and> pipeline_body env db tid c f u
               = complete_upload env info (record_history info u db) tid u ps"
  using assms
  by (auto simp: pipeline_body_def split: option.splits prod.splits sum.splits)

lemma process_success:
  assumes "result (process_upload_background env db tid c f u) = Some r"
  shows "session_error env = None \<and> task_query_error env = None
     \<and> snd (snd (pipeline_body env (update_task tid (\<lambda>t. t\<lparr>status := ''processing''\<rparr>) db)
                    tid c f u)) = Inr r
     \<and> final_db (process_upload_background env db tid c f u)
         = fst (pipeline_body env (update_task tid (\<lambda>t. t\<lparr>status := ''processing''\<rparr>) db)
                  tid c f u)"
  using assms
  by (auto simp: process_upload_background_def split: option.splits prod.splits sum.splits)

lemma process_adds_new_rows:
  assumes "result (process_upload_background env db tid c f u) = Some r"
  shows "length (uploaded_orders (final_db (process_upload_background env db tid c f u)))
           = length (uploaded_orders db) + new_orders r"
proof -
  let ?db = "update_task tid (\<lambda>t. t\<lparr>status := ''processing''\<rparr>) db"
  from process_success [OF assms] have
    r: "snd (snd (pipeline_body env ?db tid c f u)) = Inr r"
    and fin: "final_db (process_upload_background env db tid c f u)
                = fst (pipeline_body env ?db tid c f u)"
    by simp_all
  from pipeline_body_success [OF r] obtain info ps where
    body: "pipeline_body env ?db tid c f u
             = complete_upload env info (record_history info u ?db) tid u ps"
    by blast
  from complete_upload_result [of env info "record_history info u ?db" tid u ps] r
  show ?thesis unfolding fin body by auto
qed

lemma update_orders_zip:
  assumes "length olds = length ds"
  shows "distinct (map Id olds) \<Longrightarrow> \<forall>order \<in> set pre. Id order \<notin> Id ` set olds \<Longrightarrow>
     update_orders (pre @ olds) (zip olds ds) = pre @ map2 overwrite olds ds"
  using assms
proof (induction olds ds arbitrary: pre rule: list_induct2)
  case Nil
  then show ?case by simp
next
  case (Cons r olds d ds)
  have pre: "map (\<lambda>order. if Id order = Id r then overwrite order d else order) pre = pre"
  proof (rule map_idI)
    fix x assume "x \<in> set pre"
    with Cons.prems(2) have "Id x \<notin> Id ` set (r # olds)" by simp
    then have "Id x \<noteq> Id r" by simp
    then show "(if Id x = Id r then overwrite x d else x) = x" by simp
  qed
  have rest: "map (\<lambda>order. if Id order = Id r then overwrite order d else order) olds = olds"
  proof (rule map_idI)
    fix x assume "x \<in> set olds"
    then have "Id x \<in> set (map Id olds)" by simp
    moreover from Cons.prems(1) have "Id r \<notin> set (map Id olds)" by simp
    ultimately have "Id x \<noteq> Id r" by metis
    then show "(if Id x = Id r then overwrite x d else x) = x" by simp
  qed
  have step: "update_orders (pre @ r # olds) (zip (r # olds) (d # ds))
      = update_orders ((pre @ [overwrite r d]) @ olds) (zip olds ds)"
    by (simp add: pre rest)
  have "distinct (map Id olds)" using Cons.prems(1) by simp
  moreover have "\<forall>order \<in> set (pre @ [overwrite r d]). Id order \<notin> Id ` set olds"
    using Cons.prems by auto
  ultimately have "update_orders ((pre @ [overwrite r d]) @ olds) (zip olds ds)
      = (pre @ [overwrite r d]) @ map2 overwrite olds ds"
    by (rule Cons.IH)
  with step show ?case by simp
qed

lemma concat_lookup_zip:
  assumes "list_all2 (\<lambda>x d. f d = Some x) xs ds"
  shows "concat (map (\<lambda>d. case f d of None \<Rightarrow> [] | Some order \<Rightarrow> [(order, d)]) ds) = zip xs ds"
  using assms by (induction rule: list_all2_induct) auto

lemma upsert_fresh:
  assumes "distinct (map OrderNumber ds)"
    and "\<forall>d \<in> set ds. OrderNumber d \<notin> OrderNumber ` set (uploaded_orders db)"
  shows "upsert db ds =
     (db\<lparr>uploaded_orders := uploaded_orders db @ new_rows (next_order_id db) ds,
         next_order_id := next_order_id db + length ds\<rparr>,
      \<lparr>new_count = length ds, replaced_count = 0\<rparr>)"
proof -
  let ?ex = "existing_orders_dict (uploaded_orders db) (map OrderNumber ds)"
  from assms(2) have none: "\<forall>d \<in> set ds. ?ex (OrderNumber d) = None"
    by (simp add: existing_None)
  then have ins: "filter (\<lambda>d. ?ex (OrderNumber d) = None) ds = ds"
    by simp
  from none have upd: "concat (map (\<lambda>d. case ?ex (OrderNumber d) of
                         None \<Rightarrow> [] | Some order \<Rightarrow> [(order, d)]) ds) = []"
    by (induction ds) auto
  show ?thesis
    unfolding upsert_exact [OF assms(1)] by (simp add: Let_def ins upd)
qed

lemma upsert_replaced_zero:
  assumes "distinct (map OrderNumber ds)"
    and "replaced_count (snd (upsert db ds)) = 0"
  shows "\<forall>d \<in> set ds. OrderNumber d \<notin> OrderNumber ` set (uploaded_orders db)"
proof
  fix d assume d: "d \<in> set ds"
  let ?ex = "existing_orders_dict (uploaded_orders db) (map OrderNumber ds)"
  from assms(2) have "concat (map (\<lambda>d. case ?ex (OrderNumber d) of
                         None \<Rightarrow> [] | Some order \<Rightarrow> [(order, d)]) ds) = []"
    unfolding upsert_exact [OF assms(1)] by (simp add: Let_def)
  with d have "?ex (OrderNumber d) = None"
    by (auto split: option.splits)
  with d show "OrderNumber d \<notin> OrderNumber ` set (uploaded_orders db)"
    by (auto simp: existing_None)
qed

lemma upsert_all_stored:
  assumes ds: "distinct (map OrderNumber ds)"
    and stored: "uploaded_orders db = pre @ olds"
    and numbers: "map OrderNumber olds = map OrderNumber ds"
    and dn: "distinct (map OrderNumber (pre @ olds))"
    and di: "distinct (map Id (pre @ olds))"
  shows "upsert db ds =
     (db\<lparr>uploaded_orders := pre @ map2 overwrite olds ds,
         next_order_id := next_order_id db\<rparr>,
      \<lparr>new_count = 0, replaced_count = length ds\<rparr>)"
proof -
  let ?ex = "existing_orders_dict (uploaded_orders db) (map OrderNumber ds)"
  from numbers have len: "length olds = length ds"
    by (metis length_map)
  have look: "list_all2 (\<lambda>x d. ?ex (OrderNumber d) = Some x) olds ds"
  proof (rule list_all2_all_nthI [OF len])
    fix i assume i: "i < length olds"
    then have "olds ! i \<in> set (pre @ olds)" by simp
    moreover have eq: "OrderNumber (olds ! i) = OrderNumber (ds ! i)"
      using numbers i len by (metis nth_map)
    moreover have "OrderNumber (ds ! i) \<in> set (map OrderNumber ds)"
      using i len by simp
    ultimately have "existing_orders_dict (pre @ olds) (map OrderNumber ds) (OrderNumber (olds ! i))
        = Some (olds ! i)"
      using dn by (intro existing_Some) simp_all
    then show "?ex (OrderNumber (ds ! i)) = Some (olds ! i)"
      by (simp add: stored eq)
  qed
  then have some: "\<forall>d \<in> set ds. ?ex (OrderNumber d) \<noteq> None"
    by (auto simp: list_all2_conv_all_nth in_set_conv_nth)
  then have ins: "filter (\<lambda>d. ?ex (OrderNumber d) = None) ds = []"
    by (simp add: filter_empty_conv)
  have upd: "concat (map (\<lambda>d. case ?ex (OrderNumber d) of
                         None \<Rightarrow> [] | Some order \<Rightarrow> [(order, d)]) ds) = zip olds ds"
    using look by (rule concat_lookup_zip)
  have "distinct (map Id olds)" "\<forall>order \<in> set pre. Id order \<notin> Id ` set olds"
    using di by auto
  from update_orders_zip [OF len this]
  have "update_orders (pre @ olds) (zip olds ds) = pre @ map2 overwrite olds ds" .
  then show ?thesis
    unfolding upsert_exact [OF ds] Let_def ins upd
    by (simp add: stored new_rows_def len)
qed

lemma overwrite_new_agree:
  "OrderNumber d1 = OrderNumber d2 \<Longrightarrow>
     agree_but_foreign (overwrite (new_order i d1) d2) (new_order i d2)"
  by (simp add: agree_but_foreign_def overwrite_def new_order_def)

lemma agree_but_foreign_refl [simp]: "agree_but_foreign a a"
  by (simp add: agree_but_foreign_def)

lemma new_rows_nth: "i < length ds \<Longrightarrow> new_rows n ds ! i = new_order (n + i) (ds ! i)"
  by (simp add: new_rows_def nth_enumerate_eq)

lemma length_new_rows [simp]: "length (new_rows n ds) = length ds"
  by (simp add: new_rows_def)

lemma new_rows_numbers' [simp]: "map OrderNumber (new_rows n ds) = map OrderNumber ds"
  unfolding new_rows_def by (rule new_rows_numbers)

lemma new_rows_ids: "map Id (new_rows n ds) = [n ..< n + length ds]"
  by (rule nth_equalityI) (simp_all add: new_rows_nth)

lemma overwritten_rows_agree:
  assumes "map OrderNumber ds1 = map OrderNumber ds2"
  shows "list_all2 agree_but_foreign (map2 overwrite (new_rows n ds1) ds2) (new_rows n ds2)"
proof -
  from assms have len: "length ds1 = length ds2" by (metis length_map)
  show ?thesis
  proof (rule list_all2_all_nthI)
    show "length (map2 overwrite (new_rows n ds1) ds2) = length (new_rows n ds2)"
      by (simp add: len)
  next
    fix i assume "i < length (map2 overwrite (new_rows n ds1) ds2)"
    then have i: "i < length ds2" by simp
    with assms len have "OrderNumber (ds1 ! i) = OrderNumber (ds2 ! i)"
      by (metis nth_map)
    with i len show "agree_but_foreign (map2 overwrite (new_rows n ds1) ds2 ! i) (new_rows n ds2 ! i)"
      by (simp add: new_rows_nth overwrite_new_agree)
  qed
qed

text \<open>Two uploads of the same order numbers into a store that held none of them.\<close>

lemma upsert_twice:
  assumes wf: "wf_store db"
    and d1: "distinct (map OrderNumber ds1)"
    and same: "map OrderNumber ds2 = map OrderNumber ds1"
    and fresh: "\<forall>d \<in> set ds1. OrderNumber d \<notin> OrderNumber ` set (uploaded_orders db)"
    and db1: "uploaded_orders db1 = uploaded_orders (fst (upsert db ds1))"
  shows "new_count (snd (upsert db ds1)) = length ds1
     \<and> new_count (snd (upsert db1 ds2)) = 0
     \<and> replaced_count (snd (upsert db1 ds2)) = length ds1
     \<and> list_all2 agree_but_foreign (uploaded_orders (fst (upsert db1 ds2)))
          (uploaded_orders (fst (upsert db ds2)))
     \<and> map OrderNumber (uploaded_orders (fst (upsert db1 ds2)))
          = map OrderNumber (uploaded_orders db1)
     \<and> map Id (uploaded_orders (fst (upsert db1 ds2))) = map Id (uploaded_orders db1)"
proof -
  let ?n = "next_order_id db"
  let ?stored = "uploaded_orders db"
  from same have len: "length ds2 = length ds1" by (metis length_map)
  from d1 same have d2: "distinct (map OrderNumber ds2)" by simp
  have fresh2: "\<forall>d \<in> set ds2. OrderNumber d \<notin> OrderNumber ` set ?stored"
  proof
    fix d assume "d \<in> set ds2"
    then have "OrderNumber d \<in> set (map OrderNumber ds1)"
      unfolding same [symmetric] by simp
    then obtain d1 where "d1 \<in> set ds1" "OrderNumber d1 = OrderNumber d" by auto
    with fresh show "OrderNumber d \<notin> OrderNumber ` set ?stored" by metis
  qed
  have u1: "upsert db ds1 = (db\<lparr>uploaded_orders := ?stored @ new_rows ?n ds1,
         next_order_id := ?n + length ds1\<rparr>, \<lparr>new_count = length ds1, replaced_count = 0\<rparr>)"
    by (rule upsert_fresh [OF d1 fresh])
  have u2': "upsert db ds2 = (db\<lparr>uploaded_orders := ?stored @ new_rows ?n ds2,
         next_order_id := ?n + length ds2\<rparr>, \<lparr>new_count = length ds2, replaced_count = 0\<rparr>)"
    by (rule upsert_fresh [OF d2 fresh2])
  have stored1: "uploaded_orders db1 = ?stored @ new_rows ?n ds1"
    by (simp add: db1 u1)
  from wf have dn0: "distinct (map OrderNumber ?stored)" and di0: "distinct (map Id ?stored)"
    and lt: "\<forall>order \<in> set ?stored. Id order < ?n"
    by (simp_all add: wf_store_def list_all_iff)
  have disj: "set (map OrderNumber ?stored) \<inter> set (map OrderNumber ds1) = {}"
    using fresh by force
  have dn: "distinct (map OrderNumber (?stored @ new_rows ?n ds1))"
    using dn0 d1 disj by simp
  have di: "distinct (map Id (?stored @ new_rows ?n ds1))"
    using di0 lt by (auto simp: new_rows_ids)
  have u2: "upsert db1 ds2 = (db1\<lparr>uploaded_orders := ?stored @ map2 overwrite (new_rows ?n ds1) ds2,
         next_order_id := next_order_id db1\<rparr>, \<lparr>new_count = 0, replaced_count = length ds2\<rparr>)"
    by (rule upsert_all_stored [OF d2 stored1 _ dn di]) (simp add: same)
  have agree: "list_all2 agree_but_foreign (?stored @ map2 overwrite (new_rows ?n ds1) ds2)
      (?stored @ new_rows ?n ds2)"
    using overwritten_rows_agree [OF same [symmetric], of ?n]
    by (intro list_all2_appendI) (simp_all add: list_all2_refl)
  have nums: "map OrderNumber (map2 overwrite (new_rows ?n ds1) ds2) = map OrderNumber (new_rows ?n ds1)"
    by (rule nth_equalityI) (simp_all add: len new_rows_nth)
  have ids: "map Id (map2 overwrite (new_rows ?n ds1) ds2) = map Id (new_rows ?n ds1)"
    by (rule nth_equalityI) (simp_all add: len new_rows_nth)
  show ?thesis
    using agree nums ids by (simp add: u1 u2 u2' stored1 len)
qed

text \<open>
  C1. Uploads are processed one after another from a store in which no two records share
  an order number. After any sequence of uploads no two records share an order number,
  and the order numbers of the records that were stored before are still there, in the
  same places: a record's business key is never changed and no record is removed. An
  upload that completes adds exactly as many records as it reports new orders, so an
  order number that was already stored is overwritten where it is and not inserted again.
\<close>

theorem one_record_per_order_number:
  assumes "distinct (map OrderNumber (uploaded_orders db))"
  shows "distinct (map OrderNumber (uploaded_orders (run_uploads db us)))
     \<and> prefix (map OrderNumber (uploaded_orders db))
         (map OrderNumber (uploaded_orders (run_uploads db us)))
     \<and> (\<forall>u r. result (process_upload db u) = Some r \<longrightarrow>
           length (uploaded_orders (final_db (process_upload db u)))
             = length (uploaded_orders db) + new_orders r)"
  using assms run_uploads_grows [of db us] process_adds_new_rows
  by (simp add: process_upload_def)

text \<open>
  The example export is uploaded, which stores \<open>S-100\<close> and \<open>S-101\<close>, and then uploaded
  twice more: the store still holds the two records.
\<close>

theorem one_record_per_order_number_example:
  "map OrderNumber (uploaded_orders (final_db (process_upload example_db example_upload)))
     = [''S-100'', ''S-101'']
   \<and> distinct (map OrderNumber
        (uploaded_orders (run_uploads (final_db (process_upload example_db example_upload))
           [example_upload, example_upload])))
   \<and> map OrderNumber
        (uploaded_orders (run_uploads (final_db (process_upload example_db example_upload))
           [example_upload, example_upload]))
       = [''S-100'', ''S-101'']"
proof -
  let ?db = "final_db (process_upload example_db example_upload)"
  have stored: "map OrderNumber (uploaded_orders ?db) = [''S-100'', ''S-101'']"
    by code_simp
  then have h: "distinct (map OrderNumber (uploaded_orders ?db))"
    by simp
  have after: "map OrderNumber (uploaded_orders (run_uploads ?db [example_upload, example_upload]))
      = [''S-100'', ''S-101'']"
    by code_simp
  from one_record_per_order_number [OF h, of "[example_upload, example_upload]"] stored after
  show ?thesis by blast
qed

section \<open>Re-ingesting a spreadsheet\<close>

lemma read_upload_env:
  assumes "read_excel env2 c = read_excel env1 c" "read_csv env2 c = read_csv env1 c"
  shows "read_upload env2 f c = read_upload env1 f c"
proof -
  from assms have "read_file env2 f c = read_file env1 f c"
    by (simp add: read_file_def)
  then show ?thesis by (simp add: read_upload_def split: sum.splits option.splits)
qed

lemma process_rows_env:
  assumes "process_rows env1 info m df = Inr ps1"
  shows "\<exists>ps2. process_rows env2 info m df = Inr ps2
           \<and> map processed_order_number ps2 = map processed_order_number ps1"
proof -
  from assms obtain ps2 where "process_rows env2 info m df = Inr ps2"
    by (auto simp: process_rows_def Let_def processed_dates_def split: if_splits sum.splits)
  with assms show ?thesis
    by (auto simp: process_rows_numbers)
qed

lemma upsert_reads_orders_only:
  assumes "uploaded_orders db' = uploaded_orders db" "next_order_id db' = next_order_id db"
  shows "uploaded_orders (fst (upsert db' ds)) = uploaded_orders (fst (upsert db ds))
     \<and> snd (upsert db' ds) = snd (upsert db ds)"
  using assms by (simp add: upsert_def Let_def case_prod_beta)

lemma process_complete:
  assumes "session_error env = None" "task_query_error env = None"
    and "read_upload env f c = Inr (info, df, m)"
    and "check_columns info df m = None"
    and "process_rows env info m df = Inr ps"
  shows "final_db (process_upload_background env db tid c f u)
           = fst (complete_upload env info
                   (record_history info u (update_task tid (\<lambda>t. t\<lparr>status := ''processing''\<rparr>) db))
                   tid u ps)
     \<and> (\<forall>r. snd (snd (complete_upload env info
                   (record_history info u (update_task tid (\<lambda>t. t\<lparr>status := ''processing''\<rparr>) db))
                   tid u ps)) = Inr r
            \<longrightarrow> result (process_upload_background env db tid c f u) = Some r)"
proof -
  let ?db = "record_history info u (update_task tid (\<lambda>t. t\<lparr>status := ''processing''\<rparr>) db)"
  from complete_upload_counts [of env info ?db tid u ps] obtain r where
    r: "snd (snd (complete_upload env info ?db tid u ps)) = Inr r"
    by blast
  then obtain a b where cu: "complete_upload env info ?db tid u ps = (a, b, Inr r)"
    by (cases "complete_upload env info ?db tid u ps") auto
  have body: "pipeline_body env (update_task tid (\<lambda>t. t\<lparr>status := ''processing''\<rparr>) db) tid c f u
      = complete_upload env info ?db tid u ps"
    using assms(3-5) by (simp add: pipeline_body_def)
  show ?thesis
    using assms(1,2) by (simp add: process_upload_background_def body cu)
qed

lemma next_order_id_frame [simp]:
  "next_order_id (update_task tid g db) = next_order_id db"
  "next_order_id (record_history info u db) = next_order_id db"
  by (simp_all add: update_task_def record_history_def)

lemma overwrite_new_order:
  "OrderNumber d1 = OrderNumber d2 \<Longrightarrow>
     overwrite (new_order i d1) d2 = null_to_empty (new_order i d2)"
  by (simp add: overwrite_def new_order_def null_to_empty_def)

lemma overwritten_rows:
  assumes "map OrderNumber ds1 = map OrderNumber ds2"
  shows "map2 overwrite (new_rows n ds1) ds2 = map null_to_empty (new_rows n ds2)"
proof -
  from assms have len: "length ds1 = length ds2" by (metis length_map)
  show ?thesis
  proof (rule nth_equalityI)
    show "length (map2 overwrite (new_rows n ds1) ds2) = length (map null_to_empty (new_rows n ds2))"
      by (simp add: len)
  next
    fix i assume "i < length (map2 overwrite (new_rows n ds1) ds2)"
    then have i: "i < length ds2" by simp
    with assms len have "OrderNumber (ds1 ! i) = OrderNumber (ds2 ! i)"
      by (metis nth_map)
    with i len show "map2 overwrite (new_rows n ds1) ds2 ! i = map null_to_empty (new_rows n ds2) ! i"
      by (simp add: new_rows_nth overwrite_new_order)
  qed
qed

text \<open>
  The store after two uploads of the same order numbers into a store that held none of
  them: the rows of the second upload, with NULL foreign fields turned into empty strings.
\<close>

lemma upsert_again:
  assumes wf: "wf_store db"
    and d1: "distinct (map OrderNumber ds1)"
    and same: "map OrderNumber ds2 = map OrderNumber ds1"
    and fresh: "\<forall>d \<in> set ds1. OrderNumber d \<notin> OrderNumber ` set (uploaded_orders db)"
    and db1: "uploaded_orders db1 = uploaded_orders (fst (upsert db ds1))"
  shows "uploaded_orders (fst (upsert db ds1))
           = uploaded_orders db @ new_rows (next_order_id db) ds1
     \<and> uploaded_orders (fst (upsert db ds2))
           = uploaded_orders db @ new_rows (next_order_id db) ds2
     \<and> uploaded_orders (fst (upsert db1 ds2))
           = uploaded_orders db @ map null_to_empty (new_rows (next_order_id db) ds2)"
proof -
  let ?n = "next_order_id db"
  let ?stored = "uploaded_orders db"
  from same have len: "length ds2 = length ds1" by (metis length_map)
  from d1 same have d2: "distinct (map OrderNumber ds2)" by simp
  have fresh2: "\<forall>d \<in> set ds2. OrderNumber d \<notin> OrderNumber ` set ?stored"
  proof
    fix d assume "d \<in> set ds2"
    then have "OrderNumber d \<in> set (map OrderNumber ds1)"
      unfolding same [symmetric] by simp
    then obtain d1 where "d1 \<in> set ds1" "OrderNumber d1 = OrderNumber d" by auto
    with fresh show "OrderNumber d \<notin> OrderNumber ` set ?stored" by metis
  qed
  have u1: "upsert db ds1 = (db\<lparr>uploaded_orders := ?stored @ new_rows ?n ds1,
         next_order_id := ?n + length ds1\<rparr>, \<lparr>new_count = length ds1, replaced_count = 0\<rparr>)"
    by (rule upsert_fresh [OF d1 fresh])
  have u2': "upsert db ds2 = (db\<lparr>uploaded_orders := ?stored @ new_rows ?n ds2,
         next_order_id := ?n + length ds2\<rparr>, \<lparr>new_count = length ds2, replaced_count = 0\<rparr>)"
    by (rule upsert_fresh [OF d2 fresh2])
  have stored1: "uploaded_orders db1 = ?stored @ new_rows ?n ds1"
    by (simp add: db1 u1)
  from wf have dn0: "distinct (map OrderNumber ?stored)" and di0: "distinct (map Id ?stored)"
    and lt: "\<forall>order \<in> set ?stored. Id order < ?n"
    by (simp_all add: wf_store_def list_all_iff)
  have disj: "set (map OrderNumber ?stored) \<inter> set (map OrderNumber ds1) = {}"
    using fresh by force
  have dn: "distinct (map OrderNumber (?stored @ new_rows ?n ds1))"
    using dn0 d1 disj by simp
  have di: "distinct (map Id (?stored @ new_rows ?n ds1))"
    using di0 lt by (auto simp: new_rows_ids)
  have u2: "upsert db1 ds2 = (db1\<lparr>uploaded_orders := ?stored @ map2 overwrite (new_rows ?n ds1) ds2,
         next_order_id := next_order_id db1\<rparr>, \<lparr>new_count = 0, replaced_count = length ds2\<rparr>)"
    by (rule upsert_all_stored [OF d2 stored1 _ dn di]) (simp add: same)
  show ?thesis
    by (simp add: u1 u2 u2' overwritten_rows [OF same [symmetric]])
qed

lemma upload_numbers_read:
  assumes "read_upload env f c = Inr (info, df, m)"
  shows "upload_numbers env f c
           = (\<lambda>r. strip (cell_str (r (order_number m)))) ` set (valid_rows df m)"
  using assms by (simp add: upload_numbers_def)

lemma all_order_data_number_set:
  assumes "process_rows env' info m df = Inr ps"
  shows "OrderNumber ` set (all_order_data env info tid u ps)
           = (\<lambda>r. strip (cell_str (r (order_number m)))) ` set (valid_rows df m)"
proof -
  have "OrderNumber ` set (all_order_data env info tid u ps)
      = set (map OrderNumber (all_order_data env info tid u ps))"
    by simp
  also have "\<dots> = set (map processed_order_number ps)"
    unfolding all_order_data_numbers group_orders_keys by (simp add: set_unique)
  also have "\<dots> = (\<lambda>r. strip (cell_str (r (order_number m)))) ` set (valid_rows df m)"
    unfolding process_rows_numbers [OF assms] by simp
  finally show ?thesis .
qed

text \<open>
  C2. A spreadsheet is ingested into a well-formed store that holds none of its order
  numbers, and the run completes; the spreadsheet is then ingested again: same file name
  and content, read the same way, under any task id, submitter, clock and answers of the
  external system. The first run reports as new the number of distinct order numbers of
  the spreadsheet and nothing replaced; it appends its records to the store. The second
  run completes, reports nothing new and as replaced what the first run reported as new.
  The store then holds, after the records that were there before, the records that a
  single run in the second run's context would have appended, except that a NULL foreign
  order number or foreign order status has become the empty string. So with the same
  context in both runs the state after the second run is the state after the first run
  only when the first run stored no NULL in those fields.
\<close>

theorem reingest_rewrites_null_foreign_fields:
  assumes wf: "wf_store db"
    and run1: "result (process_upload_background env1 db tid1 c f u1) = Some r1"
    and none_stored: "upload_numbers env1 f c \<inter> OrderNumber ` set (uploaded_orders db) = {}"
    and env2: "session_error env2 = None" "task_query_error env2 = None"
    and readers: "read_excel env2 c = read_excel env1 c" "read_csv env2 c = read_csv env1 c"
  shows "\<exists>r2. result (process_upload_background env2
                  (final_db (process_upload_background env1 db tid1 c f u1)) tid2 c f u2) = Some r2
       \<and> new_orders r1 = card (upload_numbers env1 f c) \<and> replaced_orders r1 = 0
       \<and> new_orders r2 = 0 \<and> replaced_orders r2 = new_orders r1
       \<and> uploaded_orders (final_db (process_upload_background env1 db tid1 c f u1))
           = uploaded_orders db
             @ drop (length (uploaded_orders db))
                 (uploaded_orders (final_db (process_upload_background env1 db tid1 c f u1)))
       \<and> length (uploaded_orders (final_db (process_upload_background env1 db tid1 c f u1)))
           = length (uploaded_orders db) + new_orders r1
       \<and> uploaded_orders (final_db (process_upload_background env2
              (final_db (process_upload_background env1 db tid1 c f u1)) tid2 c f u2))
           = uploaded_orders db
             @ map null_to_empty
                 (drop (length (uploaded_orders db))
                    (uploaded_orders (final_db (process_upload_background env2 db tid2 c f u2))))"
proof -
  let ?P = "\<lambda>t. t\<lparr>status := ''processing''\<rparr>"
  let ?o1 = "process_upload_background env1 db tid1 c f u1"
  let ?db1 = "final_db ?o1"
  let ?o2 = "process_upload_background env2 ?db1 tid2 c f u2"
  let ?o2' = "process_upload_background env2 db tid2 c f u2"
  let ?n = "next_order_id db"
  from process_success [OF run1] have e1: "session_error env1 = None" "task_query_error env1 = None"
    and b1: "snd (snd (pipeline_body env1 (update_task tid1 ?P db) tid1 c f u1)) = Inr r1"
    by simp_all
  from pipeline_body_success [OF b1] obtain info df m ps1 where
    read1: "read_upload env1 f c = Inr (info, df, m)"
    and cols: "check_columns info df m = None"
    and rows1: "process_rows env1 info m df = Inr ps1"
    and body1: "pipeline_body env1 (update_task tid1 ?P db) tid1 c f u1
        = complete_upload env1 info (record_history info u1 (update_task tid1 ?P db)) tid1 u1 ps1"
    by blast
  let ?dbA = "record_history info u1 (update_task tid1 ?P db)"
  let ?ds1 = "all_order_data env1 info tid1 u1 ps1"
  from process_complete [OF e1 read1 cols rows1, of db tid1 u1]
  have fin1: "?db1 = fst (complete_upload env1 info ?dbA tid1 u1 ps1)" by simp
  from b1 body1 have res1: "snd (snd (complete_upload env1 info ?dbA tid1 u1 ps1)) = Inr r1"
    by simp
  with complete_upload_counts [of env1 info ?dbA tid1 u1 ps1]
  have new1: "new_orders r1 = new_count (snd (upsert ?dbA ?ds1))"
    and rep1: "replaced_orders r1 = replaced_count (snd (upsert ?dbA ?ds1))"
    by auto
  have d1: "distinct (map OrderNumber ?ds1)" by (rule all_order_data_distinct)
  have wfA: "wf_store ?dbA" using wf by (simp add: wf_store_def)
  have storedA: "uploaded_orders ?dbA = uploaded_orders db" "next_order_id ?dbA = ?n"
    by simp_all
  have numbers: "OrderNumber ` set ?ds1 = upload_numbers env1 f c"
    unfolding upload_numbers_read [OF read1] by (rule all_order_data_number_set [OF rows1])
  have fresh: "\<forall>d \<in> set ?ds1. OrderNumber d \<notin> OrderNumber ` set (uploaded_orders ?dbA)"
  proof
    fix d assume "d \<in> set ?ds1"
    then have "OrderNumber d \<in> upload_numbers env1 f c"
      unfolding numbers [symmetric] by (rule imageI)
    with none_stored show "OrderNumber d \<notin> OrderNumber ` set (uploaded_orders ?dbA)"
      unfolding storedA by blast
  qed
  from read_upload_env [OF readers] read1
  have read2: "read_upload env2 f c = Inr (info, df, m)" by simp
  from process_rows_env [OF rows1, of env2] obtain ps2 where
    rows2: "process_rows env2 info m df = Inr ps2"
    and nums: "map processed_order_number ps2 = map processed_order_number ps1"
    by blast
  let ?ds2 = "all_order_data env2 info tid2 u2 ps2"
  have same: "map OrderNumber ?ds2 = map OrderNumber ?ds1"
    by (simp add: all_order_data_numbers group_orders_keys nums)
  let ?dbB1 = "record_history info u2 (update_task tid2 ?P ?db1)"
  let ?dbB0 = "record_history info u2 (update_task tid2 ?P db)"
  have st1: "uploaded_orders ?dbB1 = uploaded_orders (fst (upsert ?dbA ?ds1))"
    by (simp add: fin1 complete_upload_orders)
  note tw = upsert_twice [OF wfA d1 same fresh st1]
  note ag = upsert_again [OF wfA d1 same fresh st1, unfolded storedA]
  from process_complete [OF env2 read2 cols rows2, of ?db1 tid2 u2]
  have fin2: "final_db ?o2 = fst (complete_upload env2 info ?dbB1 tid2 u2 ps2)"
    and res2: "\<forall>r. snd (snd (complete_upload env2 info ?dbB1 tid2 u2 ps2)) = Inr r
                 \<longrightarrow> result ?o2 = Some r"
    by simp_all
  from complete_upload_counts [of env2 info ?dbB1 tid2 u2 ps2] obtain r2 where
    r2: "snd (snd (complete_upload env2 info ?dbB1 tid2 u2 ps2)) = Inr r2"
    and new2: "new_orders r2 = new_count (snd (upsert ?dbB1 ?ds2))"
    and rep2: "replaced_orders r2 = replaced_count (snd (upsert ?dbB1 ?ds2))"
    by blast
  from res2 r2 have result2: "result ?o2 = Some r2" by simp
  from process_complete [OF env2 read2 cols rows2, of db tid2 u2]
  have fin2': "final_db ?o2' = fst (complete_upload env2 info ?dbB0 tid2 u2 ps2)"
    by simp
  have base: "uploaded_orders (fst (upsert ?dbB0 ?ds2)) = uploaded_orders (fst (upsert ?dbA ?ds2))"
    by (intro conjunct1 [OF upsert_reads_orders_only]) simp_all
  have orders1: "uploaded_orders ?db1 = uploaded_orders db @ new_rows ?n ?ds1"
    using ag by (simp add: fin1 complete_upload_orders)
  have orders2: "uploaded_orders (final_db ?o2)
      = uploaded_orders db @ map null_to_empty (new_rows ?n ?ds2)"
    using ag by (simp add: fin2 complete_upload_orders)
  have orders2': "uploaded_orders (final_db ?o2') = uploaded_orders db @ new_rows ?n ?ds2"
    using ag by (simp add: fin2' complete_upload_orders base)
  have len1: "new_orders r1 = length ?ds1" using new1 tw by simp
  have n1: "new_orders r1 = card (upload_numbers env1 f c)"
  proof -
    have "length ?ds1 = length (group_orders ps1)"
      using all_order_data_numbers [of env1 info tid1 u1 ps1] by (metis length_map)
    also have "\<dots> = card ((\<lambda>r. strip (cell_str (r (order_number m)))) ` set (valid_rows df m))"
      using normalization_lengths [OF rows1] .
    finally show ?thesis
      unfolding upload_numbers_read [OF read1] len1 .
  qed
  have rep1': "replaced_orders r1 = 0"
    using rep1 upsert_fresh [OF d1 fresh] by simp
  have "new_orders r2 = 0" using new2 tw by simp
  moreover have "replaced_orders r2 = new_orders r1" using rep2 new1 tw by simp
  moreover have "uploaded_orders ?db1
      = uploaded_orders db @ drop (length (uploaded_orders db)) (uploaded_orders ?db1)"
    unfolding orders1 by simp
  moreover have "length (uploaded_orders ?db1) = length (uploaded_orders db) + new_orders r1"
    unfolding orders1 len1 by simp
  moreover have "uploaded_orders (final_db ?o2)
      = uploaded_orders db
        @ map null_to_empty (drop (length (uploaded_orders db)) (uploaded_orders (final_db ?o2')))"
    unfolding orders2 orders2' by simp
  ultimately show ?thesis
    using result2 n1 rep1' by blast
qed

text \<open>
  The example export ingested twice in the same context (task \<open>t1\<close>, the same submitter
  and clock, the external system unreachable both times): the first run reports two new
  orders, the second two replaced ones, and the two NULL foreign order numbers of the
  first run are empty strings after the second.
\<close>

theorem reingest_example:
  "card (upload_numbers example_env ''AURA-SHOPEE-5-1.xlsx'' ''bytes'') = 2
   \<and> result (process_upload_background example_env example_db ''t1'' ''bytes''
         ''AURA-SHOPEE-5-1.xlsx'' ''ani'')
       = Some \<lparr>new_orders = 2, replaced_orders = 0, interface_count = 0,
               not_interface_count = 2, result_total_orders = 2\<rparr>
   \<and> result (process_upload_background example_env
         (final_db (process_upload_background example_env example_db ''t1'' ''bytes''
            ''AURA-SHOPEE-5-1.xlsx'' ''ani''))
         ''t1'' ''bytes'' ''AURA-SHOPEE-5-1.xlsx'' ''ani'')
       = Some \<lparr>new_orders = 0, replaced_orders = 2, interface_count = 0,
               not_interface_count = 2, result_total_orders = 2\<rparr>
   \<and> map OrderNumberFlexo
        (uploaded_orders (final_db (process_upload_background example_env example_db ''t1''
           ''bytes'' ''AURA-SHOPEE-5-1.xlsx'' ''ani'')))
       = [None, None]
   \<and> map OrderNumberFlexo
        (uploaded_orders (final_db (process_upload_background example_env
           (final_db (process_upload_background example_env example_db ''t1'' ''bytes''
              ''AURA-SHOPEE-5-1.xlsx'' ''ani''))
           ''t1'' ''bytes'' ''AURA-SHOPEE-5-1.xlsx'' ''ani'')))
       = [Some [], Some []]
   \<and> uploaded_orders (final_db (process_upload_background example_env
         (final_db (process_upload_background example_env example_db ''t1'' ''bytes''
            ''AURA-SHOPEE-5-1.xlsx'' ''ani''))
         ''t1'' ''bytes'' ''AURA-SHOPEE-5-1.xlsx'' ''ani''))
       = map null_to_empty
           (uploaded_orders (final_db (process_upload_background example_env example_db ''t1''
              ''bytes'' ''AURA-SHOPEE-5-1.xlsx'' ''ani'')))"
proof -
  let ?o1 = "process_upload_background example_env example_db ''t1'' ''bytes''
      ''AURA-SHOPEE-5-1.xlsx'' ''ani''"
  let ?o2 = "process_upload_background example_env (final_db ?o1) ''t1'' ''bytes''
      ''AURA-SHOPEE-5-1.xlsx'' ''ani''"
  let ?r1 = "\<lparr>new_orders = 2, replaced_orders = 0, interface_count = 0,
      not_interface_count = 2, result_total_orders = 2\<rparr>"
  have wf: "wf_store example_db"
    by code_simp
  have run1: "result ?o1 = Some ?r1"
    by code_simp
  have run2: "result ?o2 = Some \<lparr>new_orders = 0, replaced_orders = 2, interface_count = 0,
      not_interface_count = 2, result_total_orders = 2\<rparr>"
    by code_simp
  have empty: "uploaded_orders example_db = []"
    by (simp add: example_db_def)
  then have none_stored: "upload_numbers example_env ''AURA-SHOPEE-5-1.xlsx'' ''bytes''
      \<inter> OrderNumber ` set (uploaded_orders example_db) = {}"
    by simp
  have env: "session_error example_env = None" "task_query_error example_env = None"
    by (simp_all add: example_env_def)
  have first: "map OrderNumberFlexo (uploaded_orders (final_db ?o1)) = [None, None]"
    by code_simp
  from reingest_rewrites_null_foreign_fields [OF wf run1 none_stored env refl refl,
      of "''t1''" "''ani''"]
  have count: "new_orders ?r1 = card (upload_numbers example_env ''AURA-SHOPEE-5-1.xlsx'' ''bytes'')"
    and second: "uploaded_orders (final_db ?o2)
      = uploaded_orders example_db
        @ map null_to_empty (drop (length (uploaded_orders example_db))
            (uploaded_orders (final_db ?o1)))"
    by blast+
  from second have state: "uploaded_orders (final_db ?o2)
      = map null_to_empty (uploaded_orders (final_db ?o1))"
    unfolding empty by simp
  have "map OrderNumberFlexo (uploaded_orders (final_db ?o2))
      = map or_empty (map OrderNumberFlexo (uploaded_orders (final_db ?o1)))"
    unfolding state by (simp add: null_to_empty_def comp_def)
  then have rewritten: "map OrderNumberFlexo (uploaded_orders (final_db ?o2)) = [Some [], Some []]"
    unfolding first by (simp add: or_empty_def)
  from count have numbers: "card (upload_numbers example_env ''AURA-SHOPEE-5-1.xlsx'' ''bytes'') = 2"
    by simp
  from numbers run1 run2 first rewritten state show ?thesis
    by blast
qed

text \<open>
  The same two runs through \<open>process_upload\<close>: the store after the second run is not the
  store after the first.
\<close>

theorem reingest_state_differs:
  "map OrderNumberFlexo
     (uploaded_orders (final_db (process_upload example_db example_upload)))
     = [None, None]
   \<and> map OrderNumberFlexo
       (uploaded_orders (final_db (process_upload
          (final_db (process_upload example_db example_upload)) example_upload)))
       = [Some [], Some []]
   \<and> uploaded_orders (final_db (process_upload
        (final_db (process_upload example_db example_upload)) example_upload))
       \<noteq> uploaded_orders (final_db (process_upload example_db example_upload))"
  by code_simp

section \<open>Failure paths of the pipeline\<close>

lemma mark_failed_twice [simp]:
  "mark_failed env tid msg2 (mark_failed env tid msg1 db) = mark_failed env tid msg2 db"
  by (simp add: mark_failed_def update_task_def comp_def cong: if_cong)

lemma mark_failed_processing [simp]:
  "mark_failed env tid msg (update_task tid (\<lambda>t. t\<lparr>status := ''processing''\<rparr>) db)
     = mark_failed env tid msg db"
  by (simp add: mark_failed_def update_task_def comp_def cong: if_cong)

lemma mark_failed_record_history:
  "mark_failed env tid msg (record_history info u db)
     = record_history info u (mark_failed env tid msg db)"
  by (simp add: mark_failed_def update_task_def record_history_def)

lemma record_history_processing:
  "mark_failed env tid msg (record_history info u (update_task tid (\<lambda>t. t\<lparr>status := ''processing''\<rparr>) db))
     = record_history info u (mark_failed env tid msg db)"
  by (simp add: mark_failed_record_history)

text \<open>What the pipeline raises, and what it has written when it raises.\<close>

lemma process_failure_cases:
  assumes "session_error env = None" "task_query_error env = None"
  shows "(case read_upload env f c of
            Inl e \<Rightarrow>
              raised (process_upload_background env db tid c f u) = Some e
              \<and> final_db (process_upload_background env db tid c f u)
                  = mark_failed env tid (str_of_error e) db
              \<and> external_queries (process_upload_background env db tid c f u) = []
          | Inr (info, df, m) \<Rightarrow>
              (case check_columns info df m of
                 Some (msg, e) \<Rightarrow>
                   raised (process_upload_background env db tid c f u) = Some e
                   \<and> final_db (process_upload_background env db tid c f u)
                       = record_history info u (mark_failed env tid (str_of_error e) db)
                   \<and> external_queries (process_upload_background env db tid c f u) = []
               | None \<Rightarrow>
                   (case process_rows env info m df of
                      Inl e \<Rightarrow>
                        raised (process_upload_background env db tid c f u) = Some e
                        \<and> final_db (process_upload_background env db tid c f u)
                            = record_history info u (mark_failed env tid (str_of_error e) db)
                        \<and> external_queries (process_upload_background env db tid c f u) = []
                    | Inr ps \<Rightarrow>
                        raised (process_upload_background env db tid c f u) = None)))"
proof (cases "read_upload env f c")
  case (Inl e)
  with assms show ?thesis
    by (simp add: process_upload_background_def pipeline_body_def)
next
  case (Inr x)
  obtain info df m where x: "x = (info, df, m)" by (cases x)
  show ?thesis
  proof (cases "check_columns info df m")
    case (Some y)
    obtain msg e where y: "y = (msg, e)" by (cases y)
    with assms Inr x Some show ?thesis
      by (simp add: process_upload_background_def pipeline_body_def record_history_processing
          mark_failed_record_history)
  next
    case None
    show ?thesis
    proof (cases "process_rows env info m df")
      case (Inl e)
      with assms Inr x None show ?thesis
        by (simp add: process_upload_background_def pipeline_body_def record_history_processing)
    next
      case (Inr ps)
      let ?db = "record_history info u (update_task tid (\<lambda>t. t\<lparr>status := ''processing''\<rparr>) db)"
      from complete_upload_counts [of env info ?db tid u ps] obtain r a b where
        "complete_upload env info ?db tid u ps = (a, b, Inr r)"
        by (cases "complete_upload env info ?db tid u ps") auto
      with assms \<open>read_upload env f c = Inr x\<close> x None Inr show ?thesis
        by (simp add: process_upload_background_def pipeline_body_def)
    qed
  qed
qed

lemma process_failure:
  assumes "session_error env = None" "task_query_error env = None"
    and "raised (process_upload_background env db tid c f u) = Some e"
  shows "external_queries (process_upload_background env db tid c f u) = []
     \<and> (final_db (process_upload_background env db tid c f u)
           = mark_failed env tid (str_of_error e) db
         \<or> (\<exists>info. final_db (process_upload_background env db tid c f u)
              = record_history info u (mark_failed env tid (str_of_error e) db)))"
proof -
  note cs = process_failure_cases [OF assms(1,2), where f = f and c = c and db = db
      and tid = tid and u = u]
  show ?thesis
  proof (cases "read_upload env f c")
    case (Inl e')
    with cs assms(3) show ?thesis by simp
  next
    case (Inr x)
    obtain info df m where x: "x = (info, df, m)" by (cases x)
    show ?thesis
    proof (cases "check_columns info df m")
      case (Some y)
      obtain msg e' where y: "y = (msg, e')" by (cases y)
      from cs assms(3) Inr x Some y show ?thesis by auto
    next
      case None
      show ?thesis
      proof (cases "process_rows env info m df")
        case (Inl e')
        from cs assms(3) \<open>read_upload env f c = Inr x\<close> x None Inl show ?thesis by auto
      next
        case (Inr ps)
        from cs assms(3) \<open>read_upload env f c = Inr x\<close> x None Inr show ?thesis by simp
      qed
    qed
  qed
qed

lemma find_task_update_task:
  assumes "\<And>t. task_id (g t) = task_id t"
  shows "find_task (update_task tid g db) tid = map_option g (find_task db tid)"
proof -
  have "find (\<lambda>t. task_id t = tid) (map (\<lambda>t. if task_id t = tid then g t else t) ts)
      = map_option g (find (\<lambda>t. task_id t = tid) ts)" for ts
    by (induction ts) (auto simp: assms)
  then show ?thesis by (simp add: find_task_def update_task_def)
qed

lemma find_task_mark_failed:
  "find_task (mark_failed env tid msg db) tid
     = map_option (\<lambda>t. t\<lparr>status := ''failed'', error_message := Some msg,
                         completed_at := Some (completion_time env)\<rparr>) (find_task db tid)"
  unfolding mark_failed_def by (rule find_task_update_task) simp

lemma find_task_record_history [simp]:
  "find_task (record_history info u db) tid = find_task db tid"
  by (simp add: find_task_def record_history_def)

lemma read_upload_cases:
  "(parse_filename f = Inr None \<longrightarrow>
      read_upload env f c = Inl (PyException ''Invalid filename format''))
   \<and> (\<forall>e. parse_filename f = Inl e \<longrightarrow> read_upload env f c = Inl e)
   \<and> (\<forall>info. parse_filename f = Inr (Some info) \<and> \<not> ends_with f ''.xlsx''
          \<and> \<not> ends_with f ''.csv'' \<longrightarrow>
        read_upload env f c = Inl (PyException ''Unsupported file format''))"
  by (simp add: read_upload_def read_file_def)


lemma next_order_id_mark_failed [simp]:
  "next_order_id (mark_failed env tid msg db) = next_order_id db"
  by (simp add: mark_failed_def)

text \<open>
  C4, as the code has it. When the session is opened and the task row loaded, an upload
  that fails validation raises the specific cause, and the handler stores that cause on
  the task row with status \<open>failed\<close>. For an unparseable filename (no pattern matches, or
  a matched part is out of range) and for an unsupported extension, marking the task is
  the only write. For a missing required column and for zero parseable order numbers the
  upload-history row has been written before the check, and is the only other write.
  Whatever is raised, no chunk has been sent to the external system, and the order store
  and its key counter are unchanged.
\<close>

theorem validation_failure_writes_no_orders:
  assumes "session_error env = None" "task_query_error env = None"
  shows "let out = process_upload_background env db tid c f u in
     (parse_filename f = Inr None \<longrightarrow>
        raised out = Some (PyException ''Invalid filename format'')
        \<and> final_db out = mark_failed env tid ''Invalid filename format'' db)
   \<and> (\<forall>e. parse_filename f = Inl e \<longrightarrow>
          raised out = Some e \<and> final_db out = mark_failed env tid (str_of_error e) db)
   \<and> (\<forall>info. parse_filename f = Inr (Some info) \<and> \<not> ends_with f ''.xlsx''
          \<and> \<not> ends_with f ''.csv'' \<longrightarrow>
          raised out = Some (PyException ''Unsupported file format'')
          \<and> final_db out = mark_failed env tid ''Unsupported file format'' db)
   \<and> (\<forall>info df m. read_upload env f c = Inr (info, df, m) \<and> missing_columns df m \<noteq> [] \<longrightarrow>
          raised out = Some (PyException (''Missing required columns for '' @ sales_channel info
                               @ '': '' @ join '', '' (missing_columns df m)))
          \<and> final_db out = record_history info u
               (mark_failed env tid (''Missing required columns for '' @ sales_channel info
                               @ '': '' @ join '', '' (missing_columns df m)) db))
   \<and> (\<forall>info df m. read_upload env f c = Inr (info, df, m) \<and> missing_columns df m = []
          \<and> non_empty_count df m = 0 \<longrightarrow>
          raised out = Some (PyException (''No valid order numbers found in '' @ order_number m
                               @ '' column''))
          \<and> final_db out = record_history info u
               (mark_failed env tid (''No valid order numbers found in '' @ order_number m
                               @ '' column'') db))
   \<and> (\<forall>e. raised out = Some e \<longrightarrow>
          external_queries out = [] \<and> uploaded_orders (final_db out) = uploaded_orders db
          \<and> next_order_id (final_db out) = next_order_id db)
   \<and> (\<forall>t msg info. find_task db tid = Some t \<longrightarrow>
          find_task (mark_failed env tid msg db) tid
            = Some (t\<lparr>status := ''failed'', error_message := Some msg,
                      completed_at := Some (completion_time env)\<rparr>)
          \<and> find_task (record_history info u (mark_failed env tid msg db)) tid
            = Some (t\<lparr>status := ''failed'', error_message := Some msg,
                      completed_at := Some (completion_time env)\<rparr>))"
proof -
  let ?out = "process_upload_background env db tid c f u"
  note cs = process_failure_cases [OF assms, where f = f and c = c and db = db
      and tid = tid and u = u]
  note rd = read_upload_cases [of f env c]
  have 1: "parse_filename f = Inr None \<longrightarrow>
        raised ?out = Some (PyException ''Invalid filename format'')
        \<and> final_db ?out = mark_failed env tid ''Invalid filename format'' db"
    using cs rd by auto
  have 2: "\<forall>e. parse_filename f = Inl e \<longrightarrow>
          raised ?out = Some e \<and> final_db ?out = mark_failed env tid (str_of_error e) db"
    using cs rd by auto
  have 3: "\<forall>info. parse_filename f = Inr (Some info) \<and> \<not> ends_with f ''.xlsx''
          \<and> \<not> ends_with f ''.csv'' \<longrightarrow>
          raised ?out = Some (PyException ''Unsupported file format'')
          \<and> final_db ?out = mark_failed env tid ''Unsupported file format'' db"
  proof (intro allI impI)
    fix info assume "parse_filename f = Inr (Some info) \<and> \<not> ends_with f ''.xlsx''
          \<and> \<not> ends_with f ''.csv''"
    with rd have "read_upload env f c = Inl (PyException ''Unsupported file format'')"
      by blast
    with cs show "raised ?out = Some (PyException ''Unsupported file format'')
          \<and> final_db ?out = mark_failed env tid ''Unsupported file format'' db"
      by simp
  qed
  have 4: "\<forall>info df m. read_upload env f c = Inr (info, df, m) \<and> missing_columns df m \<noteq> [] \<longrightarrow>
          raised ?out = Some (PyException (''Missing required columns for '' @ sales_channel info
                               @ '': '' @ join '', '' (missing_columns df m)))
          \<and> final_db ?out = record_history info u
               (mark_failed env tid (''Missing required columns for '' @ sales_channel info
                               @ '': '' @ join '', '' (missing_columns df m)) db)"
    using cs by (auto simp: check_columns_def)
  have 5: "\<forall>info df m. read_upload env f c = Inr (info, df, m) \<and> missing_columns df m = []
          \<and> non_empty_count df m = 0 \<longrightarrow>
          raised ?out = Some (PyException (''No valid order numbers found in '' @ order_number m
                               @ '' column''))
          \<and> final_db ?out = record_history info u
               (mark_failed env tid (''No valid order numbers found in '' @ order_number m
                               @ '' column'') db)"
    using cs by (auto simp: check_columns_def)
  have 6: "\<forall>e. raised ?out = Some e \<longrightarrow>
          external_queries ?out = [] \<and> uploaded_orders (final_db ?out) = uploaded_orders db
          \<and> next_order_id (final_db ?out) = next_order_id db"
    using process_failure [OF assms, where f = f and c = c and db = db and tid = tid and u = u]
    by auto
  have 7: "\<forall>t msg info. find_task db tid = Some t \<longrightarrow>
          find_task (mark_failed env tid msg db) tid
            = Some (t\<lparr>status := ''failed'', error_message := Some msg,
                      completed_at := Some (completion_time env)\<rparr>)
          \<and> find_task (record_history info u (mark_failed env tid msg db)) tid
            = Some (t\<lparr>status := ''failed'', error_message := Some msg,
                      completed_at := Some (completion_time env)\<rparr>)"
    by (simp add: find_task_mark_failed)
  from 1 2 3 4 5 6 7 show ?thesis
    unfolding Let_def by (intro conjI)
qed

text \<open>
  The example export without its tracking column: the cause names the column, nothing
  was sent to the external system and no order was stored.
\<close>

theorem validation_failure_example:
  "raised (process_upload_background example_env_no_awb example_db ''t1'' ''bytes''
             ''AURA-SHOPEE-5-1.xlsx'' ''ani'')
     = Some (PyException ''Missing required columns for SHOPEE: No. Resi'')
   \<and> external_queries (process_upload_background example_env_no_awb example_db ''t1''
        ''bytes'' ''AURA-SHOPEE-5-1.xlsx'' ''ani'') = []
   \<and> uploaded_orders (final_db (process_upload_background example_env_no_awb example_db
        ''t1'' ''bytes'' ''AURA-SHOPEE-5-1.xlsx'' ''ani'')) = uploaded_orders example_db"
proof -
  let ?out = "process_upload_background example_env_no_awb example_db ''t1'' ''bytes''
             ''AURA-SHOPEE-5-1.xlsx'' ''ani''"
  have h: "session_error example_env_no_awb = None" "task_query_error example_env_no_awb = None"
    by (simp_all add: example_env_no_awb_def example_env_def)
  have r: "raised ?out = Some (PyException ''Missing required columns for SHOPEE: No. Resi'')"
    by code_simp
  from validation_failure_writes_no_orders [OF h, where db = example_db and tid = "''t1''"
      and c = "''bytes''" and f = "''AURA-SHOPEE-5-1.xlsx''" and u = "''ani''"]
  have "\<forall>e. raised ?out = Some e \<longrightarrow>
          external_queries ?out = [] \<and> uploaded_orders (final_db ?out) = uploaded_orders example_db
          \<and> next_order_id (final_db ?out) = next_order_id example_db"
    unfolding Let_def by blast
  with r show ?thesis by simp
qed

text \<open>
  The claim as stated fails there: the upload-history row is in the database although
  the upload failed validation.
\<close>

theorem validation_failure_history_written:
  "file_upload_history example_db = []
   \<and> file_upload_history (final_db (process_upload_background example_env_no_awb example_db
        ''t1'' ''bytes'' ''AURA-SHOPEE-5-1.xlsx'' ''ani''))
       = [\<lparr>history_marketplace = ''SHOPEE'', history_brand = ''AURA'', history_pic = ''ani'',
           history_batch = ''1''\<rparr>]
   \<and> raised (process_upload_background example_env_no_awb example_db ''t1'' ''bytes''
        ''AURA-SHOPEE-5-1.xlsx'' ''ani'')
       = Some (PyException ''Missing required columns for SHOPEE: No. Resi'')"
  by code_simp

text \<open>
  C7, as the code has it. When the session was opened and the task row loaded, every
  exception the pipeline raises sets the task to \<open>failed\<close> with the exception's text as
  its error message. The session is never left open: it is closed whenever
  \<open>SessionLocal()\<close> returned. When \<open>SessionLocal()\<close> itself raises there is no session to
  close, and when it or the task query raises, \<open>task\<close> is not bound and the handler writes
  nothing: the database is as it was.
\<close>

theorem failure_marks_task_failed:
  "let out = process_upload_background env db tid c f u in
     (\<forall>e t. session_error env = None \<and> task_query_error env = None \<and> raised out = Some e
          \<and> find_task db tid = Some t \<longrightarrow>
          find_task (final_db out) tid
            = Some (t\<lparr>status := ''failed'', error_message := Some (str_of_error e),
                      completed_at := Some (completion_time env)\<rparr>))
   \<and> session out \<noteq> Opened
   \<and> (session_error env = None \<longrightarrow> session out = Closed)
   \<and> (\<forall>msg. session_error env = Some msg \<longrightarrow>
          raised out = Some (PyException msg) \<and> session out = NotOpened \<and> final_db out = db)
   \<and> (\<forall>msg. session_error env = None \<and> task_query_error env = Some msg \<longrightarrow>
          raised out = Some (PyException msg) \<and> final_db out = db)"
proof -
  let ?out = "process_upload_background env db tid c f u"
  have 1: "\<forall>e t. session_error env = None \<and> task_query_error env = None \<and> raised ?out = Some e
          \<and> find_task db tid = Some t \<longrightarrow>
          find_task (final_db ?out) tid
            = Some (t\<lparr>status := ''failed'', error_message := Some (str_of_error e),
                      completed_at := Some (completion_time env)\<rparr>)"
  proof (intro allI impI)
    fix e t
    assume h: "session_error env = None \<and> task_query_error env = None \<and> raised ?out = Some e
          \<and> find_task db tid = Some t"
    then have "final_db ?out = mark_failed env tid (str_of_error e) db
         \<or> (\<exists>info. final_db ?out = record_history info u (mark_failed env tid (str_of_error e) db))"
      using process_failure [where env = env and f = f and c = c and db = db and tid = tid
          and u = u and e = e] by blast
    with h show "find_task (final_db ?out) tid
            = Some (t\<lparr>status := ''failed'', error_message := Some (str_of_error e),
                      completed_at := Some (completion_time env)\<rparr>)"
      by (auto simp: find_task_mark_failed)
  qed
  have 2: "session ?out \<noteq> Opened \<and> (session_error env = None \<longrightarrow> session ?out = Closed)"
    by (simp add: process_upload_background_def finally_close_def
        split: option.splits prod.splits sum.splits)
  have 3: "\<forall>msg. session_error env = Some msg \<longrightarrow>
          raised ?out = Some (PyException msg) \<and> session ?out = NotOpened \<and> final_db ?out = db"
    by (simp add: process_upload_background_def finally_close_def)
  have 4: "\<forall>msg. session_error env = None \<and> task_query_error env = Some msg \<longrightarrow>
          raised ?out = Some (PyException msg) \<and> final_db ?out = db"
    by (simp add: process_upload_background_def)
  from 1 2 3 4 show ?thesis
    unfolding Let_def by (intro conjI) simp_all
qed

text \<open>A file whose name matches neither pattern: the task carries the message.\<close>

theorem failure_marks_task_failed_example:
  "find_task (final_db (process_upload_background example_env example_db ''t1'' ''bytes''
                ''report.xlsx'' ''ani'')) ''t1''
     = Some (example_task\<lparr>status := ''failed'',
               error_message := Some ''Invalid filename format'', completed_at := Some 9\<rparr>)
   \<and> session (process_upload_background example_env example_db ''t1'' ''bytes''
        ''report.xlsx'' ''ani'') = Closed"
proof -
  let ?out = "process_upload_background example_env example_db ''t1'' ''bytes''
                ''report.xlsx'' ''ani''"
  have h: "session_error example_env = None" "task_query_error example_env = None"
    by (simp_all add: example_env_def)
  have r: "raised ?out = Some (PyException ''Invalid filename format'')"
    by code_simp
  have t: "find_task example_db ''t1'' = Some example_task"
    by code_simp
  have ct: "completion_time example_env = 9"
    by (simp add: example_env_def)
  from failure_marks_task_failed [where env = example_env and db = example_db
      and tid = "''t1''" and c = "''bytes''" and f = "''report.xlsx''" and u = "''ani''"]
  have "(\<forall>e t. session_error example_env = None \<and> task_query_error example_env = None
          \<and> raised ?out = Some e \<and> find_task example_db ''t1'' = Some t \<longrightarrow>
          find_task (final_db ?out) ''t1''
            = Some (t\<lparr>status := ''failed'', error_message := Some (str_of_error e),
                      completed_at := Some (completion_time example_env)\<rparr>))
     \<and> (session_error example_env = None \<longrightarrow> session ?out = Closed)"
    unfolding Let_def by blast
  with h r t ct show ?thesis by simp
qed

text \<open>
  The claim as stated fails when the task query raises: the exception is raised inside
  the pipeline, and the task row stays \<open>pending\<close>.
\<close>

theorem failure_before_task_is_loaded:
  "raised (process_upload_background example_env_query_fails example_db ''t1'' ''bytes''
             ''AURA-SHOPEE-5-1.xlsx'' ''ani'') = Some (PyException ''connection lost'')
   \<and> find_task example_db ''t1'' = Some example_task
   \<and> map status (upload_tasks (final_db (process_upload_background example_env_query_fails
        example_db ''t1'' ''bytes'' ''AURA-SHOPEE-5-1.xlsx'' ''ani''))) = [''pending'']"
  by code_simp

section \<open>Tokopedia\<close>

lemma tokopedia_mapping:
  assumes "lower sc = ''tokopedia''"
  shows "\<exists>m. get_marketplace_mapping sc = Some m \<and> order_date m = None"
proof -
  from assms have "sc \<noteq> []" by (auto simp: lower_def)
  moreover have "strip ''tokopedia'' = ''tokopedia''" by code_simp
  ultimately show ?thesis
    using assms by (simp add: get_marketplace_mapping_def MARKETPLACE_MAPPINGS_def)
qed

lemma process_rows_no_date:
  assumes "order_date m = None"
  shows "process_rows env info m df = Inl (PyException ''No valid order numbers found'')
     \<or> process_rows env info m df = Inl (KeyError ''None'')"
  using assms by (simp add: process_rows_def Let_def processed_dates_def get_column_def)

lemma non_empty_valid_rows: "non_empty_count df m \<noteq> 0 \<Longrightarrow> valid_rows df m \<noteq> []"
  by (auto simp: non_empty_count_def valid_rows_def is_valid_order_number_def Let_def
      filter_empty_conv)

text \<open>
  C9. The schema of Tokopedia has no date column (\<open>order_date\<close> is \<open>None\<close>), and the
  pipeline reads \<open>valid_df[order_date_col]\<close> all the same. So no upload whose filename
  names the channel Tokopedia completes: it always raises, stores no order, and a file
  with every column of the schema and a valid order number raises \<open>KeyError(None)\<close>. The
  date derived from the filename is computed and never used.
\<close>

theorem tokopedia_upload_never_completes:
  assumes "parse_filename f = Inr (Some info)" "lower (sales_channel info) = ''tokopedia''"
  shows "let out = process_upload_background env db tid c f u in
     result out = None \<and> raised out \<noteq> None
     \<and> uploaded_orders (final_db out) = uploaded_orders db
     \<and> (\<forall>df m. session_error env = None \<and> task_query_error env = None
            \<and> read_upload env f c = Inr (info, df, m) \<and> check_columns info df m = None \<longrightarrow>
          raised out = Some (KeyError ''None''))"
proof -
  let ?out = "process_upload_background env db tid c f u"
  from tokopedia_mapping [OF assms(2)] obtain m0 where
    m0: "get_marketplace_mapping (sales_channel info) = Some m0" "order_date m0 = None"
    by blast
  have same_m: "m = m0" if "read_upload env f c = Inr (info', df, m)" for info' df m
    using that assms(1) m0 by (auto simp: read_upload_def split: sum.splits option.splits)
  have raised: "raised ?out \<noteq> None"
  proof (cases "session_error env = None \<and> task_query_error env = None")
    case False
    then show ?thesis
      by (auto simp: process_upload_background_def split: option.splits)
  next
    case True
    note cs = process_failure_cases [where env = env and f = f and c = c and db = db
      and tid = tid and u = u]
    show ?thesis
    proof (cases "read_upload env f c")
      case (Inl e)
      with cs True show ?thesis by simp
    next
      case (Inr x)
      obtain info' df m where x: "x = (info', df, m)" by (cases x)
      with Inr same_m have m: "m = m0" by blast
      show ?thesis
      proof (cases "check_columns info' df m")
        case (Some y)
        obtain msg e where "y = (msg, e)" by (cases y)
        with cs True Inr x Some show ?thesis by simp
      next
        case None
        from process_rows_no_date [OF m0(2), of env info' df] obtain e where
          "process_rows env info' m df = Inl e" using m by blast
        with cs True Inr x None show ?thesis by simp
      qed
    qed
  qed
  have res: "result ?out = None"
    using raised
    by (auto simp: process_upload_background_def split: option.splits prod.splits sum.splits)
  have orders: "uploaded_orders (final_db ?out) = uploaded_orders db"
  proof (cases "session_error env = None \<and> task_query_error env = None")
    case False
    then show ?thesis
      by (auto simp: process_upload_background_def split: option.splits)
  next
    case True
    from raised obtain e where "raised ?out = Some e" by auto
    with process_failure [where env = env and f = f and c = c and db = db and tid = tid
          and u = u and e = e] True
    show ?thesis by auto
  qed
  have key: "\<forall>df m. session_error env = None \<and> task_query_error env = None
            \<and> read_upload env f c = Inr (info, df, m) \<and> check_columns info df m = None \<longrightarrow>
          raised ?out = Some (KeyError ''None'')"
  proof (intro allI impI)
    fix df m
    assume h: "session_error env = None \<and> task_query_error env = None
            \<and> read_upload env f c = Inr (info, df, m) \<and> check_columns info df m = None"
    then have m: "m = m0" using same_m by blast
    from h have "non_empty_count df m \<noteq> 0"
      by (auto simp: check_columns_def split: if_splits)
    then have "valid_rows df m \<noteq> []" by (rule non_empty_valid_rows)
    with m m0(2) have "process_rows env info m df = Inl (KeyError ''None'')"
      by (simp add: process_rows_def Let_def processed_dates_def get_column_def)
    with h process_failure_cases [where env = env and f = f and c = c and db = db
      and tid = tid and u = u]
    show "raised ?out = Some (KeyError ''None'')" by simp
  qed
  from res raised orders key show ?thesis
    unfolding Let_def by (intro conjI)
qed

text \<open>A Tokopedia export with every column of its schema: the task ends failed.\<close>

theorem tokopedia_upload_example:
  "raised (process_upload_background example_env_tokopedia example_db ''t1'' ''bytes''
             ''AURA-TOKOPEDIA-5-1.xlsx'' ''ani'') = Some (KeyError ''None'')
   \<and> result (process_upload_background example_env_tokopedia example_db ''t1'' ''bytes''
        ''AURA-TOKOPEDIA-5-1.xlsx'' ''ani'') = None
   \<and> map status (upload_tasks (final_db (process_upload_background example_env_tokopedia
        example_db ''t1'' ''bytes'' ''AURA-TOKOPEDIA-5-1.xlsx'' ''ani''))) = [''failed'']
   \<and> map error_message (upload_tasks (final_db (process_upload_background
        example_env_tokopedia example_db ''t1'' ''bytes'' ''AURA-TOKOPEDIA-5-1.xlsx''
        ''ani''))) = [Some ''None'']"
proof -
  let ?out = "process_upload_background example_env_tokopedia example_db ''t1'' ''bytes''
             ''AURA-TOKOPEDIA-5-1.xlsx'' ''ani''"
  let ?info = "\<lparr>brand = ''AURA'', sales_channel = ''TOKOPEDIA'', date = ''5'', batch = ''1'',
                extension = ''xlsx''\<rparr>"
  have p: "parse_filename ''AURA-TOKOPEDIA-5-1.xlsx'' = Inr (Some ?info)"
    by code_simp
  have l: "lower (sales_channel ?info) = ''tokopedia''"
    by code_simp
  have r: "raised ?out = Some (KeyError ''None'')"
    by code_simp
  have t: "map status (upload_tasks (final_db ?out)) = [''failed'']"
    "map error_message (upload_tasks (final_db ?out)) = [Some ''None'']"
    by code_simp+
  from tokopedia_upload_never_completes [OF p l, where env = example_env_tokopedia
      and db = example_db and tid = "''t1''" and c = "''bytes''" and u = "''ani''"]
  have "result ?out = None"
    unfolding Let_def by blast
  with r t show ?thesis by simp
qed

section \<open>Orders absent from the external result set\<close>

lemma add_result_keys:
  "add_result acc r k \<noteq> None \<Longrightarrow> acc k \<noteq> None \<or> k = ext_order_number r"
  by (auto simp: add_result_def Let_def split: if_splits)

lemma foldl_add_result_keys:
  "foldl add_result acc rs k \<noteq> None \<Longrightarrow> acc k \<noteq> None \<or> k \<in> ext_order_number ` set rs"
proof (induction rs arbitrary: acc)
  case Nil
  then show ?case by simp
next
  case (Cons r rs)
  from Cons.prems have "foldl add_result (add_result acc r) rs k \<noteq> None" by simp
  from Cons.IH [OF this] add_result_keys [of acc r k] show ?case by auto
qed

lemma query_chunks_keys:
  "query_chunks exec cs acc k \<noteq> None \<Longrightarrow>
     acc k \<noteq> None \<or> (\<exists>c rs. exec c = Inr rs \<and> k \<in> ext_order_number ` set rs)"
proof (induction cs arbitrary: acc)
  case Nil
  then show ?case by simp
next
  case (Cons c cs)
  show ?case
  proof (cases "exec c")
    case (Inl e)
    with Cons.prems show ?thesis by simp
  next
    case (Inr rs)
    with Cons.prems have "query_chunks exec cs (foldl add_result acc rs) k \<noteq> None" by simp
    from Cons.IH [OF this] foldl_add_result_keys [of acc rs k] Inr show ?thesis by blast
  qed
qed

lemma external_absent:
  assumes "absent_from_external env k"
  shows "check_external_database_status env ns mp k = None"
proof (cases "MARKETPLACE_FIELD_MAPPING (lower mp)")
  case None
  then show ?thesis by (simp add: check_external_database_status_def)
next
  case (Some fm)
  show ?thesis
  proof (cases "connect env")
    case False
    with Some show ?thesis by (simp add: check_external_database_status_def)
  next
    case True
    with assms have no: "\<forall>chunk results. execute env fm chunk = Inr results
        \<longrightarrow> k \<notin> ext_order_number ` set results"
      by (simp add: absent_from_external_def)
    have "query_chunks (execute env fm) (chunks (min 100 (length ns)) ns) Map.empty k = None"
    proof (rule ccontr)
      assume "query_chunks (execute env fm) (chunks (min 100 (length ns)) ns) Map.empty k \<noteq> None"
      from query_chunks_keys [OF this] no show False by auto
    qed
    with Some True show ?thesis by (simp add: check_external_database_status_def Let_def)
  qed
qed

lemma check_interface_absent:
  assumes "absent_from_external env k"
  shows "check_interface_status env ns mp k = None \<or> check_interface_status env ns mp k = Some NotFound"
  using external_absent [OF assms, of ns mp]
  by (simp add: check_interface_status_def Let_def)

lemma reconcile_chunks_absent:
  assumes "absent_from_external env k"
  shows "acc k = None \<or> acc k = Some NotFound \<Longrightarrow>
     reconcile_chunks env mp cs acc k = None \<or> reconcile_chunks env mp cs acc k = Some NotFound"
proof (induction cs arbitrary: acc)
  case Nil
  then show ?case by simp
next
  case (Cons c cs)
  let ?acc = "acc ++ (if watchdog_fires env c then Map.empty else check_interface_status env c mp)"
  have "?acc k = None \<or> ?acc k = Some NotFound"
    using Cons.prems check_interface_absent [OF assms, of c mp]
    by (auto simp: map_add_def split: option.splits)
  with Cons.IH [of ?acc] show ?case by simp
qed

lemma reconcile_absent:
  assumes "absent_from_external env k"
  shows "reconcile env mp ns k = None \<or> reconcile env mp ns k = Some NotFound"
  unfolding reconcile_def by (rule reconcile_chunks_absent [OF assms]) simp

lemma make_order_data_absent:
  assumes "ifr (processed_order_number g) = None \<or> ifr (processed_order_number g) = Some NotFound"
  shows "InterfaceStatus (make_order_data env info tid u ifr g) = ''Not Yet Interface''
     \<and> (OrderNumberFlexo (make_order_data env info tid u ifr g) = None
         \<or> OrderNumberFlexo (make_order_data env info tid u ifr g) = Some [])
     \<and> OrderStatusFlexo (make_order_data env info tid u ifr g) = Some []
     \<and> ItemIdFlexo (make_order_data env info tid u ifr g) = None
     \<and> TaskId (make_order_data env info tid u ifr g) = tid"
  using assms by (auto simp: make_order_data_def interface_fields_def)

lemma all_order_data_absent:
  assumes "d \<in> set (all_order_data env info tid u ps)"
    and "absent_from_external env (OrderNumber d)"
  shows "InterfaceStatus d = ''Not Yet Interface''
     \<and> (OrderNumberFlexo d = None \<or> OrderNumberFlexo d = Some [])
     \<and> OrderStatusFlexo d = Some [] \<and> ItemIdFlexo d = None"
proof -
  let ?ifr = "reconcile env (sales_channel info) (map processed_order_number (group_orders ps))"
  from assms(1) obtain g where d: "d = make_order_data env info tid u ?ifr g"
    by (auto simp: all_order_data_def Let_def)
  with assms(2) have "absent_from_external env (processed_order_number g)" by simp
  from reconcile_absent [OF this] have
    "?ifr (processed_order_number g) = None \<or> ?ifr (processed_order_number g) = Some NotFound" .
  from make_order_data_absent [where ifr = ?ifr and g = g and env = env and info = info
      and tid = tid and u = u, OF this]
  show ?thesis unfolding d by blast
qed

lemma overwrite_twice [simp]: "overwrite (overwrite x d) d' = overwrite x d'"
  by (simp add: overwrite_def)

lemma update_orders_elems:
  "y \<in> set (update_orders xs us) \<Longrightarrow>
     y \<in> set xs \<or> (\<exists>x old d. x \<in> set xs \<and> (old, d) \<in> set us \<and> Id old = Id x \<and> y = overwrite x d)"
proof (induction us arbitrary: xs)
  case Nil
  then show ?case by simp
next
  case (Cons p us)
  obtain e d0 where p: "p = (e, d0)" by (cases p)
  let ?xs = "map (\<lambda>order. if Id order = Id e then overwrite order d0 else order) xs"
  from Cons.prems have "y \<in> set (update_orders ?xs us)" by (simp add: p)
  from Cons.IH [OF this] consider
    (a) "y \<in> set ?xs"
    | (b) x' old d where "x' \<in> set ?xs" "(old, d) \<in> set us" "Id old = Id x'" "y = overwrite x' d"
    by blast
  then show ?case
  proof cases
    case a
    then obtain x where x: "x \<in> set xs" "y = (if Id x = Id e then overwrite x d0 else x)"
      by auto
    show ?thesis
    proof (cases "Id x = Id e")
      case True
      with x have "x \<in> set xs \<and> (e, d0) \<in> set (p # us) \<and> Id e = Id x \<and> y = overwrite x d0"
        by (simp add: p)
      then show ?thesis by blast
    next
      case False
      with x show ?thesis by simp
    qed
  next
    case b
    from b(1) obtain x where x: "x \<in> set xs" "x' = (if Id x = Id e then overwrite x d0 else x)"
      by auto
    have "Id x' = Id x" "overwrite x' d = overwrite x d"
      using x(2) by (auto split: if_splits)
    with b x(1) have "x \<in> set xs \<and> (old, d) \<in> set (p # us) \<and> Id old = Id x \<and> y = overwrite x d"
      by simp
    then show ?thesis by blast
  qed
qed

lemma existing_SomeD:
  assumes "existing_orders_dict stored ks k = Some order"
  shows "order \<in> set stored \<and> OrderNumber order = k"
proof -
  from assms have "(k, order) \<in> set (rev (map (\<lambda>order. (OrderNumber order, order))
                (filter (\<lambda>order. OrderNumber order \<in> set ks) stored)))"
    unfolding existing_orders_dict_def dict_of_def by (rule map_of_SomeD)
  then show ?thesis by auto
qed

lemma upsert_elems:
  assumes wf: "wf_store db" and ds: "distinct (map OrderNumber ds)"
    and y: "y \<in> set (uploaded_orders (fst (upsert db ds)))"
  shows "y \<in> set (uploaded_orders db)
     \<or> (\<exists>i d. d \<in> set ds \<and> y = new_order i d)
     \<or> (\<exists>x d. d \<in> set ds \<and> x \<in> set (uploaded_orders db) \<and> OrderNumber x = OrderNumber d
           \<and> y = overwrite x d)"
proof -
  let ?stored = "uploaded_orders db"
  let ?n = "next_order_id db"
  let ?ex = "existing_orders_dict ?stored (map OrderNumber ds)"
  let ?ins = "filter (\<lambda>d. ?ex (OrderNumber d) = None) ds"
  let ?upd = "concat (map (\<lambda>d. case ?ex (OrderNumber d) of
                                None \<Rightarrow> [] | Some order \<Rightarrow> [(order, d)]) ds)"
  from y have y': "y \<in> set (update_orders (?stored @ new_rows ?n ?ins) ?upd)"
    unfolding upsert_exact [OF ds] by (simp add: Let_def)
  have rows: "\<exists>i d. d \<in> set ds \<and> z = new_order i d \<and> ?n \<le> Id z"
    if "z \<in> set (new_rows ?n ?ins)" for z
  proof -
    from that obtain i where i: "i < length ?ins" "z = new_rows ?n ?ins ! i"
      by (auto simp: in_set_conv_nth)
    then have z: "z = new_order (?n + i) (?ins ! i)"
      by (simp add: new_rows_nth)
    from i(1) have "?ins ! i \<in> set ?ins" by (rule nth_mem)
    then have "?ins ! i \<in> set ds" by simp
    with z show ?thesis by (intro exI [of _ "?n + i"] exI [of _ "?ins ! i"]) simp
  qed
  from wf have di0: "distinct (map Id ?stored)" and lt: "\<forall>order \<in> set ?stored. Id order < ?n"
    by (simp_all add: wf_store_def list_all_iff)
  from update_orders_elems [OF y'] consider
    (a) "y \<in> set (?stored @ new_rows ?n ?ins)"
    | (b) x old d where "x \<in> set (?stored @ new_rows ?n ?ins)" "(old, d) \<in> set ?upd"
        "Id old = Id x" "y = overwrite x d"
    by blast
  then show ?thesis
  proof cases
    case a
    show ?thesis
    proof (cases "y \<in> set ?stored")
      case True
      then show ?thesis by simp
    next
      case False
      with a have "y \<in> set (new_rows ?n ?ins)" by simp
      from rows [OF this] show ?thesis by blast
    qed
  next
    case b
    from b(2) have d: "d \<in> set ds" and ex: "?ex (OrderNumber d) = Some old"
      by (auto split: option.splits)
    from existing_SomeD [OF ex] have old: "old \<in> set ?stored" "OrderNumber old = OrderNumber d"
      by simp_all
    have "x \<in> set ?stored"
    proof (rule ccontr)
      assume "x \<notin> set ?stored"
      with b(1) have "x \<in> set (new_rows ?n ?ins)" by simp
      with rows have "?n \<le> Id x" by blast
      moreover from lt old(1) have "Id old < ?n" by blast
      ultimately show False using b(3) by simp
    qed
    with di0 old(1) b(3) have "x = old"
      by (metis distinct_map inj_onD)
    with old d b(4) show ?thesis by blast
  qed
qed


lemma pipeline_body_orders:
  "uploaded_orders (fst (pipeline_body env db tid c f u)) = uploaded_orders db
   \<or> (\<exists>info ps. uploaded_orders (fst (pipeline_body env db tid c f u))
         = uploaded_orders (fst (upsert (record_history info u db)
                                    (all_order_data env info tid u ps))))"
  by (auto simp: pipeline_body_def complete_upload_orders
      split: sum.splits option.splits prod.splits)

lemma final_orders_cases:
  "uploaded_orders (final_db (process_upload_background env db tid c f u)) = uploaded_orders db
   \<or> (\<exists>info ps db'. uploaded_orders db' = uploaded_orders db
         \<and> next_order_id db' = next_order_id db
         \<and> uploaded_orders (final_db (process_upload_background env db tid c f u))
             = uploaded_orders (fst (upsert db' (all_order_data env info tid u ps))))"
proof -
  let ?db = "update_task tid (\<lambda>t. t\<lparr>status := ''processing''\<rparr>) db"
  have "uploaded_orders (final_db (process_upload_background env db tid c f u)) = uploaded_orders db
      \<or> uploaded_orders (final_db (process_upload_background env db tid c f u))
          = uploaded_orders (fst (pipeline_body env ?db tid c f u))"
    by (auto simp: process_upload_background_def split: option.splits prod.splits sum.splits)
  moreover have "uploaded_orders (record_history info u ?db) = uploaded_orders db
      \<and> next_order_id (record_history info u ?db) = next_order_id db" for info
    by simp
  ultimately show ?thesis
    using pipeline_body_orders [of env ?db tid c f u] by (metis update_task_orders)
qed

lemma processed_dates_external:
  "processed_dates (env\<lparr>connect := a, execute := b, watchdog_fires := w\<rparr>) info m df valid
     = processed_dates env info m df valid"
proof -
  let ?env = "env\<lparr>connect := a, execute := b, watchdog_fires := w\<rparr>"
  have t: "tokopedia_date ?env info = tokopedia_date env info"
    by (simp add: tokopedia_date_def split: option.splits)
  have p: "process_date ?env x = process_date env x" for x
    by (simp add: process_date_def split: option.splits)
  show ?thesis
    unfolding processed_dates_def t p ..
qed

lemma process_rows_external:
  "process_rows (env\<lparr>connect := a, execute := b, watchdog_fires := w\<rparr>) info m df
     = process_rows env info m df"
  unfolding process_rows_def processed_dates_external ..

lemma raised_cases:
  assumes "session_error env = None" "task_query_error env = None"
  shows "raised (process_upload_background env db tid c f u)
     = (case read_upload env f c of
          Inl e \<Rightarrow> Some e
        | Inr (info, df, m) \<Rightarrow>
            (case check_columns info df m of
               Some (msg, e) \<Rightarrow> Some e
             | None \<Rightarrow> (case process_rows env info m df of Inl e \<Rightarrow> Some e | Inr ps \<Rightarrow> None)))"
  using process_failure_cases [OF assms, where f = f and c = c and db = db and tid = tid
      and u = u]
  by (auto split: sum.splits option.splits prod.splits)

lemma raised_external:
  "raised (process_upload_background (env\<lparr>connect := a, execute := b, watchdog_fires := w\<rparr>)
             db tid c f u)
     = raised (process_upload_background env db tid c f u)"
proof (cases "session_error env = None \<and> task_query_error env = None")
  case False
  then show ?thesis
    by (auto simp: process_upload_background_def split: option.splits)
next
  case True
  let ?env = "env\<lparr>connect := a, execute := b, watchdog_fires := w\<rparr>"
  have rd: "read_upload ?env f c = read_upload env f c"
    by (rule read_upload_env) simp_all
  from True have "session_error ?env = None" "task_query_error ?env = None" by simp_all
  from raised_cases [OF this] raised_cases [of env] True show ?thesis
    by (simp add: rd process_rows_external split: sum.splits option.splits prod.splits)
qed

text \<open>
  C6. An upload runs from a well-formed store that holds no record of its task. Every
  record of the task in the store afterwards whose order number is absent from the
  external result set (the connection is not made, or no query returns the number) has
  interface status \<open>Not Yet Interface\<close>, a foreign order number that is NULL or the empty
  string, the empty string as foreign order status and NULL as foreign item list. What
  the upload raises, if anything, does not depend on the external system: a failing
  connection, failing queries or a firing watchdog never abort it.
\<close>

theorem absent_orders_stay_not_interfaced:
  assumes "wf_store db" and "\<forall>order \<in> set (uploaded_orders db). TaskId order \<noteq> tid"
  shows "let out = process_upload_background env db tid c f u in
     (\<forall>order \<in> set (uploaded_orders (final_db out)).
         TaskId order = tid \<and> absent_from_external env (OrderNumber order) \<longrightarrow>
           InterfaceStatus order = ''Not Yet Interface''
           \<and> (OrderNumberFlexo order = None \<or> OrderNumberFlexo order = Some [])
           \<and> OrderStatusFlexo order = Some []
           \<and> ItemIdFlexo order = None)
   \<and> (\<forall>a b w. raised (process_upload_background
                   (env\<lparr>connect := a, execute := b, watchdog_fires := w\<rparr>) db tid c f u)
               = raised out)"
proof -
  let ?out = "process_upload_background env db tid c f u"
  have "InterfaceStatus y = ''Not Yet Interface''
           \<and> (OrderNumberFlexo y = None \<or> OrderNumberFlexo y = Some [])
           \<and> OrderStatusFlexo y = Some []
           \<and> ItemIdFlexo y = None"
    if y: "y \<in> set (uploaded_orders (final_db ?out))" and t: "TaskId y = tid"
      and ab: "absent_from_external env (OrderNumber y)" for y
  proof -
    from final_orders_cases [of env db tid c f u] consider
      (same) "uploaded_orders (final_db ?out) = uploaded_orders db"
      | (ups) info ps db' where "uploaded_orders db' = uploaded_orders db"
          "next_order_id db' = next_order_id db"
          "uploaded_orders (final_db ?out)
             = uploaded_orders (fst (upsert db' (all_order_data env info tid u ps)))"
      by blast
    then show ?thesis
    proof cases
      case same
      with y t assms(2) show ?thesis by auto
    next
      case ups
      let ?ds = "all_order_data env info tid u ps"
      from assms(1) ups(1,2) have wf: "wf_store db'" by (simp add: wf_store_def)
      from y ups(3) have "y \<in> set (uploaded_orders (fst (upsert db' ?ds)))" by simp
      from upsert_elems [OF wf all_order_data_distinct this] consider
        (old) "y \<in> set (uploaded_orders db')"
        | (new) i d where "d \<in> set ?ds" "y = new_order i d"
        | (upd) x d where "d \<in> set ?ds" "OrderNumber x = OrderNumber d" "y = overwrite x d"
        by blast
      then show ?thesis
      proof cases
        case old
        with t assms(2) ups(1) show ?thesis by auto
      next
        case new
        with ab have "absent_from_external env (OrderNumber d)" by simp
        from all_order_data_absent [OF new(1) this] new(2) show ?thesis
          by (auto simp: new_order_def)
      next
        case upd
        with ab have "absent_from_external env (OrderNumber d)" by simp
        from all_order_data_absent [OF upd(1) this] upd(3) show ?thesis
          by (auto simp: overwrite_def or_empty_def)
      qed
    qed
  qed
  then show ?thesis
    unfolding Let_def using raised_external by blast
qed

text \<open>
  The example export with the external system answering for \<open>S-100\<close> only: \<open>S-101\<close> is
  stored as not yet interfaced, and the upload completes as it does when the connection
  fails.
\<close>

theorem absent_orders_example:
  "absent_from_external example_env_connected ''S-101''
   \<and> map OrderNumber (uploaded_orders (final_db (process_upload_background
         example_env_connected example_db ''t1'' ''bytes'' ''AURA-SHOPEE-5-1.xlsx'' ''ani'')))
       = [''S-100'', ''S-101'']
   \<and> InterfaceStatus (uploaded_orders (final_db (process_upload_background
         example_env_connected example_db ''t1'' ''bytes'' ''AURA-SHOPEE-5-1.xlsx'' ''ani'')) ! 1)
       = ''Not Yet Interface''
   \<and> OrderStatusFlexo (uploaded_orders (final_db (process_upload_background
         example_env_connected example_db ''t1'' ''bytes'' ''AURA-SHOPEE-5-1.xlsx'' ''ani'')) ! 1)
       = Some []
   \<and> ItemIdFlexo (uploaded_orders (final_db (process_upload_background
         example_env_connected example_db ''t1'' ''bytes'' ''AURA-SHOPEE-5-1.xlsx'' ''ani'')) ! 1)
       = None
   \<and> raised (process_upload_background example_env example_db ''t1'' ''bytes''
         ''AURA-SHOPEE-5-1.xlsx'' ''ani'')
       = raised (process_upload_background example_env_connected example_db ''t1'' ''bytes''
           ''AURA-SHOPEE-5-1.xlsx'' ''ani'')"
proof -
  let ?out = "process_upload_background example_env_connected example_db ''t1'' ''bytes''
      ''AURA-SHOPEE-5-1.xlsx'' ''ani''"
  let ?y = "uploaded_orders (final_db ?out) ! 1"
  have wf: "wf_store example_db"
    by code_simp
  have fresh: "\<forall>order \<in> set (uploaded_orders example_db). TaskId order \<noteq> ''t1''"
    by (simp add: example_db_def)
  have absent: "absent_from_external example_env_connected ''S-101''"
    by (simp add: absent_from_external_def example_env_connected_def example_row_def)
  have numbers: "map OrderNumber (uploaded_orders (final_db ?out)) = [''S-100'', ''S-101'']"
    by code_simp
  have tasks: "map TaskId (uploaded_orders (final_db ?out)) = [''t1'', ''t1'']"
    by code_simp
  from numbers have len: "length (uploaded_orders (final_db ?out)) = 2"
    by (metis length_map length_Cons list.size(3) One_nat_def Suc_1)
  then have mem: "?y \<in> set (uploaded_orders (final_db ?out))"
    by simp
  have "OrderNumber ?y = map OrderNumber (uploaded_orders (final_db ?out)) ! 1"
    using len by simp
  then have number: "OrderNumber ?y = ''S-101''"
    unfolding numbers by simp
  have "TaskId ?y = map TaskId (uploaded_orders (final_db ?out)) ! 1"
    using len by simp
  then have task: "TaskId ?y = ''t1''"
    unfolding tasks by simp
  have env: "example_env
      = example_env_connected\<lparr>connect := False, execute := (\<lambda>_ _. Inr []),
          watchdog_fires := (\<lambda>_. False)\<rparr>"
    by (simp add: example_env_connected_def example_env_def)
  from absent_orders_stay_not_interfaced [OF wf fresh, of example_env_connected "''bytes''"
      "''AURA-SHOPEE-5-1.xlsx''" "''ani''"]
  have all: "\<forall>order \<in> set (uploaded_orders (final_db ?out)).
         TaskId order = ''t1'' \<and> absent_from_external example_env_connected (OrderNumber order)
           \<longrightarrow> InterfaceStatus order = ''Not Yet Interface''
             \<and> (OrderNumberFlexo order = None \<or> OrderNumberFlexo order = Some [])
             \<and> OrderStatusFlexo order = Some []
             \<and> ItemIdFlexo order = None"
    and same: "\<forall>a b w. raised (process_upload_background
                   (example_env_connected\<lparr>connect := a, execute := b, watchdog_fires := w\<rparr>)
                   example_db ''t1'' ''bytes'' ''AURA-SHOPEE-5-1.xlsx'' ''ani'')
               = raised ?out"
    unfolding Let_def by blast+
  from all mem task number absent
  have "InterfaceStatus ?y = ''Not Yet Interface'' \<and> OrderStatusFlexo ?y = Some []
      \<and> ItemIdFlexo ?y = None"
    by metis
  moreover from same have "raised (process_upload_background example_env example_db ''t1''
      ''bytes'' ''AURA-SHOPEE-5-1.xlsx'' ''ani'') = raised ?out"
    unfolding env by blast
  ultimately show ?thesis
    using absent numbers by blast
qed

text \<open>
  The foreign order status of an order absent from the external result set is stored as
  the empty string, not as NULL: the example export with the connection failing.
\<close>

theorem absent_orders_status_not_null:
  "\<not> connect (upload_env example_upload)
   \<and> map InterfaceStatus (uploaded_orders (final_db (process_upload example_db example_upload)))
       = [''Not Yet Interface'', ''Not Yet Interface'']
   \<and> map OrderStatusFlexo (uploaded_orders (final_db (process_upload example_db example_upload)))
       = [Some [], Some []]
   \<and> None \<notin> set (map OrderStatusFlexo
         (uploaded_orders (final_db (process_upload example_db example_upload))))"
  by code_simp

section \<open>The orderlist handoff file\<close>

lemma strip_Nil_iff: "strip s = [] \<longleftrightarrow> (\<forall>c \<in> set s. is_space c)"
proof
  assume "strip s = []"
  then have all: "\<forall>c \<in> set (dropWhile is_space s). is_space c"
    by (simp add: strip_def)
  have "dropWhile is_space s = []"
  proof (rule ccontr)
    assume ne: "dropWhile is_space s \<noteq> []"
    then have "\<not> is_space (hd (dropWhile is_space s))" by (rule hd_dropWhile)
    moreover from ne have "hd (dropWhile is_space s) \<in> set (dropWhile is_space s)" by simp
    ultimately show False using all by blast
  qed
  then show "\<forall>c \<in> set s. is_space c" by simp
next
  assume "\<forall>c \<in> set s. is_space c"
  then have d: "dropWhile is_space s = []" by simp
  show "strip s = []" unfolding strip_def d by simp
qed

lemma split_lines_line:
  "list_all (\<lambda>c. \<not> is_line_break c) l \<Longrightarrow> split_lines (l @ CHR 0x0A # rest) = l # split_lines rest"
  by (induction l) (simp_all add: is_line_break_def)

lemma count_orders_Nil: "count_orders [] = 0"
  by (simp add: count_orders_def strip_def)

lemma count_orders_line:
  "list_all (\<lambda>c. \<not> is_line_break c) l \<Longrightarrow>
     count_orders (l @ CHR 0x0A # rest) = (if strip l = [] then 0 else 1) + count_orders rest"
  by (simp add: count_orders_def split_lines_line)

lemma orderlist_line_shape:
  assumes "clean_number n" "clean_key shop"
  shows "\<exists>l. orderlist_line channel shop n = l @ CHR 0x0A # []
           \<and> list_all (\<lambda>c. \<not> is_line_break c) l \<and> strip l \<noteq> []"
proof -
  from assms(1) obtain c where c: "c \<in> set n" "\<not> is_space c"
    by (auto simp: clean_number_def strip_Nil_iff)
  have comma: "\<not> is_line_break CHR '',''"
    by (simp add: is_line_break_def)
  from assms(1) have n: "list_all (\<lambda>c. \<not> is_line_break c) n"
    by (simp add: clean_number_def)
  show ?thesis
  proof (cases "(lower channel = ''zalora'' \<or> lower channel = ''blibli'') \<and> shop \<noteq> None")
    case True
    then obtain k where k: "shop = Some k" by auto
    with assms(2) have "list_all (\<lambda>c. \<not> is_line_break c) k" by (simp add: clean_key_def)
    with n comma have "list_all (\<lambda>c. \<not> is_line_break c) (n @ '','' @ k)" by simp
    moreover from c have "strip (n @ '','' @ k) \<noteq> []" by (auto simp: strip_Nil_iff)
    moreover from True k have "orderlist_line channel shop n = (n @ '','' @ k) @ CHR 0x0A # []"
      by (simp add: orderlist_line_def)
    ultimately show ?thesis by blast
  next
    case False
    then have "orderlist_line channel shop n = n @ CHR 0x0A # []"
      by (auto simp: orderlist_line_def split: option.splits)
    moreover from c have "strip n \<noteq> []" by (auto simp: strip_Nil_iff)
    ultimately show ?thesis using n by blast
  qed
qed

lemma count_orders_orderlist:
  assumes "list_all clean_number ns" "clean_key shop"
  shows "count_orders (concat (map (orderlist_line channel shop) ns)) = length ns"
  using assms(1)
proof (induction ns)
  case Nil
  show ?case by (simp add: count_orders_Nil)
next
  case (Cons n ns)
  then have "clean_number n" by simp
  from orderlist_line_shape [OF this assms(2), of channel] obtain l where
    l: "orderlist_line channel shop n = l @ CHR 0x0A # []"
      "list_all (\<lambda>c. \<not> is_line_break c) l" "strip l \<noteq> []"
    by blast
  have "count_orders (concat (map (orderlist_line channel shop) (n # ns)))
      = count_orders (l @ CHR 0x0A # concat (map (orderlist_line channel shop) ns))"
    by (simp add: l(1))
  also have "\<dots> = 1 + count_orders (concat (map (orderlist_line channel shop) ns))"
    using l(2,3) by (simp add: count_orders_line)
  finally show ?case using Cons by simp
qed

text \<open>
  C8. For orders of which one at least is not yet interfaced, on a known marketplace, the
  writer writes one line per non-empty order number of the not-yet-interfaced orders and
  reports success with their count, whatever the verification finds: the verification
  result is whether the count of non-blank lines of the file equals that count, the file
  stays as written (the writer names no backup, so nothing is restored) and no other file
  is touched. When the order numbers and the shop key are clean, the verification holds:
  the file has as many non-blank lines as there are such orders.
\<close>

theorem orderlist_verification_never_blocks:
  assumes "\<exists>order \<in> set orders. InterfaceStatus order = ''Not Yet Interface''"
    and "marketplace_folder_mapping (lower channel) \<noteq> None"
  shows "let (fs', report) =
           generate_orderlist_for_not_interfaced fs orderlist_path orders channel brand_name db;
         numbers = not_interfaced_numbers orders;
         content = concat (map (orderlist_line channel
                     (get_shop_id_from_brand_shops brand_name channel db)) numbers)
     in success report
        \<and> order_count report = length numbers
        \<and> fs' = fs(orderlist_path \<mapsto> content)
        \<and> verification_result report = (count_orders content = length numbers)
        \<and> (list_all clean_number numbers
             \<and> clean_key (get_shop_id_from_brand_shops brand_name channel db)
             \<longrightarrow> verification_result report \<and> count_orders content = length numbers)"
proof -
  let ?nyi = "filter (\<lambda>order. InterfaceStatus order = ''Not Yet Interface'') orders"
  let ?shop = "get_shop_id_from_brand_shops brand_name channel db"
  let ?numbers = "not_interfaced_numbers orders"
  let ?content = "concat (map (orderlist_line channel ?shop) ?numbers)"
  from assms(1) have ne: "?nyi \<noteq> []"
    by (simp add: filter_empty_conv)
  from assms(2) obtain folder where folder: "marketplace_folder_mapping (lower channel) = Some folder"
    by auto
  have verify: "verify_and_restore_orderlist (fs(orderlist_path \<mapsto> ?content)) orderlist_path None
        (length ?numbers)
      = (fs(orderlist_path \<mapsto> ?content), count_orders ?content = length ?numbers)"
    by (simp add: verify_and_restore_orderlist_def)
  have gen: "generate_orderlist_for_not_interfaced fs orderlist_path orders channel brand_name db
      = (fs(orderlist_path \<mapsto> ?content),
         \<lparr>success = True, reason = None, order_count = length ?numbers, shop_id = ?shop,
          shop_id_warning = (?shop = None),
          verification_result = (count_orders ?content = length ?numbers)\<rparr>)"
    unfolding generate_orderlist_for_not_interfaced_def Let_def
    using ne folder verify by (simp add: not_interfaced_numbers_def)
  show ?thesis
    unfolding gen Let_def by (simp add: count_orders_orderlist)
qed

text \<open>
  The two orders stored by the example upload, neither interfaced: the file holds their
  two numbers and the verification holds.
\<close>

theorem orderlist_example:
  "success (snd (generate_orderlist_for_not_interfaced Map.empty ''Orderlist_t1.txt''
      (uploaded_orders (final_db (process_upload example_db example_upload)))
      ''SHOPEE'' ''AURA'' example_db))
   \<and> order_count (snd (generate_orderlist_for_not_interfaced Map.empty ''Orderlist_t1.txt''
      (uploaded_orders (final_db (process_upload example_db example_upload)))
      ''SHOPEE'' ''AURA'' example_db)) = 2
   \<and> verification_result (snd (generate_orderlist_for_not_interfaced Map.empty
      ''Orderlist_t1.txt''
      (uploaded_orders (final_db (process_upload example_db example_upload)))
      ''SHOPEE'' ''AURA'' example_db))
   \<and> fst (generate_orderlist_for_not_interfaced Map.empty ''Orderlist_t1.txt''
      (uploaded_orders (final_db (process_upload example_db example_upload)))
      ''SHOPEE'' ''AURA'' example_db) ''Orderlist_t1.txt''
       = Some (''S-100'' @ [CHR 0x0A] @ ''S-101'' @ [CHR 0x0A])"
proof -
  let ?orders = "uploaded_orders (final_db (process_upload example_db example_upload))"
  let ?shop = "get_shop_id_from_brand_shops ''AURA'' ''SHOPEE'' example_db"
  let ?G = "generate_orderlist_for_not_interfaced Map.empty ''Orderlist_t1.txt'' ?orders
      ''SHOPEE'' ''AURA'' example_db"
  have some: "\<exists>order \<in> set ?orders. InterfaceStatus order = ''Not Yet Interface''"
    by code_simp
  have known: "marketplace_folder_mapping (lower ''SHOPEE'') \<noteq> None"
    by code_simp
  have numbers: "not_interfaced_numbers ?orders = [''S-100'', ''S-101'']"
    by code_simp
  have clean: "list_all clean_number (not_interfaced_numbers ?orders)"
    by code_simp
  have key: "clean_key ?shop"
    by code_simp
  have content: "concat (map (orderlist_line ''SHOPEE'' ?shop) (not_interfaced_numbers ?orders))
      = ''S-100'' @ [CHR 0x0A] @ ''S-101'' @ [CHR 0x0A]"
    by code_simp
  from orderlist_verification_never_blocks [OF some known, of Map.empty "''Orderlist_t1.txt''"
      "''AURA''" example_db] clean key
  have "success (snd ?G)
      \<and> order_count (snd ?G) = length (not_interfaced_numbers ?orders)
      \<and> fst ?G = Map.empty(''Orderlist_t1.txt'' \<mapsto>
           concat (map (orderlist_line ''SHOPEE'' ?shop) (not_interfaced_numbers ?orders)))
      \<and> verification_result (snd ?G)"
    by (simp add: Let_def case_prod_beta)
  then have a: "success (snd ?G)"
    and b: "order_count (snd ?G) = length (not_interfaced_numbers ?orders)"
    and c: "fst ?G = Map.empty(''Orderlist_t1.txt'' \<mapsto>
           concat (map (orderlist_line ''SHOPEE'' ?shop) (not_interfaced_numbers ?orders)))"
    and d: "verification_result (snd ?G)"
    by blast+
  from c have c': "fst ?G ''Orderlist_t1.txt'' = Some (''S-100'' @ [CHR 0x0A] @ ''S-101'' @ [CHR 0x0A])"
    unfolding content by simp
  from b have b': "order_count (snd ?G) = 2"
    unfolding numbers by simp
  from a b' c' d show ?thesis by blast
qed

text \<open>
  One order that is not yet interfaced, with a line break in its number: the file has two
  non-blank lines for one order, the verification fails, nothing is restored and the
  writer reports success.
\<close>

theorem orderlist_count_differs:
  "InterfaceStatus example_order = ''Not Yet Interface''
   \<and> success (snd (generate_orderlist_for_not_interfaced Map.empty ''Orderlist_t1.txt''
        [example_order] ''SHOPEE'' ''AURA'' example_db))
   \<and> order_count (snd (generate_orderlist_for_not_interfaced Map.empty ''Orderlist_t1.txt''
        [example_order] ''SHOPEE'' ''AURA'' example_db)) = 1
   \<and> \<not> verification_result (snd (generate_orderlist_for_not_interfaced Map.empty
        ''Orderlist_t1.txt'' [example_order] ''SHOPEE'' ''AURA'' example_db))
   \<and> map_option count_orders
        (fst (generate_orderlist_for_not_interfaced Map.empty ''Orderlist_t1.txt''
           [example_order] ''SHOPEE'' ''AURA'' example_db) ''Orderlist_t1.txt'') = Some 2"
  by code_simp

section \<open>Submissions without a shop key\<close>

lemma validate_missing_shop_key:
  assumes "parse_filename (file_filename file) = Inr (Some info)"
    and "get_shop_id_from_brand_shops (brand info) (sales_channel info) db = None"
  shows "\<exists>e. validate_upload_request file db = Inl e"
  using assms by (simp add: validate_upload_request_def split: option.splits)

lemma writer_missing_shop_key:
  assumes "get_shop_id_from_brand_shops brand_name channel db = None"
    and "\<exists>order \<in> set orders. InterfaceStatus order = ''Not Yet Interface''"
    and "marketplace_folder_mapping (lower channel) \<noteq> None"
  shows "success (snd (generate_orderlist_for_not_interfaced fs path orders channel brand_name db))
     \<and> shop_id_warning
         (snd (generate_orderlist_for_not_interfaced fs path orders channel brand_name db))"
proof -
  from assms(2) have "filter (\<lambda>order. InterfaceStatus order = ''Not Yet Interface'') orders \<noteq> []"
    by (simp add: filter_empty_conv)
  with assms(1,3) show ?thesis
    by (auto simp: generate_orderlist_for_not_interfaced_def Let_def case_prod_beta)
qed

text \<open>
  C10. A submission whose file name parses to a brand and a marketplace for which
  \<open>brand_shops\<close> holds no shop key is rejected by the endpoint: the validation raises, the
  endpoint answers with the \<open>HTTPException\<close> that carries the validation's message, the
  database is as before (no task row is added) and no background job is scheduled. The
  writer, for the same brand and marketplace, still writes the file and reports success
  with a warning.
\<close>

theorem missing_shop_key_rejected_at_submission:
  assumes "parse_filename (file_filename file) = Inr (Some info)"
    and "get_shop_id_from_brand_shops (brand info) (sales_channel info) db = None"
  shows "(\<exists>e. validate_upload_request file db = Inl e
            \<and> upload_file_background new_task_id file current_user db
                = (Inl (HTTPException 500 (''Background upload failed: '' @ str_of_error e)),
                   db, []))
     \<and> (\<forall>fs path orders.
           (\<exists>order \<in> set orders. InterfaceStatus order = ''Not Yet Interface'')
           \<and> marketplace_folder_mapping (lower (sales_channel info)) \<noteq> None
           \<longrightarrow> success (snd (generate_orderlist_for_not_interfaced fs path orders
                    (sales_channel info) (brand info) db))
               \<and> shop_id_warning (snd (generate_orderlist_for_not_interfaced fs path orders
                    (sales_channel info) (brand info) db)))"
proof -
  from validate_missing_shop_key [OF assms] obtain e where
    e: "validate_upload_request file db = Inl e" ..
  then have "upload_file_background new_task_id file current_user db
      = (Inl (HTTPException 500 (''Background upload failed: '' @ str_of_error e)), db, [])"
    by (simp add: upload_file_background_def)
  with e show ?thesis
    using writer_missing_shop_key [OF assms(2)] by blast
qed

text \<open>
  The example file submitted while \<open>brand_shops\<close> is empty, and the writer run for an
  order of the same brand and marketplace.
\<close>

theorem missing_shop_key_example:
  "upload_file_background ''upload_ani_7_0a1b2c3d'' example_file ''ani'' example_db
     = (Inl (HTTPException 500
          (''Background upload failed: 400: No shop_id found for AURA in SHOPEE. ''
           @ ''Please add shop_id configuration before uploading.'')),
        example_db, [])
   \<and> success (snd (generate_orderlist_for_not_interfaced Map.empty ''Orderlist_t1.txt''
        [example_order] ''SHOPEE'' ''AURA'' example_db))
   \<and> shop_id_warning (snd (generate_orderlist_for_not_interfaced Map.empty ''Orderlist_t1.txt''
        [example_order] ''SHOPEE'' ''AURA'' example_db))"
proof -
  have parsed: "parse_filename (file_filename example_file) = Inr (Some example_info)"
    by code_simp
  have no_key: "get_shop_id_from_brand_shops (brand example_info) (sales_channel example_info)
      example_db = None"
    by code_simp
  have size: "file_size example_file = Some 1000" "\<not> 1000 > MAX_FILE_SIZE"
    by (simp_all add: example_file_def MAX_FILE_SIZE_def)
  have name: "file_filename example_file \<noteq> []"
    by (simp add: example_file_def)
  have ext: "lower (splitext_ext (file_filename example_file)) \<in> set ALLOWED_EXTENSIONS"
    by code_simp
  have mime: "file_content_type example_file \<in> set ALLOWED_MIME_TYPES"
    by code_simp
  have chars: "\<not> list_ex (contains (file_filename example_file))
      [''..'', ''/'', [CHR 0x5C], ''<'', ''>'', '':'', [CHR 0x22], ''|'', ''?'', ''*'']"
    by code_simp
  have validation: "validate_upload_request example_file example_db
      = Inl (HTTPException 400 (''No shop_id found for AURA in SHOPEE. ''
           @ ''Please add shop_id configuration before uploading.''))"
    unfolding validate_upload_request_def
    using size name ext mime chars parsed no_key by (simp add: example_info_def)
  have detail: "str_of_error (HTTPException 400 (''No shop_id found for AURA in SHOPEE. ''
           @ ''Please add shop_id configuration before uploading.''))
      = ''400: No shop_id found for AURA in SHOPEE. ''
           @ ''Please add shop_id configuration before uploading.''"
    by code_simp
  have order: "\<exists>order \<in> set [example_order]. InterfaceStatus order = ''Not Yet Interface''"
    by (simp add: example_order_def)
  have known: "marketplace_folder_mapping (lower (sales_channel example_info)) \<noteq> None"
    by code_simp
  have info: "sales_channel example_info = ''SHOPEE''" "brand example_info = ''AURA''"
    by (simp_all add: example_info_def)
  from missing_shop_key_rejected_at_submission [OF parsed no_key, of "''upload_ani_7_0a1b2c3d''"
      "''ani''"]
  obtain e where e: "validate_upload_request example_file example_db = Inl e"
      "upload_file_background ''upload_ani_7_0a1b2c3d'' example_file ''ani'' example_db
         = (Inl (HTTPException 500 (''Background upload failed: '' @ str_of_error e)),
            example_db, [])"
    and writer: "\<forall>fs path orders.
           (\<exists>order \<in> set orders. InterfaceStatus order = ''Not Yet Interface'')
           \<and> marketplace_folder_mapping (lower (sales_channel example_info)) \<noteq> None
           \<longrightarrow> success (snd (generate_orderlist_for_not_interfaced fs path orders
                    (sales_channel example_info) (brand example_info) example_db))
               \<and> shop_id_warning (snd (generate_orderlist_for_not_interfaced fs path orders
                    (sales_channel example_info) (brand example_info) example_db))"
    by blast
  from e(1) validation have "e = HTTPException 400 (''No shop_id found for AURA in SHOPEE. ''
           @ ''Please add shop_id configuration before uploading.'')"
    by simp
  with e(2) detail have first: "upload_file_background ''upload_ani_7_0a1b2c3d'' example_file
      ''ani'' example_db
     = (Inl (HTTPException 500
          (''Background upload failed: 400: No shop_id found for AURA in SHOPEE. ''
           @ ''Please add shop_id configuration before uploading.'')),
        example_db, [])"
    by simp
  from writer order known
  have "success (snd (generate_orderlist_for_not_interfaced Map.empty ''Orderlist_t1.txt''
        [example_order] (sales_channel example_info) (brand example_info) example_db))
   \<and> shop_id_warning (snd (generate_orderlist_for_not_interfaced Map.empty ''Orderlist_t1.txt''
        [example_order] (sales_channel example_info) (brand example_info) example_db))"
    by blast
  with first show ?thesis
    unfolding info by blast
qed

section \<open>The watchdog race\<close>

text \<open>
  C3. The schedule \<open>late_schedule\<close> of one chunk: the watchdog fires while the query is
  running, the main thread leaves the join, cancels the timer, finds the event set and
  resets \<open>chunk_interface_results\<close>; the query thread then finishes and assigns its answer
  to the same variable, and the main thread merges it. Whatever the answer and the
  results merged so far, the run ends with the event set, the thread having completed
  late, and the late answer merged into the interface results. On the schedule in which
  the query thread does not finish, the merged results stay as they were.
\<close>

theorem late_result_is_merged:
  "run_schedule answer (chunk_start interface_results) late_schedule
     = Some \<lparr>pc = NextChunk, chunk_interface_results = answer, timeout_occurred = True,
             timer = TimerFired, check_thread = ThreadFinished,
             merged_results = interface_results ++ answer, completed_late = True\<rparr>
   \<and> map_option merged_results
        (run_schedule answer (chunk_start interface_results)
           [MainThread, MainThread, MainThread, TimerThread, MainThread, MainThread,
            MainThread, MainThread, MainThread])
       = Some interface_results"
  by (simp add: late_schedule_def chunk_start_def chunk_step_def main_step_def)

text \<open>
  The chunk of the one order \<open>S-100\<close>, which the external system knows as interfaced: on
  \<open>late_schedule\<close> the order's interface status comes out as \<open>Interface\<close>, where a chunk
  that contributes nothing leaves the order without an entry, at \<open>Not Yet Interface\<close>.
\<close>

theorem late_result_example:
  "map_option (\<lambda>s. (timeout_occurred s, completed_late s,
                    fst (interface_fields (merged_results s ''S-100''))))
     (run_schedule (check_interface_status example_env_connected [''S-100''] ''SHOPEE'')
        (chunk_start Map.empty) late_schedule)
     = Some (True, True, ''Interface'')
   \<and> fst (interface_fields None) = ''Not Yet Interface''"
proof -
  let ?answer = "check_interface_status example_env_connected [''S-100''] ''SHOPEE''"
  have merged: "fst (interface_fields ((Map.empty ++ ?answer) ''S-100'')) = ''Interface''"
    by code_simp
  have unmerged: "fst (interface_fields None) = ''Not Yet Interface''"
    by (simp add: interface_fields_def)
  from late_result_is_merged [of ?answer Map.empty]
  have "run_schedule ?answer (chunk_start Map.empty) late_schedule
     = Some \<lparr>pc = NextChunk, chunk_interface_results = ?answer, timeout_occurred = True,
             timer = TimerFired, check_thread = ThreadFinished,
             merged_results = Map.empty ++ ?answer, completed_late = True\<rparr>"
    by blast
  then have "map_option (\<lambda>s. (timeout_occurred s, completed_late s,
                    fst (interface_fields (merged_results s ''S-100''))))
     (run_schedule ?answer (chunk_start Map.empty) late_schedule)
     = Some (True, True, ''Interface'')"
    using merged by simp
  then show ?thesis using unmerged by (rule conjI)
qed

end
